theory Spec2Isabelle
  imports Complex_Main "HOL-Library.Word" "HOL-Library.Log_Nat"
begin

section \<open>Go primitives used by the booking service\<close>

text \<open>
  \<^verbatim>\<open>uuid.UUID\<close> is a 16-byte array, \<^verbatim>\<open>uuid.Nil\<close> the all-zero one. \<^verbatim>\<open>int64\<close> is a 64-bit
  two's complement word: \<open>+\<close> and \<open>-\<close> wrap, \<open>sint\<close> reads the signed value. An instant
  (\<^verbatim>\<open>time.Time\<close>) is a point on the integer time line; every call of \<^verbatim>\<open>time.Now().UTC()\<close>
  of the source is an argument of the function that makes it.
\<close>

type_synonym uuid = "128 word"
type_synonym int64 = "64 word"
type_synonym time = int

definition uuid_Nil :: uuid where
  "uuid_Nil = 0"

text \<open>
  Errors. \<^verbatim>\<open>fmt.Errorf\<close> without \<^verbatim>\<open>%w\<close> is \<open>Errorf\<close>, with \<^verbatim>\<open>%w\<close> it is \<open>Wrapf\<close> around
  the cause. The four typed errors are built by the constructors of the shared
  \<^verbatim>\<open>lib-common/domain\<close> package (\<^verbatim>\<open>NewValidationError\<close>, \<^verbatim>\<open>NewInvalidStateError\<close>,
  \<^verbatim>\<open>NewNotFoundError\<close>, \<^verbatim>\<open>NewConflictError\<close>). \<open>Panic\<close> is a run-time panic.
\<close>

datatype error =
    Errorf string
  | Wrapf string error
  | ValidationError string
  | InvalidStateError string string
  | NotFoundError string string
  | ConflictError string
  | Panic string

subsection \<open>float64\<close>

text \<open>
  A \<^verbatim>\<open>float64\<close> is a finite binary64 number (held as the rational it denotes), an
  infinity or a NaN. \<open>f64_round\<close> rounds a rational to the nearest binary64 number, ties
  to even, with gradual underflow and overflow to infinity: 53 significant bits, least
  normal exponent \<open>-1022\<close>. Multiplication rounds the exact product; comparisons with a
  NaN are false.
\<close>

datatype float64 = F64 rat | F64_PosInf | F64_NegInf | F64_NaN

definition pow2 :: "int \<Rightarrow> rat" where
  "pow2 e = (if 0 \<le> e then 2 ^ nat e else 1 / 2 ^ nat (- e))"

definition ilog2 :: "rat \<Rightarrow> int" where
  "ilog2 x = (if 1 \<le> x then bitlen \<lfloor>x\<rfloor> - 1 else - bitlen (\<lceil>1 / x\<rceil> - 1))"

definition round_half_even :: "rat \<Rightarrow> int" where
  "round_half_even x =
     (let f = \<lfloor>x\<rfloor>; d = x - of_int f
      in if d < 1 / 2 then f else if 1 / 2 < d then f + 1 else if even f then f else f + 1)"

definition f64_round :: "rat \<Rightarrow> float64" where
  "f64_round x =
     (if x = 0 then F64 0
      else let e = max (ilog2 \<bar>x\<bar>) (- 1022);
               q = pow2 (e - 52);
               y = of_int (round_half_even (\<bar>x\<bar> / q)) * q
           in if pow2 1024 \<le> y then (if 0 < x then F64_PosInf else F64_NegInf)
              else F64 (sgn x * y))"

fun f64_mul :: "float64 \<Rightarrow> float64 \<Rightarrow> float64" where
  "f64_mul F64_NaN _ = F64_NaN"
| "f64_mul _ F64_NaN = F64_NaN"
| "f64_mul (F64 x) (F64 y) = f64_round (x * y)"
| "f64_mul (F64 x) F64_PosInf = (if x = 0 then F64_NaN else if 0 < x then F64_PosInf else F64_NegInf)"
| "f64_mul (F64 x) F64_NegInf = (if x = 0 then F64_NaN else if 0 < x then F64_NegInf else F64_PosInf)"
| "f64_mul F64_PosInf (F64 y) = (if y = 0 then F64_NaN else if 0 < y then F64_PosInf else F64_NegInf)"
| "f64_mul F64_NegInf (F64 y) = (if y = 0 then F64_NaN else if 0 < y then F64_NegInf else F64_PosInf)"
| "f64_mul F64_PosInf F64_PosInf = F64_PosInf"
| "f64_mul F64_PosInf F64_NegInf = F64_NegInf"
| "f64_mul F64_NegInf F64_PosInf = F64_NegInf"
| "f64_mul F64_NegInf F64_NegInf = F64_PosInf"

fun f64_lt :: "float64 \<Rightarrow> float64 \<Rightarrow> bool" where
  "f64_lt F64_NaN _ = False"
| "f64_lt _ F64_NaN = False"
| "f64_lt (F64 x) (F64 y) = (x < y)"
| "f64_lt F64_NegInf F64_NegInf = False"
| "f64_lt F64_NegInf _ = True"
| "f64_lt _ F64_NegInf = False"
| "f64_lt F64_PosInf _ = False"
| "f64_lt (F64 x) F64_PosInf = True"

fun f64_le :: "float64 \<Rightarrow> float64 \<Rightarrow> bool" where
  "f64_le F64_NaN _ = False"
| "f64_le _ F64_NaN = False"
| "f64_le (F64 x) (F64 y) = (x \<le> y)"
| "f64_le F64_NegInf _ = True"
| "f64_le _ F64_NegInf = False"
| "f64_le _ F64_PosInf = True"
| "f64_le F64_PosInf (F64 y) = False"

text \<open>
  The conversion \<^verbatim>\<open>int64(f)\<close> discards the fraction (truncation towards zero). When the
  truncated value does not fit, or \<open>f\<close> is not finite, the Go specification leaves the
  result to the implementation: \<open>impl\<close> is what this implementation returns then.
\<close>

definition rat_trunc :: "rat \<Rightarrow> int" where
  "rat_trunc x = (if 0 \<le> x then \<lfloor>x\<rfloor> else \<lceil>x\<rceil>)"

definition int64_of_float64 :: "(float64 \<Rightarrow> int64) \<Rightarrow> float64 \<Rightarrow> int64" where
  "int64_of_float64 impl f =
     (case f of
        F64 x \<Rightarrow>
          (let t = rat_trunc x
           in if - (2 ^ 63) \<le> t \<and> t < 2 ^ 63 then word_of_int t else impl f)
      | _ \<Rightarrow> impl f)"

section \<open>booking\_status.go\<close>

type_synonym BookingStatus = string

definition StatusRequested :: BookingStatus where
  "StatusRequested = ''requested''"

definition StatusAccepted :: BookingStatus where
  "StatusAccepted = ''accepted''"

definition StatusInProgress :: BookingStatus where
  "StatusInProgress = ''in_progress''"

definition StatusDelivered :: BookingStatus where
  "StatusDelivered = ''delivered''"

definition StatusCompleted :: BookingStatus where
  "StatusCompleted = ''completed''"

definition StatusCancelled :: BookingStatus where
  "StatusCancelled = ''cancelled''"

definition validTransitions :: "BookingStatus \<rightharpoonup> BookingStatus list" where
  "validTransitions = map_of
     [(StatusRequested, [StatusAccepted, StatusCancelled]),
      (StatusAccepted, [StatusInProgress, StatusCancelled]),
      (StatusInProgress, [StatusDelivered, StatusCancelled]),
      (StatusDelivered, [StatusCompleted]),
      (StatusCompleted, []),
      (StatusCancelled, [])]"

definition IsValid :: "BookingStatus \<Rightarrow> bool" where
  "IsValid s = (case validTransitions s of None \<Rightarrow> False | Some _ \<Rightarrow> True)"

text \<open>The \<^verbatim>\<open>for _, t := range allowed\<close> loop of \<^verbatim>\<open>CanTransitionTo\<close>.\<close>

fun range_allowed :: "BookingStatus list \<Rightarrow> BookingStatus \<Rightarrow> bool" where
  "range_allowed [] target = False"
| "range_allowed (t # ts) target = (if t = target then True else range_allowed ts target)"

definition CanTransitionTo :: "BookingStatus \<Rightarrow> BookingStatus \<Rightarrow> bool" where
  "CanTransitionTo s target =
     (case validTransitions s of
        None \<Rightarrow> False
      | Some allowed \<Rightarrow> range_allowed allowed target)"

definition IsTerminal :: "BookingStatus \<Rightarrow> bool" where
  "IsTerminal s =
     (case validTransitions s of
        None \<Rightarrow> True
      | Some allowed \<Rightarrow> length allowed = 0)"

definition CanBeCancelled :: "BookingStatus \<Rightarrow> bool" where
  "CanBeCancelled s = CanTransitionTo s StatusCancelled"

definition ParseBookingStatus :: "string \<Rightarrow> error + BookingStatus" where
  "ParseBookingStatus s =
     (if \<not> IsValid s then Inl (Errorf (''invalid booking status: '' @ s)) else Inr s)"

section \<open>pet\_specification.go\<close>

type_synonym PetType = string
type_synonym CrateSize = string

definition PetTypeCat :: PetType where
  "PetTypeCat = ''cat''"

definition PetTypeDog :: PetType where
  "PetTypeDog = ''dog''"

definition PetTypeBird :: PetType where
  "PetTypeBird = ''bird''"

definition PetTypeRabbit :: PetType where
  "PetTypeRabbit = ''rabbit''"

definition PetTypeReptile :: PetType where
  "PetTypeReptile = ''reptile''"

definition PetTypeOther :: PetType where
  "PetTypeOther = ''other''"

definition PetType_IsValid :: "PetType \<Rightarrow> bool" where
  "PetType_IsValid p =
     (if p = PetTypeCat \<or> p = PetTypeDog \<or> p = PetTypeBird \<or> p = PetTypeRabbit
         \<or> p = PetTypeReptile \<or> p = PetTypeOther
      then True else False)"

definition CrateSizeSmall :: CrateSize where
  "CrateSizeSmall = ''small''"

definition CrateSizeMedium :: CrateSize where
  "CrateSizeMedium = ''medium''"

definition CrateSizeLarge :: CrateSize where
  "CrateSizeLarge = ''large''"

definition CrateSizeXLarge :: CrateSize where
  "CrateSizeXLarge = ''xlarge''"

definition CrateSize_IsValid :: "CrateSize \<Rightarrow> bool" where
  "CrateSize_IsValid c =
     (if c = CrateSizeSmall \<or> c = CrateSizeMedium \<or> c = CrateSizeLarge \<or> c = CrateSizeXLarge
      then True else False)"

record VaccinationRecord =
  VaccineName :: string
  DateGiven :: time
  ExpiresAt :: "time option"
  VetName :: string
  Verified :: bool

record PetSpecification =
  PetType :: string
  Breed :: string
  Name :: string
  WeightKg :: float64
  Age :: int
  Vaccinations :: "VaccinationRecord list"
  SpecialNeeds :: string
  PhotoURL :: string

record CrateRequirement =
  MinimumSize :: CrateSize
  NeedsVentilation :: bool
  NeedsTempControl :: bool
  MinimumWeightCapacity :: float64

text \<open>
  The untyped constants \<^verbatim>\<open>5\<close>, \<^verbatim>\<open>15\<close>, \<^verbatim>\<open>30\<close> and \<^verbatim>\<open>1.2\<close> become the nearest
  \<^verbatim>\<open>float64\<close>; the first three are exact.
\<close>

definition DetermineCrateRequirement :: "PetSpecification \<Rightarrow> CrateRequirement" where
  "DetermineCrateRequirement spec =
     (let req = \<lparr>MinimumSize = '''',
                  NeedsVentilation = True,
                  NeedsTempControl = False,
                  MinimumWeightCapacity = f64_mul (WeightKg spec) (f64_round (12 / 10))\<rparr>;
          req = (if f64_le (WeightKg spec) (F64 5) then req\<lparr>MinimumSize := CrateSizeSmall\<rparr>
                 else if f64_le (WeightKg spec) (F64 15) then req\<lparr>MinimumSize := CrateSizeMedium\<rparr>
                 else if f64_le (WeightKg spec) (F64 30) then req\<lparr>MinimumSize := CrateSizeLarge\<rparr>
                 else req\<lparr>MinimumSize := CrateSizeXLarge\<rparr>);
          req = (if PetSpecification.PetType spec = PetTypeReptile
                 then req\<lparr>NeedsTempControl := True\<rparr> else req)
      in req)"

section \<open>pricing.go\<close>

record PricingParams =
  DistanceKm :: float64
  PetType :: PetType
  CrateSize :: CrateSize
  IsScheduled :: bool

definition petTypeSurcharge :: "PetType \<Rightarrow> error + int64" where
  "petTypeSurcharge petType =
     (if petType = PetTypeDog then Inr 500
      else if petType = PetTypeCat then Inr 300
      else if petType = PetTypeBird then Inr 200
      else if petType = PetTypeReptile then Inr 800
      else if petType = PetTypeRabbit then Inr 300
      else if petType = PetTypeOther then Inr 500
      else Inl (Errorf (''unknown pet type for pricing: '' @ petType)))"

definition crateSizeSurcharge :: "CrateSize \<Rightarrow> int64" where
  "crateSizeSurcharge crateSize =
     (if crateSize = CrateSizeSmall then 0
      else if crateSize = CrateSizeMedium then 500
      else if crateSize = CrateSizeLarge then 1000
      else if crateSize = CrateSizeXLarge then 2000
      else 0)"

definition Calculate :: "(float64 \<Rightarrow> int64) \<Rightarrow> PricingParams \<Rightarrow> error + int64" where
  "Calculate impl params =
     (if f64_lt (DistanceKm params) (F64 0) then Inl (Errorf ''distance cannot be negative'')
      else
        let totalCents = 500;
            totalCents = totalCents + int64_of_float64 impl (f64_mul (DistanceKm params) (F64 250))
        in case petTypeSurcharge (PricingParams.PetType params) of
             Inl err \<Rightarrow> Inl err
           | Inr petSurcharge \<Rightarrow>
               let totalCents = totalCents + petSurcharge;
                   totalCents = totalCents + crateSizeSurcharge (CrateSize params)
               in Inr totalCents)"



section \<open>booking.go\<close>

text \<open>
  \<^verbatim>\<open>dto.AddressDTO\<close> is declared in the shared \<^verbatim>\<open>lib-proto\<close> module; the record has the
  fields this repository reads.
\<close>

record AddressDTO =
  Line1 :: string
  Latitude :: float64
  Longitude :: float64

record RouteSpecification =
  PickupLat :: float64
  PickupLng :: float64
  DropoffLat :: float64
  DropoffLng :: float64
  DistanceKm :: float64
  EstimatedDurationMin :: int
  Polyline :: string

definition bookingNumberChars :: string where
  "bookingNumberChars = ''ABCDEFGHJKLMNPQRSTUVWXYZ23456789''"

record Booking =
  id' :: uuid
  bookingNumber :: string
  ownerID :: uuid
  runnerID :: "uuid option"
  status :: BookingStatus
  petSpec :: PetSpecification
  crateReq :: CrateRequirement
  pickupAddress :: AddressDTO
  dropoffAddress :: AddressDTO
  routeSpec :: "RouteSpecification option"
  estimatedPriceCents :: int64
  finalPriceCents :: "int64 option"
  currency :: string
  scheduledAt :: "time option"
  pickedUpAt :: "time option"
  deliveredAt :: "time option"
  cancelledAt :: "time option"
  cancelNote :: string
  notes' :: string
  version :: int64
  createdAt :: time
  updatedAt :: time

text \<open>
  \<^verbatim>\<open>generateBookingNumber\<close>: \<open>rnd i\<close> is the outcome of the call
  \<^verbatim>\<open>rand.Int(rand.Reader, big.NewInt(32))\<close> made in iteration \<open>i\<close>, an error or the number
  drawn. Indexing the alphabet out of range panics.
\<close>

fun fill_result :: "(nat \<Rightarrow> error + nat) \<Rightarrow> nat list \<Rightarrow> string \<Rightarrow> error + string" where
  "fill_result rnd [] result = Inr result"
| "fill_result rnd (i # rest) result =
     (case rnd i of
        Inl err \<Rightarrow> Inl (Wrapf ''failed to generate booking number'' err)
      | Inr n \<Rightarrow>
          if n < length bookingNumberChars
          then fill_result rnd rest (result[i := bookingNumberChars ! n])
          else Inl (Panic ''index out of range''))"

definition generateBookingNumber :: "(nat \<Rightarrow> error + nat) \<Rightarrow> error + string" where
  "generateBookingNumber rnd =
     (let result = replicate 6 (CHR 0x00)
      in case fill_result rnd [0..<length result] result of
           Inl err \<Rightarrow> Inl err
         | Inr result \<Rightarrow> Inr (''BK-'' @ result))"

text \<open>
  \<^verbatim>\<open>NewBooking\<close>: \<open>rnd\<close> is the random source, \<open>newID\<close> the result of \<^verbatim>\<open>uuid.New()\<close> and
  \<open>now\<close> the clock reading.
\<close>

definition NewBooking ::
  "(nat \<Rightarrow> error + nat) \<Rightarrow> uuid \<Rightarrow> time \<Rightarrow> uuid \<Rightarrow> PetSpecification \<Rightarrow> CrateRequirement \<Rightarrow>
   AddressDTO \<Rightarrow> AddressDTO \<Rightarrow> int64 \<Rightarrow> string \<Rightarrow> time option \<Rightarrow> string \<Rightarrow> error + Booking" where
  "NewBooking rnd newID now owner spec crate pickup dropoff estimated cur scheduled note =
     (if owner = uuid_Nil then Inl (ValidationError ''owner ID is required'')
      else if Name spec = [] then Inl (ValidationError ''pet name is required'')
      else if \<not> PetType_IsValid (PetSpecification.PetType spec)
        then Inl (ValidationError (''invalid pet type: '' @ PetSpecification.PetType spec))
      else if f64_le (WeightKg spec) (F64 0)
        then Inl (ValidationError ''pet weight must be positive'')
      else if Line1 pickup = [] then Inl (ValidationError ''pickup address is required'')
      else if Line1 dropoff = [] then Inl (ValidationError ''dropoff address is required'')
      else if estimated \<le>s 0 then Inl (ValidationError ''estimated price must be positive'')
      else
        case generateBookingNumber rnd of
          Inl err \<Rightarrow> Inl err
        | Inr number \<Rightarrow>
            Inr \<lparr>id' = newID,
                 bookingNumber = number,
                 ownerID = owner,
                 runnerID = None,
                 status = StatusRequested,
                 petSpec = spec,
                 crateReq = crate,
                 pickupAddress = pickup,
                 dropoffAddress = dropoff,
                 routeSpec = None,
                 estimatedPriceCents = estimated,
                 finalPriceCents = None,
                 currency = cur,
                 scheduledAt = scheduled,
                 pickedUpAt = None,
                 deliveredAt = None,
                 cancelledAt = None,
                 cancelNote = [],
                 notes' = note,
                 version = 1,
                 createdAt = now,
                 updatedAt = now\<rparr>)"

text \<open>
  The transition methods have a pointer receiver and return an \<^verbatim>\<open>error\<close>: the model
  returns the error (\<open>None\<close> for \<^verbatim>\<open>nil\<close>) together with the booking as the call
  leaves it. \<open>now\<close> is the clock reading of the call.
\<close>

definition Accept :: "Booking \<Rightarrow> uuid \<Rightarrow> time \<Rightarrow> error option \<times> Booking" where
  "Accept b runner now =
     (if \<not> CanTransitionTo (status b) StatusAccepted
      then (Some (InvalidStateError (status b) StatusAccepted), b)
      else if runner = uuid_Nil then (Some (ValidationError ''runner ID is required''), b)
      else (None, b\<lparr>runnerID := Some runner, status := StatusAccepted, updatedAt := now\<rparr>))"

definition StartDelivery :: "Booking \<Rightarrow> time \<Rightarrow> error option \<times> Booking" where
  "StartDelivery b now =
     (if \<not> CanTransitionTo (status b) StatusInProgress
      then (Some (InvalidStateError (status b) StatusInProgress), b)
      else (None, b\<lparr>status := StatusInProgress, pickedUpAt := Some now, updatedAt := now\<rparr>))"

definition ConfirmDelivery :: "Booking \<Rightarrow> time \<Rightarrow> error option \<times> Booking" where
  "ConfirmDelivery b now =
     (if \<not> CanTransitionTo (status b) StatusDelivered
      then (Some (InvalidStateError (status b) StatusDelivered), b)
      else (None, b\<lparr>status := StatusDelivered, deliveredAt := Some now, updatedAt := now\<rparr>))"

definition Complete :: "Booking \<Rightarrow> int64 \<Rightarrow> time \<Rightarrow> error option \<times> Booking" where
  "Complete b finalPrice now =
     (if \<not> CanTransitionTo (status b) StatusCompleted
      then (Some (InvalidStateError (status b) StatusCompleted), b)
      else (None, b\<lparr>status := StatusCompleted, finalPriceCents := Some finalPrice,
                     updatedAt := now\<rparr>))"

definition Cancel :: "Booking \<Rightarrow> string \<Rightarrow> time \<Rightarrow> error option \<times> Booking" where
  "Cancel b reason now =
     (if \<not> CanBeCancelled (status b)
      then (Some (InvalidStateError (status b) StatusCancelled), b)
      else (None, b\<lparr>status := StatusCancelled, cancelNote := reason, cancelledAt := Some now,
                     updatedAt := now\<rparr>))"

definition IncrementVersion :: "Booking \<Rightarrow> time \<Rightarrow> Booking" where
  "IncrementVersion b now = b\<lparr>version := version b + 1, updatedAt := now\<rparr>"

section \<open>repository/booking\_repository.go\<close>

text \<open>
  A \<^verbatim>\<open>json.RawMessage\<close> is a byte string; the \<^verbatim>\<open>nil\<close> slice and the empty one are both
  \<open>[]\<close>. The functions of \<^verbatim>\<open>encoding/json\<close> are arguments of the model, one pair for each
  type the repository stores as JSON: each returns an error or its result.
\<close>

type_synonym RawMessage = string

record json_codec =
  marshal_PetSpecification :: "PetSpecification \<Rightarrow> error + RawMessage"
  marshal_CrateRequirement :: "CrateRequirement \<Rightarrow> error + RawMessage"
  marshal_AddressDTO :: "AddressDTO \<Rightarrow> error + RawMessage"
  marshal_RouteSpecification :: "RouteSpecification \<Rightarrow> error + RawMessage"
  unmarshal_PetSpecification :: "RawMessage \<Rightarrow> error + PetSpecification"
  unmarshal_CrateRequirement :: "RawMessage \<Rightarrow> error + CrateRequirement"
  unmarshal_AddressDTO :: "RawMessage \<Rightarrow> error + AddressDTO"
  unmarshal_RouteSpecification :: "RawMessage \<Rightarrow> error + RouteSpecification"

record BookingModel =
  ID :: uuid
  BookingNumber :: string
  OwnerID :: uuid
  RunnerID :: "uuid option"
  Status :: string
  PetSpec :: RawMessage
  CrateRequirement :: RawMessage
  PickupAddress :: RawMessage
  DropoffAddress :: RawMessage
  RouteSpec :: RawMessage
  EstimatedPriceCents :: int64
  FinalPriceCents :: "int64 option"
  Currency :: string
  ScheduledAt :: "time option"
  PickedUpAt :: "time option"
  DeliveredAt :: "time option"
  CancelledAt :: "time option"
  CancelNote :: string
  Notes :: string
  Version :: int64
  CreatedAt :: time
  UpdatedAt :: time

definition toBookingModel :: "json_codec \<Rightarrow> Booking \<Rightarrow> error + BookingModel" where
  "toBookingModel codec bk =
     (case marshal_PetSpecification codec (petSpec bk) of
        Inl err \<Rightarrow> Inl (Wrapf ''failed to marshal pet spec'' err)
      | Inr petSpecJSON \<Rightarrow>
     (case marshal_CrateRequirement codec (crateReq bk) of
        Inl err \<Rightarrow> Inl (Wrapf ''failed to marshal crate requirement'' err)
      | Inr crateReqJSON \<Rightarrow>
     (case marshal_AddressDTO codec (pickupAddress bk) of
        Inl err \<Rightarrow> Inl (Wrapf ''failed to marshal pickup address'' err)
      | Inr pickupJSON \<Rightarrow>
     (case marshal_AddressDTO codec (dropoffAddress bk) of
        Inl err \<Rightarrow> Inl (Wrapf ''failed to marshal dropoff address'' err)
      | Inr dropoffJSON \<Rightarrow>
     (case (case routeSpec bk of
              None \<Rightarrow> Inr []
            | Some rs \<Rightarrow>
                (case marshal_RouteSpecification codec rs of
                   Inl err \<Rightarrow> Inl (Wrapf ''failed to marshal route spec'' err)
                 | Inr data \<Rightarrow> Inr data)) of
        Inl err \<Rightarrow> Inl err
      | Inr routeSpecJSON \<Rightarrow>
          Inr \<lparr>ID = id' bk,
               BookingNumber = bookingNumber bk,
               OwnerID = ownerID bk,
               RunnerID = runnerID bk,
               Status = status bk,
               PetSpec = petSpecJSON,
               CrateRequirement = crateReqJSON,
               PickupAddress = pickupJSON,
               DropoffAddress = dropoffJSON,
               RouteSpec = routeSpecJSON,
               EstimatedPriceCents = estimatedPriceCents bk,
               FinalPriceCents = finalPriceCents bk,
               Currency = currency bk,
               ScheduledAt = scheduledAt bk,
               PickedUpAt = pickedUpAt bk,
               DeliveredAt = deliveredAt bk,
               CancelledAt = cancelledAt bk,
               CancelNote = cancelNote bk,
               Notes = notes' bk,
               Version = version bk,
               CreatedAt = createdAt bk,
               UpdatedAt = updatedAt bk\<rparr>)))))"

definition toDomainBooking :: "json_codec \<Rightarrow> BookingModel \<Rightarrow> error + Booking" where
  "toDomainBooking codec m =
     (case unmarshal_PetSpecification codec (PetSpec m) of
        Inl err \<Rightarrow> Inl (Wrapf ''failed to unmarshal pet spec'' err)
      | Inr spec \<Rightarrow>
     (case unmarshal_CrateRequirement codec (CrateRequirement m) of
        Inl err \<Rightarrow> Inl (Wrapf ''failed to unmarshal crate requirement'' err)
      | Inr crate \<Rightarrow>
     (case unmarshal_AddressDTO codec (PickupAddress m) of
        Inl err \<Rightarrow> Inl (Wrapf ''failed to unmarshal pickup address'' err)
      | Inr pickup \<Rightarrow>
     (case unmarshal_AddressDTO codec (DropoffAddress m) of
        Inl err \<Rightarrow> Inl (Wrapf ''failed to unmarshal dropoff address'' err)
      | Inr dropoff \<Rightarrow>
     (case (if RouteSpec m \<noteq> [] \<and> length (RouteSpec m) > 0
            then (case unmarshal_RouteSpecification codec (RouteSpec m) of
                    Inl err \<Rightarrow> Inl (Wrapf ''failed to unmarshal route spec'' err)
                  | Inr rs \<Rightarrow> Inr (Some rs))
            else Inr None) of
        Inl err \<Rightarrow> Inl err
      | Inr route \<Rightarrow>
     (case ParseBookingStatus (Status m) of
        Inl err \<Rightarrow> Inl err
      | Inr st \<Rightarrow>
          Inr \<lparr>id' = ID m,
               bookingNumber = BookingNumber m,
               ownerID = OwnerID m,
               runnerID = RunnerID m,
               status = st,
               petSpec = spec,
               crateReq = crate,
               pickupAddress = pickup,
               dropoffAddress = dropoff,
               routeSpec = route,
               estimatedPriceCents = EstimatedPriceCents m,
               finalPriceCents = FinalPriceCents m,
               currency = Currency m,
               scheduledAt = ScheduledAt m,
               pickedUpAt = PickedUpAt m,
               deliveredAt = DeliveredAt m,
               cancelledAt = CancelledAt m,
               cancelNote = CancelNote m,
               notes' = Notes m,
               version = Version m,
               createdAt = CreatedAt m,
               updatedAt = UpdatedAt m\<rparr>))))))"

text \<open>
  The \<^verbatim>\<open>bookings\<close> table is the list of its rows. A statement the database cannot
  execute returns the driver's error and changes nothing: \<open>fault\<close> is that error, \<open>None\<close>
  when the statement runs. \<^verbatim>\<open>uuid.UUID.String\<close> is \<open>uuid_String\<close>.
\<close>

type_synonym bookings = "BookingModel list"

definition hex_digit :: "nat \<Rightarrow> char" where
  "hex_digit n = ''0123456789abcdef'' ! (n mod 16)"

definition hex_byte :: "uuid \<Rightarrow> nat \<Rightarrow> string" where
  "hex_byte u i =
     (let byte = unat (drop_bit (8 * (15 - i)) u) mod 256
      in [hex_digit (byte div 16), hex_digit byte])"

definition uuid_String :: "uuid \<Rightarrow> string" where
  "uuid_String u =
     concat (map (hex_byte u) [0..<4]) @ ''-'' @ concat (map (hex_byte u) [4..<6]) @ ''-'' @
     concat (map (hex_byte u) [6..<8]) @ ''-'' @ concat (map (hex_byte u) [8..<10]) @ ''-'' @
     concat (map (hex_byte u) [10..<16])"

text \<open>
  \<^verbatim>\<open>Where("id = ?", id).First(&model)\<close>: the first row with that id, or
  \<^verbatim>\<open>gorm.ErrRecordNotFound\<close> when there is none.
\<close>

definition FindByID :: "json_codec \<Rightarrow> error option \<Rightarrow> bookings \<Rightarrow> uuid \<Rightarrow> error + Booking" where
  "FindByID codec fault db bid =
     (case fault of
        Some err \<Rightarrow> Inl (Wrapf ''failed to find booking by ID'' err)
      | None \<Rightarrow>
          (case find (\<lambda>row. ID row = bid) db of
             None \<Rightarrow> Inl (NotFoundError ''Booking'' (uuid_String bid))
           | Some model \<Rightarrow> toDomainBooking codec model))"

text \<open>
  \<^verbatim>\<open>Update\<close>: the statement
  \<^verbatim>\<open>UPDATE bookings SET ... WHERE id = ? AND version = ?\<close> rewrites the eighteen columns of
  the map in every row the predicate selects; \<^verbatim>\<open>RowsAffected\<close> is the number of those rows.
\<close>

definition Update :: "json_codec \<Rightarrow> error option \<Rightarrow> bookings \<Rightarrow> Booking \<Rightarrow> error option \<times> bookings" where
  "Update codec fault db bk =
     (case toBookingModel codec bk of
        Inl err \<Rightarrow> (Some (Wrapf ''failed to convert booking to model'' err), db)
      | Inr model \<Rightarrow>
          (let expectedVersion = version bk - 1
           in case fault of
                Some err \<Rightarrow> (Some (Wrapf ''failed to update booking'' err), db)
              | None \<Rightarrow>
                  (let selected = (\<lambda>row. ID row = ID model \<and> Version row = expectedVersion);
                       RowsAffected = length (filter selected db)
                   in if RowsAffected = 0
                      then (Some (ConflictError ''booking was modified by another transaction''), db)
                      else (None,
                            map (\<lambda>row.
                                   if selected row
                                   then row\<lparr>RunnerID := RunnerID model,
                                            Status := Status model,
                                            PetSpec := PetSpec model,
                                            CrateRequirement := CrateRequirement model,
                                            PickupAddress := PickupAddress model,
                                            DropoffAddress := DropoffAddress model,
                                            RouteSpec := RouteSpec model,
                                            EstimatedPriceCents := EstimatedPriceCents model,
                                            FinalPriceCents := FinalPriceCents model,
                                            Currency := Currency model,
                                            ScheduledAt := ScheduledAt model,
                                            PickedUpAt := PickedUpAt model,
                                            DeliveredAt := DeliveredAt model,
                                            CancelledAt := CancelledAt model,
                                            CancelNote := CancelNote model,
                                            Notes := Notes model,
                                            Version := Version model,
                                            UpdatedAt := UpdatedAt model\<rparr>
                                   else row) db))))"

section \<open>application/booking\_service.go\<close>

record BookingDTO =
  ID :: uuid
  BookingNumber :: string
  OwnerID :: uuid
  RunnerID :: "uuid option"
  Status :: string
  PetSpec :: PetSpecification
  CrateReq :: CrateRequirement
  PickupAddress :: AddressDTO
  DropoffAddress :: AddressDTO
  RouteSpec :: "RouteSpecification option"
  EstimatedPriceCents :: int64
  FinalPriceCents :: "int64 option"
  Currency :: string
  ScheduledAt :: "time option"
  PickedUpAt :: "time option"
  DeliveredAt :: "time option"
  CancelledAt :: "time option"
  CancelNote :: string
  Notes :: string
  Version :: int64
  CreatedAt :: time
  UpdatedAt :: time

definition toBookingDTO :: "Booking \<Rightarrow> BookingDTO" where
  "toBookingDTO bk =
     \<lparr>BookingDTO.ID = id' bk,
      BookingDTO.BookingNumber = bookingNumber bk,
      BookingDTO.OwnerID = ownerID bk,
      BookingDTO.RunnerID = runnerID bk,
      BookingDTO.Status = status bk,
      BookingDTO.PetSpec = petSpec bk,
      BookingDTO.CrateReq = crateReq bk,
      BookingDTO.PickupAddress = pickupAddress bk,
      BookingDTO.DropoffAddress = dropoffAddress bk,
      BookingDTO.RouteSpec = routeSpec bk,
      BookingDTO.EstimatedPriceCents = estimatedPriceCents bk,
      BookingDTO.FinalPriceCents = finalPriceCents bk,
      BookingDTO.Currency = currency bk,
      BookingDTO.ScheduledAt = scheduledAt bk,
      BookingDTO.PickedUpAt = pickedUpAt bk,
      BookingDTO.DeliveredAt = deliveredAt bk,
      BookingDTO.CancelledAt = cancelledAt bk,
      BookingDTO.CancelNote = cancelNote bk,
      BookingDTO.Notes = notes' bk,
      BookingDTO.Version = version bk,
      BookingDTO.CreatedAt = createdAt bk,
      BookingDTO.UpdatedAt = updatedAt bk\<rparr>"

text \<open>
  The outbound events of \<^verbatim>\<open>lib-proto/events\<close>, with the fields the service fills, and the
  names of their topic and types.
\<close>

datatype event_data =
    BookingAcceptedEvent uuid string uuid uuid time
  | PetPickedUpEvent uuid string uuid uuid time time
  | DeliveryConfirmedEvent uuid string uuid uuid time time
  | BookingCompletedEvent uuid string uuid uuid int64 string time
  | BookingCancelledEvent uuid string uuid string time

datatype event_type =
    BookingAccepted
  | BookingPetPickedUp
  | BookingDeliveryConfirmed
  | BookingCompleted
  | BookingCancelled

datatype topic = TopicBookingEvents | TopicPaymentEvents

datatype log_level = Debug | Info | Error

text \<open>
  What a call of the service can observe and change: the \<^verbatim>\<open>bookings\<close> table, the events
  handed to the broker and the log. What it is given from outside: the JSON functions, the
  driver's error for the \<^verbatim>\<open>SELECT\<close> and for the \<^verbatim>\<open>UPDATE\<close> (if any), the error of
  \<^verbatim>\<open>kafka.NewCloudEvent\<close> and of \<^verbatim>\<open>PublishEvent\<close> (if any), the parser of the inbound
  event's data, and the clock: \<open>clock env k\<close> is the \<open>k\<close>-th reading of \<^verbatim>\<open>time.Now()\<close>
  in the call.
\<close>

record world =
  bookings_table :: bookings
  published :: "(topic \<times> string \<times> event_type \<times> event_data) list"
  logs :: "(log_level \<times> string) list"

record EscrowReleasedEvent =
  PaymentID :: uuid
  BookingID :: uuid
  RunnerID :: uuid
  RunnerPayout :: int64
  PlatformFee :: int64
  Currency :: string
  OccurredAt :: time

record CloudEvent =
  Type :: string
  Data :: RawMessage

record env =
  codec :: json_codec
  find_fault :: "error option"
  update_fault :: "error option"
  cloud_event_fault :: "error option"
  publish_fault :: "error option"
  ParseData :: "CloudEvent \<Rightarrow> error + EscrowReleasedEvent"
  clock :: "nat \<Rightarrow> time"

definition log_append :: "world \<Rightarrow> log_level \<Rightarrow> string \<Rightarrow> world" where
  "log_append w level msg = w\<lparr>logs := logs w @ [(level, msg)]\<rparr>"

definition publishEvent :: "env \<Rightarrow> world \<Rightarrow> topic \<Rightarrow> event_type \<Rightarrow> string \<Rightarrow> event_data \<Rightarrow> world" where
  "publishEvent e w tp eventType key data =
     (case cloud_event_fault e of
        Some err \<Rightarrow> log_append w Error ''failed to create cloud event''
      | None \<Rightarrow>
          (case publish_fault e of
             Some err \<Rightarrow> log_append w Error ''failed to publish event''
           | None \<Rightarrow> w\<lparr>published := published w @ [(tp, ''service-booking'', eventType, data)]\<rparr>))"

text \<open>
  Each use case loads the booking, calls the aggregate, bumps the version and submits
  the update; \<^verbatim>\<open>*bk.RunnerID()\<close> panics on a booking without runner.
\<close>

definition AcceptBooking :: "env \<Rightarrow> world \<Rightarrow> uuid \<Rightarrow> uuid \<Rightarrow> (error + BookingDTO) \<times> world" where
  "AcceptBooking e w bookingID runner =
     (case FindByID (codec e) (find_fault e) (bookings_table w) bookingID of
        Inl err \<Rightarrow> (Inl err, w)
      | Inr bk \<Rightarrow>
          (case Accept bk runner (clock e 0) of
             (Some err, bk) \<Rightarrow> (Inl err, w)
           | (None, bk) \<Rightarrow>
               (let bk = IncrementVersion bk (clock e 1)
                in case Update (codec e) (update_fault e) (bookings_table w) bk of
                     (Some err, db) \<Rightarrow> (Inl err, w\<lparr>bookings_table := db\<rparr>)
                   | (None, db) \<Rightarrow>
                       (let w = w\<lparr>bookings_table := db\<rparr>;
                            evt = BookingAcceptedEvent (id' bk) (bookingNumber bk) runner
                                    (ownerID bk) (clock e 2);
                            w = publishEvent e w TopicBookingEvents BookingAccepted
                                  (uuid_String (id' bk)) evt
                        in (Inr (toBookingDTO bk), w)))))"

definition StartDelivery_service :: "env \<Rightarrow> world \<Rightarrow> uuid \<Rightarrow> (error + BookingDTO) \<times> world" where
  "StartDelivery_service e w bookingID =
     (case FindByID (codec e) (find_fault e) (bookings_table w) bookingID of
        Inl err \<Rightarrow> (Inl err, w)
      | Inr bk \<Rightarrow>
          (case StartDelivery bk (clock e 0) of
             (Some err, bk) \<Rightarrow> (Inl err, w)
           | (None, bk) \<Rightarrow>
               (let bk = IncrementVersion bk (clock e 1)
                in case Update (codec e) (update_fault e) (bookings_table w) bk of
                     (Some err, db) \<Rightarrow> (Inl err, w\<lparr>bookings_table := db\<rparr>)
                   | (None, db) \<Rightarrow>
                       (let w = w\<lparr>bookings_table := db\<rparr>
                        in case (runnerID bk, pickedUpAt bk) of
                             (Some runner, Some pickedUp) \<Rightarrow>
                               (let evt = PetPickedUpEvent (id' bk) (bookingNumber bk) runner
                                            (ownerID bk) pickedUp (clock e 2);
                                    w = publishEvent e w TopicBookingEvents BookingPetPickedUp
                                          (uuid_String (id' bk)) evt
                                in (Inr (toBookingDTO bk), w))
                           | _ \<Rightarrow> (Inl (Panic ''nil pointer dereference''), w)))))"

definition ConfirmDelivery_service :: "env \<Rightarrow> world \<Rightarrow> uuid \<Rightarrow> (error + BookingDTO) \<times> world" where
  "ConfirmDelivery_service e w bookingID =
     (case FindByID (codec e) (find_fault e) (bookings_table w) bookingID of
        Inl err \<Rightarrow> (Inl err, w)
      | Inr bk \<Rightarrow>
          (case ConfirmDelivery bk (clock e 0) of
             (Some err, bk) \<Rightarrow> (Inl err, w)
           | (None, bk) \<Rightarrow>
               (let bk = IncrementVersion bk (clock e 1)
                in case Update (codec e) (update_fault e) (bookings_table w) bk of
                     (Some err, db) \<Rightarrow> (Inl err, w\<lparr>bookings_table := db\<rparr>)
                   | (None, db) \<Rightarrow>
                       (let w = w\<lparr>bookings_table := db\<rparr>
                        in case (runnerID bk, deliveredAt bk) of
                             (Some runner, Some delivered) \<Rightarrow>
                               (let evt = DeliveryConfirmedEvent (id' bk) (bookingNumber bk) runner
                                            (ownerID bk) delivered (clock e 2);
                                    w = publishEvent e w TopicBookingEvents
                                          BookingDeliveryConfirmed (uuid_String (id' bk)) evt
                                in (Inr (toBookingDTO bk), w))
                           | _ \<Rightarrow> (Inl (Panic ''nil pointer dereference''), w)))))"

definition CompleteBooking :: "env \<Rightarrow> world \<Rightarrow> uuid \<Rightarrow> (error + BookingDTO) \<times> world" where
  "CompleteBooking e w bookingID =
     (case FindByID (codec e) (find_fault e) (bookings_table w) bookingID of
        Inl err \<Rightarrow> (Inl err, w)
      | Inr bk \<Rightarrow>
          (let finalPrice = estimatedPriceCents bk
           in case Complete bk finalPrice (clock e 0) of
                (Some err, bk) \<Rightarrow> (Inl err, w)
              | (None, bk) \<Rightarrow>
                  (let bk = IncrementVersion bk (clock e 1)
                   in case Update (codec e) (update_fault e) (bookings_table w) bk of
                        (Some err, db) \<Rightarrow> (Inl err, w\<lparr>bookings_table := db\<rparr>)
                      | (None, db) \<Rightarrow>
                          (let w = w\<lparr>bookings_table := db\<rparr>;
                               runner = (case runnerID bk of None \<Rightarrow> uuid_Nil | Some r \<Rightarrow> r);
                               evt = BookingCompletedEvent (id' bk) (bookingNumber bk) runner
                                       (ownerID bk) finalPrice (currency bk) (clock e 2);
                               w = publishEvent e w TopicBookingEvents BookingCompleted
                                     (uuid_String (id' bk)) evt
                           in (Inr (toBookingDTO bk), w)))))"

definition CancelBooking ::
  "env \<Rightarrow> world \<Rightarrow> uuid \<Rightarrow> uuid \<Rightarrow> string \<Rightarrow> (error + BookingDTO) \<times> world" where
  "CancelBooking e w bookingID cancelledBy reason =
     (case FindByID (codec e) (find_fault e) (bookings_table w) bookingID of
        Inl err \<Rightarrow> (Inl err, w)
      | Inr bk \<Rightarrow>
          (case Cancel bk reason (clock e 0) of
             (Some err, bk) \<Rightarrow> (Inl err, w)
           | (None, bk) \<Rightarrow>
               (let bk = IncrementVersion bk (clock e 1)
                in case Update (codec e) (update_fault e) (bookings_table w) bk of
                     (Some err, db) \<Rightarrow> (Inl err, w\<lparr>bookings_table := db\<rparr>)
                   | (None, db) \<Rightarrow>
                       (let w = w\<lparr>bookings_table := db\<rparr>;
                            evt = BookingCancelledEvent (id' bk) (bookingNumber bk) cancelledBy
                                    reason (clock e 2);
                            w = publishEvent e w TopicBookingEvents BookingCancelled
                                  (uuid_String (id' bk)) evt
                        in (Inr (toBookingDTO bk), w)))))"

section \<open>The payment event consumer\<close>

text \<open>
  \<^verbatim>\<open>handleEscrowReleased\<close> returns the \<^verbatim>\<open>error\<close> it hands back to the Kafka consumer,
  \<open>None\<close> for \<^verbatim>\<open>nil\<close>.
\<close>

definition handleEscrowReleased :: "env \<Rightarrow> world \<Rightarrow> CloudEvent \<Rightarrow> error option \<times> world" where
  "handleEscrowReleased e w cloudEvent =
     (case ParseData e cloudEvent of
        Inl err \<Rightarrow> (None, log_append w Error ''failed to parse EscrowReleasedEvent data'')
      | Inr evt \<Rightarrow>
          (let w = log_append w Info ''processing escrow released event''
           in case CompleteBooking e w (BookingID evt) of
                (Inl err, w) \<Rightarrow>
                  (Some err, log_append w Error ''failed to complete booking after escrow release'')
              | (Inr _, w) \<Rightarrow>
                  (None, log_append w Info ''booking completed after escrow release'')))"

section \<open>The specification's transition table, and drivers for the properties\<close>

text \<open>
  The table of section 4.1 of the specification, as the set of its edges.
\<close>

definition table_4_1 :: "(BookingStatus \<times> BookingStatus) set" where
  "table_4_1 =
     {(''requested'', ''accepted''), (''requested'', ''cancelled''),
      (''accepted'', ''in_progress''), (''accepted'', ''cancelled''),
      (''in_progress'', ''delivered''), (''in_progress'', ''cancelled''),
      (''delivered'', ''completed'')}"

datatype transition_op =
    OpAccept uuid
  | OpStartDelivery
  | OpConfirmDelivery
  | OpComplete int64
  | OpCancel string

fun apply_transition :: "Booking \<Rightarrow> transition_op \<times> time \<Rightarrow> error option \<times> Booking" where
  "apply_transition b (OpAccept runner, now) = Accept b runner now"
| "apply_transition b (OpStartDelivery, now) = StartDelivery b now"
| "apply_transition b (OpConfirmDelivery, now) = ConfirmDelivery b now"
| "apply_transition b (OpComplete finalPrice, now) = Complete b finalPrice now"
| "apply_transition b (OpCancel reason, now) = Cancel b reason now"

fun status_trace :: "Booking \<Rightarrow> (transition_op \<times> time) list \<Rightarrow> BookingStatus list option" where
  "status_trace b [] = Some [status b]"
| "status_trace b (x # xs) =
     (case apply_transition b x of
        (Some err, _) \<Rightarrow> None
      | (None, b') \<Rightarrow> map_option ((#) (status b)) (status_trace b' xs))"

definition fixture_booking :: "BookingStatus \<Rightarrow> int64 \<Rightarrow> Booking" where
  "fixture_booking st v =
     \<lparr>id' = 7,
      bookingNumber = ''BK-ABC234'',
      ownerID = 1,
      runnerID = None,
      status = st,
      petSpec = \<lparr>PetSpecification.PetType = ''dog'', Breed = ''corgi'', Name = ''Rex'',
                 WeightKg = F64 12, Age = 24, Vaccinations = [], SpecialNeeds = [],
                 PhotoURL = []\<rparr>,
      crateReq = \<lparr>MinimumSize = ''medium'', NeedsVentilation = True, NeedsTempControl = False,
                  MinimumWeightCapacity = F64 (72 / 5)\<rparr>,
      pickupAddress = \<lparr>Line1 = ''1 Jalan Ampang'', Latitude = F64 3, Longitude = F64 101\<rparr>,
      dropoffAddress = \<lparr>Line1 = ''9 Jalan Bukit'', Latitude = F64 4, Longitude = F64 102\<rparr>,
      routeSpec = None,
      estimatedPriceCents = 4000,
      finalPriceCents = None,
      currency = ''MYR'',
      scheduledAt = None,
      pickedUpAt = None,
      deliveredAt = None,
      cancelledAt = None,
      cancelNote = [],
      notes' = [],
      version = v,
      createdAt = 100,
      updatedAt = 100\<rparr>"

text \<open>
  A JSON codec, an environment without faults (but for the one given for the
  \<^verbatim>\<open>UPDATE\<close>), a stored row and a table holding that row, for running the service on
  concrete data.
\<close>

definition fixture_codec :: json_codec where
  "fixture_codec =
     \<lparr>marshal_PetSpecification = (\<lambda>_. Inr ''{}''),
      marshal_CrateRequirement = (\<lambda>_. Inr ''{}''),
      marshal_AddressDTO =
        (\<lambda>a. if a = pickupAddress (fixture_booking [] 0) then Inr ''pickup'' else Inr ''dropoff''),
      marshal_RouteSpecification = (\<lambda>_. Inr ''{}''),
      unmarshal_PetSpecification = (\<lambda>_. Inr (petSpec (fixture_booking [] 0))),
      unmarshal_CrateRequirement = (\<lambda>_. Inr (crateReq (fixture_booking [] 0))),
      unmarshal_AddressDTO =
        (\<lambda>raw. if raw = ''pickup'' then Inr (pickupAddress (fixture_booking [] 0))
               else Inr (dropoffAddress (fixture_booking [] 0))),
      unmarshal_RouteSpecification = (\<lambda>_. Inl (Errorf ''unexpected end of JSON input''))\<rparr>"

definition fixture_env :: "error option \<Rightarrow> env" where
  "fixture_env fault =
     \<lparr>codec = fixture_codec,
      find_fault = None,
      update_fault = fault,
      cloud_event_fault = None,
      publish_fault = None,
      ParseData = (\<lambda>_. Inr \<lparr>PaymentID = 3, BookingID = 7, RunnerID = 5, RunnerPayout = 3400,
                               PlatformFee = 600, Currency = ''MYR'', OccurredAt = 150\<rparr>),
      clock = (\<lambda>k. 200 + int k)\<rparr>"

definition fixture_row :: "string \<Rightarrow> int64 \<Rightarrow> BookingModel" where
  "fixture_row st v =
     \<lparr>BookingModel.ID = 7,
      BookingModel.BookingNumber = ''BK-ABC234'',
      BookingModel.OwnerID = 1,
      BookingModel.RunnerID = Some 5,
      BookingModel.Status = st,
      BookingModel.PetSpec = ''{}'',
      BookingModel.CrateRequirement = ''{}'',
      BookingModel.PickupAddress = ''pickup'',
      BookingModel.DropoffAddress = ''dropoff'',
      BookingModel.RouteSpec = [],
      BookingModel.EstimatedPriceCents = 4000,
      BookingModel.FinalPriceCents = None,
      BookingModel.Currency = ''MYR'',
      BookingModel.ScheduledAt = None,
      BookingModel.PickedUpAt = None,
      BookingModel.DeliveredAt = None,
      BookingModel.CancelledAt = None,
      BookingModel.CancelNote = [],
      BookingModel.Notes = [],
      BookingModel.Version = v,
      BookingModel.CreatedAt = 100,
      BookingModel.UpdatedAt = 100\<rparr>"

definition fixture_world :: "string \<Rightarrow> int64 \<Rightarrow> world" where
  "fixture_world st v = \<lparr>bookings_table = [fixture_row st v], published = [], logs = []\<rparr>"

text \<open>
  The predicate of the \<^verbatim>\<open>WHERE\<close> clause of \<^verbatim>\<open>Update\<close> for a booking: the row has the
  booking's id and the version before the booking's.
\<close>

definition selected :: "Booking \<Rightarrow> BookingModel \<Rightarrow> bool" where
  "selected bk row \<longleftrightarrow> BookingModel.ID row = id' bk \<and> BookingModel.Version row = version bk - 1"

text \<open>
  The surcharge tables of section 4.2 of the specification, and the result the amd64
  implementation of Go gives for a \<^verbatim>\<open>float64\<close> to \<^verbatim>\<open>int64\<close> conversion that does not fit: the
  least \<^verbatim>\<open>int64\<close>.
\<close>

definition pet_surcharge_4_2 :: "PetType \<rightharpoonup> int" where
  "pet_surcharge_4_2 = map_of
     [(''dog'', 500), (''cat'', 300), (''bird'', 200), (''reptile'', 800), (''rabbit'', 300),
      (''other'', 500)]"

definition crate_surcharge_4_2 :: "CrateSize \<rightharpoonup> int" where
  "crate_surcharge_4_2 = map_of
     [(''small'', 0), (''medium'', 500), (''large'', 1000), (''xlarge'', 2000)]"

definition impl_amd64 :: "float64 \<Rightarrow> int64" where
  "impl_amd64 f = 0x8000000000000000"

section \<open>Properties\<close>

lemmas status_defs =
  StatusRequested_def StatusAccepted_def StatusInProgress_def
  StatusDelivered_def StatusCompleted_def StatusCancelled_def

lemmas pet_type_defs =
  PetTypeCat_def PetTypeDog_def PetTypeBird_def PetTypeRabbit_def PetTypeReptile_def
  PetTypeOther_def

lemmas crate_size_defs =
  CrateSizeSmall_def CrateSizeMedium_def CrateSizeLarge_def CrateSizeXLarge_def

subsection \<open>C1: the transition table\<close>

lemma CanTransitionTo_table: "CanTransitionTo s t \<longleftrightarrow> (s, t) \<in> table_4_1"
  unfolding CanTransitionTo_def validTransitions_def status_defs table_4_1_def
  by (auto split: option.splits if_splits)

lemma apply_transition_edge:
  "apply_transition b x = (None, b') \<Longrightarrow> (status b, status b') \<in> table_4_1"
  by (cases x, cases "fst x")
     (auto simp: Accept_def StartDelivery_def ConfirmDelivery_def Complete_def Cancel_def
        CanBeCancelled_def CanTransitionTo_table status_defs split: if_splits)

lemma status_trace_hd: "status_trace b xs = Some tr \<Longrightarrow> tr \<noteq> [] \<and> hd tr = status b"
  by (cases xs) (auto split: prod.splits option.splits)

lemma status_trace_edges:
  "status_trace b xs = Some tr \<Longrightarrow> successively (\<lambda>s t. (s, t) \<in> table_4_1) tr"
proof (induction xs arbitrary: b tr)
  case Nil
  then show ?case by auto
next
  case (Cons x xs)
  obtain r b' where ap: "apply_transition b x = (r, b')" by (cases "apply_transition b x")
  with Cons.prems obtain tr' where r: "r = None" and tr': "status_trace b' xs = Some tr'"
    and tr: "tr = status b # tr'"
    by (auto split: option.splits)
  from Cons.IH [OF tr'] have "successively (\<lambda>s t. (s, t) \<in> table_4_1) tr'" .
  moreover from status_trace_hd [OF tr'] have "tr' \<noteq> []" "hd tr' = status b'" by simp_all
  moreover from apply_transition_edge ap r have "(status b, status b') \<in> table_4_1" by simp
  ultimately show ?case using tr by (cases tr') simp_all
qed

text \<open>
  C1. \<^verbatim>\<open>CanTransitionTo\<close> holds exactly on the edges of the table of section 4.1:
  requested to accepted or cancelled, accepted to in\_progress or cancelled, in\_progress to
  delivered or cancelled, delivered to completed; nothing leaves completed or cancelled.
  Hence along every sequence of transition operations that all succeed, each two
  consecutive statuses are an edge of the table.
\<close>

theorem C1_transitions:
  "(\<forall>s t. CanTransitionTo s t \<longleftrightarrow> (s, t) \<in> table_4_1)
   \<and> (\<forall>t. \<not> CanTransitionTo StatusCompleted t \<and> \<not> CanTransitionTo StatusCancelled t)
   \<and> (\<forall>b ops tr. status_trace b ops = Some tr \<longrightarrow>
          successively (\<lambda>s t. (s, t) \<in> table_4_1) tr)"
  using status_trace_edges
  by (auto simp: CanTransitionTo_table table_4_1_def status_defs)

theorem C1_transitions_witness:
  "status_trace (fixture_booking ''requested'' 1)
      [(OpAccept 5, 101), (OpStartDelivery, 102), (OpConfirmDelivery, 103), (OpComplete 4000, 104)]
     = Some [''requested'', ''accepted'', ''in_progress'', ''delivered'', ''completed'']
   \<and> successively (\<lambda>s t. (s, t) \<in> table_4_1)
        [''requested'', ''accepted'', ''in_progress'', ''delivered'', ''completed'']"
proof -
  have tr: "status_trace (fixture_booking ''requested'' 1)
      [(OpAccept 5, 101), (OpStartDelivery, 102), (OpConfirmDelivery, 103), (OpComplete 4000, 104)]
     = Some [''requested'', ''accepted'', ''in_progress'', ''delivered'', ''completed'']"
    by (simp add: fixture_booking_def Accept_def StartDelivery_def ConfirmDelivery_def
          Complete_def CanTransitionTo_def validTransitions_def status_defs uuid_Nil_def)
  with C1_transitions show ?thesis by metis
qed

subsection \<open>C6: a forbidden transition fails and changes nothing\<close>

lemma Accept_invalid:
  "\<not> CanTransitionTo (status b) StatusAccepted \<Longrightarrow>
   Accept b runner now = (Some (InvalidStateError (status b) StatusAccepted), b)"
  by (simp add: Accept_def)

lemma StartDelivery_invalid:
  "\<not> CanTransitionTo (status b) StatusInProgress \<Longrightarrow>
   StartDelivery b now = (Some (InvalidStateError (status b) StatusInProgress), b)"
  by (simp add: StartDelivery_def)

lemma ConfirmDelivery_invalid:
  "\<not> CanTransitionTo (status b) StatusDelivered \<Longrightarrow>
   ConfirmDelivery b now = (Some (InvalidStateError (status b) StatusDelivered), b)"
  by (simp add: ConfirmDelivery_def)

lemma Complete_invalid:
  "\<not> CanTransitionTo (status b) StatusCompleted \<Longrightarrow>
   Complete b finalPrice now = (Some (InvalidStateError (status b) StatusCompleted), b)"
  by (simp add: Complete_def)

lemma Cancel_invalid:
  "\<not> CanTransitionTo (status b) StatusCancelled \<Longrightarrow>
   Cancel b reason now = (Some (InvalidStateError (status b) StatusCancelled), b)"
  by (simp add: Cancel_def CanBeCancelled_def)

lemma completed_terminal: "\<not> CanTransitionTo StatusCompleted t"
  by (simp add: CanTransitionTo_table table_4_1_def status_defs)

text \<open>
  C6. When the target status is not allowed from the booking's status, each of
  \<^verbatim>\<open>Accept\<close>, \<^verbatim>\<open>StartDelivery\<close>, \<^verbatim>\<open>ConfirmDelivery\<close>, \<^verbatim>\<open>Complete\<close> and \<^verbatim>\<open>Cancel\<close>
  returns the invalid-state error carrying the current and the target status, and leaves
  the booking as it was, every field. In particular \<^verbatim>\<open>Complete\<close> on a completed booking
  fails so, and changes neither the final price nor the version.
\<close>

theorem C6_invalid_state:
  "(\<forall>b runner now. \<not> CanTransitionTo (status b) StatusAccepted \<longrightarrow>
      Accept b runner now = (Some (InvalidStateError (status b) StatusAccepted), b))
   \<and> (\<forall>b now. \<not> CanTransitionTo (status b) StatusInProgress \<longrightarrow>
      StartDelivery b now = (Some (InvalidStateError (status b) StatusInProgress), b))
   \<and> (\<forall>b now. \<not> CanTransitionTo (status b) StatusDelivered \<longrightarrow>
      ConfirmDelivery b now = (Some (InvalidStateError (status b) StatusDelivered), b))
   \<and> (\<forall>b finalPrice now. \<not> CanTransitionTo (status b) StatusCompleted \<longrightarrow>
      Complete b finalPrice now = (Some (InvalidStateError (status b) StatusCompleted), b))
   \<and> (\<forall>b reason now. \<not> CanTransitionTo (status b) StatusCancelled \<longrightarrow>
      Cancel b reason now = (Some (InvalidStateError (status b) StatusCancelled), b))
   \<and> (\<forall>b finalPrice now. status b = StatusCompleted \<longrightarrow>
      fst (Complete b finalPrice now) = Some (InvalidStateError StatusCompleted StatusCompleted)
      \<and> finalPriceCents (snd (Complete b finalPrice now)) = finalPriceCents b
      \<and> version (snd (Complete b finalPrice now)) = version b)"
  by (intro conjI allI impI)
     (simp_all add: Accept_invalid StartDelivery_invalid ConfirmDelivery_invalid
        Complete_invalid Cancel_invalid completed_terminal)

theorem C6_invalid_state_witness:
  "Accept (fixture_booking ''completed'' 5) 9 200
     = (Some (InvalidStateError ''completed'' ''accepted''), fixture_booking ''completed'' 5)
   \<and> StartDelivery (fixture_booking ''completed'' 5) 200
     = (Some (InvalidStateError ''completed'' ''in_progress''), fixture_booking ''completed'' 5)
   \<and> ConfirmDelivery (fixture_booking ''completed'' 5) 200
     = (Some (InvalidStateError ''completed'' ''delivered''), fixture_booking ''completed'' 5)
   \<and> Complete (fixture_booking ''completed'' 5) 9999 200
     = (Some (InvalidStateError ''completed'' ''completed''), fixture_booking ''completed'' 5)
   \<and> Cancel (fixture_booking ''completed'' 5) ''late'' 200
     = (Some (InvalidStateError ''completed'' ''cancelled''), fixture_booking ''completed'' 5)
   \<and> finalPriceCents (snd (Complete (fixture_booking ''completed'' 5) 9999 200))
     = finalPriceCents (fixture_booking ''completed'' 5)
   \<and> version (snd (Complete (fixture_booking ''completed'' 5) 9999 200)) = 5"
proof -
  define b where "b = fixture_booking ''completed'' 5"
  have st: "status b = ''completed''"
    by (simp add: b_def fixture_booking_def)
  have no: "\<not> CanTransitionTo ''completed'' t" for t
    by (simp add: CanTransitionTo_def validTransitions_def status_defs)
  have v: "version b = 5"
    by (simp add: b_def fixture_booking_def)
  note c6 = C6_invalid_state [unfolded status_defs]
  have "Accept b 9 200 = (Some (InvalidStateError ''completed'' ''accepted''), b)"
    using c6 no st by metis
  moreover have "StartDelivery b 200 = (Some (InvalidStateError ''completed'' ''in_progress''), b)"
    using c6 no st by metis
  moreover have "ConfirmDelivery b 200 = (Some (InvalidStateError ''completed'' ''delivered''), b)"
    using c6 no st by metis
  moreover have "Complete b 9999 200 = (Some (InvalidStateError ''completed'' ''completed''), b)"
    using c6 no st by metis
  moreover have "Cancel b ''late'' 200 = (Some (InvalidStateError ''completed'' ''cancelled''), b)"
    using c6 no st by metis
  moreover have "finalPriceCents (snd (Complete b 9999 200)) = finalPriceCents b"
    using c6 st by metis
  moreover have "version (snd (Complete b 9999 200)) = 5"
    using c6 st v by metis
  ultimately show ?thesis unfolding b_def by blast
qed

subsection \<open>C7: transitions stamp the time, the orchestrator bumps the version\<close>

lemma Accept_success:
  "Accept b runner now = (None, b') \<Longrightarrow> updatedAt b' = now \<and> version b' = version b"
  by (auto simp: Accept_def split: if_splits)

lemma StartDelivery_success:
  "StartDelivery b now = (None, b') \<Longrightarrow> updatedAt b' = now \<and> version b' = version b"
  by (auto simp: StartDelivery_def split: if_splits)

lemma ConfirmDelivery_success:
  "ConfirmDelivery b now = (None, b') \<Longrightarrow> updatedAt b' = now \<and> version b' = version b"
  by (auto simp: ConfirmDelivery_def split: if_splits)

lemma Complete_success:
  "Complete b finalPrice now = (None, b') \<Longrightarrow> updatedAt b' = now \<and> version b' = version b"
  by (auto simp: Complete_def split: if_splits)

lemma Cancel_success:
  "Cancel b reason now = (None, b') \<Longrightarrow> updatedAt b' = now \<and> version b' = version b"
  by (auto simp: Cancel_def split: if_splits)

lemma IncrementVersion_version: "version (IncrementVersion b now) = version b + 1"
  by (simp add: IncrementVersion_def)

lemma publishEvent_table:
  "bookings_table (publishEvent e w tp eventType key data) = bookings_table w"
  by (simp add: publishEvent_def log_append_def split: option.splits)

lemma toBookingDTO_Version: "BookingDTO.Version (toBookingDTO bk) = version bk"
  by (simp add: toBookingDTO_def)

lemma AcceptBooking_rejected:
  "FindByID (codec e) (find_fault e) (bookings_table w) bid = Inr bk \<Longrightarrow>
   fst (Accept bk runner (clock e 0)) = Some err \<Longrightarrow>
   AcceptBooking e w bid runner = (Inl err, w)"
  by (cases "Accept bk runner (clock e 0)") (simp add: AcceptBooking_def)

lemma StartDelivery_service_rejected:
  "FindByID (codec e) (find_fault e) (bookings_table w) bid = Inr bk \<Longrightarrow>
   fst (StartDelivery bk (clock e 0)) = Some err \<Longrightarrow>
   StartDelivery_service e w bid = (Inl err, w)"
  by (cases "StartDelivery bk (clock e 0)") (simp add: StartDelivery_service_def)

lemma ConfirmDelivery_service_rejected:
  "FindByID (codec e) (find_fault e) (bookings_table w) bid = Inr bk \<Longrightarrow>
   fst (ConfirmDelivery bk (clock e 0)) = Some err \<Longrightarrow>
   ConfirmDelivery_service e w bid = (Inl err, w)"
  by (cases "ConfirmDelivery bk (clock e 0)") (simp add: ConfirmDelivery_service_def)

lemma CompleteBooking_rejected:
  "FindByID (codec e) (find_fault e) (bookings_table w) bid = Inr bk \<Longrightarrow>
   fst (Complete bk (estimatedPriceCents bk) (clock e 0)) = Some err \<Longrightarrow>
   CompleteBooking e w bid = (Inl err, w)"
  by (cases "Complete bk (estimatedPriceCents bk) (clock e 0)") (simp add: CompleteBooking_def)

lemma CancelBooking_rejected:
  "FindByID (codec e) (find_fault e) (bookings_table w) bid = Inr bk \<Longrightarrow>
   fst (Cancel bk reason (clock e 0)) = Some err \<Longrightarrow>
   CancelBooking e w bid cancelledBy reason = (Inl err, w)"
  by (cases "Cancel bk reason (clock e 0)") (simp add: CancelBooking_def)

lemma AcceptBooking_committed:
  assumes "AcceptBooking e w bid runner = (Inr dto, w')"
  shows "\<exists>bk bk'. FindByID (codec e) (find_fault e) (bookings_table w) bid = Inr bk
           \<and> Accept bk runner (clock e 0) = (None, bk')
           \<and> Update (codec e) (update_fault e) (bookings_table w)
                (IncrementVersion bk' (clock e 1)) = (None, bookings_table w')
           \<and> dto = toBookingDTO (IncrementVersion bk' (clock e 1))"
  using assms
  by (auto simp: AcceptBooking_def Let_def publishEvent_table
           split: sum.splits prod.splits option.splits)

lemma StartDelivery_service_committed:
  assumes "StartDelivery_service e w bid = (Inr dto, w')"
  shows "\<exists>bk bk'. FindByID (codec e) (find_fault e) (bookings_table w) bid = Inr bk
           \<and> StartDelivery bk (clock e 0) = (None, bk')
           \<and> Update (codec e) (update_fault e) (bookings_table w)
                (IncrementVersion bk' (clock e 1)) = (None, bookings_table w')
           \<and> dto = toBookingDTO (IncrementVersion bk' (clock e 1))"
  using assms
  by (auto simp: StartDelivery_service_def Let_def publishEvent_table
           split: sum.splits prod.splits option.splits)

lemma ConfirmDelivery_service_committed:
  assumes "ConfirmDelivery_service e w bid = (Inr dto, w')"
  shows "\<exists>bk bk'. FindByID (codec e) (find_fault e) (bookings_table w) bid = Inr bk
           \<and> ConfirmDelivery bk (clock e 0) = (None, bk')
           \<and> Update (codec e) (update_fault e) (bookings_table w)
                (IncrementVersion bk' (clock e 1)) = (None, bookings_table w')
           \<and> dto = toBookingDTO (IncrementVersion bk' (clock e 1))"
  using assms
  by (auto simp: ConfirmDelivery_service_def Let_def publishEvent_table
           split: sum.splits prod.splits option.splits)

lemma CompleteBooking_committed:
  assumes "CompleteBooking e w bid = (Inr dto, w')"
  shows "\<exists>bk bk'. FindByID (codec e) (find_fault e) (bookings_table w) bid = Inr bk
           \<and> Complete bk (estimatedPriceCents bk) (clock e 0) = (None, bk')
           \<and> Update (codec e) (update_fault e) (bookings_table w)
                (IncrementVersion bk' (clock e 1)) = (None, bookings_table w')
           \<and> dto = toBookingDTO (IncrementVersion bk' (clock e 1))"
  using assms
  by (auto simp: CompleteBooking_def Let_def publishEvent_table
           split: sum.splits prod.splits option.splits)

lemma CancelBooking_committed:
  assumes "CancelBooking e w bid cancelledBy reason = (Inr dto, w')"
  shows "\<exists>bk bk'. FindByID (codec e) (find_fault e) (bookings_table w) bid = Inr bk
           \<and> Cancel bk reason (clock e 0) = (None, bk')
           \<and> Update (codec e) (update_fault e) (bookings_table w)
                (IncrementVersion bk' (clock e 1)) = (None, bookings_table w')
           \<and> dto = toBookingDTO (IncrementVersion bk' (clock e 1))"
  using assms
  by (auto simp: CancelBooking_def Let_def publishEvent_table
           split: sum.splits prod.splits option.splits)

lemmas fixture_defs =
  fixture_booking_def fixture_codec_def fixture_env_def fixture_row_def fixture_world_def

lemma fixture_FindByID:
  "IsValid st \<Longrightarrow>
   FindByID fixture_codec None [fixture_row st v] 7
     = Inr ((fixture_booking st v)\<lparr>runnerID := Some 5\<rparr>)"
  by (simp add: FindByID_def toDomainBooking_def ParseBookingStatus_def fixture_defs)

lemma IsValid_literals:
  "IsValid ''requested''" "IsValid ''accepted''" "IsValid ''in_progress''"
  "IsValid ''delivered''" "IsValid ''completed''" "IsValid ''cancelled''"
  by (simp_all add: IsValid_def validTransitions_def status_defs)

lemma AcceptBooking_forward:
  assumes find: "FindByID (codec e) (find_fault e) (bookings_table w) bid = Inr bk"
    and op: "Accept bk runner (clock e 0) = (None, bk')"
  shows "bookings_table (snd (AcceptBooking e w bid runner))
           = snd (Update (codec e) (update_fault e) (bookings_table w)
              (IncrementVersion bk' (clock e 1)))"
    and "fst (Update (codec e) (update_fault e) (bookings_table w)
              (IncrementVersion bk' (clock e 1))) = Some err \<Longrightarrow>
         fst (AcceptBooking e w bid runner) = Inl err"
    and "fst (Update (codec e) (update_fault e) (bookings_table w)
              (IncrementVersion bk' (clock e 1))) = None \<Longrightarrow>
         fst (AcceptBooking e w bid runner)
           = Inr (toBookingDTO (IncrementVersion bk' (clock e 1)))"
proof -
  obtain r db where "Update (codec e) (update_fault e) (bookings_table w)
              (IncrementVersion bk' (clock e 1)) = (r, db)"
    by (cases "Update (codec e) (update_fault e) (bookings_table w)
              (IncrementVersion bk' (clock e 1))")
  then have u: "Update (codec e) (update_fault e) (bookings_table w)
      (IncrementVersion bk' (clock e (Suc 0))) = (r, db)"
    by simp
  have fields: "runnerID (IncrementVersion bk' (clock e (Suc 0))) = runnerID bk'"
    by (simp add: IncrementVersion_def)
  show "bookings_table (snd (AcceptBooking e w bid runner))
           = snd (Update (codec e) (update_fault e) (bookings_table w)
              (IncrementVersion bk' (clock e 1)))"
    by (cases r; cases "runnerID bk'")
       (simp_all add: AcceptBooking_def find op u fields Let_def publishEvent_table)
  show "fst (Update (codec e) (update_fault e) (bookings_table w)
              (IncrementVersion bk' (clock e 1))) = Some err \<Longrightarrow>
         fst (AcceptBooking e w bid runner) = Inl err"
    by (cases r) (simp_all add: AcceptBooking_def find op u Let_def)
  show "fst (Update (codec e) (update_fault e) (bookings_table w)
              (IncrementVersion bk' (clock e 1))) = None \<Longrightarrow>
         fst (AcceptBooking e w bid runner)
           = Inr (toBookingDTO (IncrementVersion bk' (clock e 1)))"
    by (cases r; cases "runnerID bk'")
       (simp_all add: AcceptBooking_def find op u fields Let_def)
qed

lemma StartDelivery_service_forward:
  assumes find: "FindByID (codec e) (find_fault e) (bookings_table w) bid = Inr bk"
    and op: "StartDelivery bk (clock e 0) = (None, bk')"
  shows "bookings_table (snd (StartDelivery_service e w bid))
           = snd (Update (codec e) (update_fault e) (bookings_table w)
              (IncrementVersion bk' (clock e 1)))"
    and "fst (Update (codec e) (update_fault e) (bookings_table w)
              (IncrementVersion bk' (clock e 1))) = Some err \<Longrightarrow>
         fst (StartDelivery_service e w bid) = Inl err"
    and "fst (Update (codec e) (update_fault e) (bookings_table w)
              (IncrementVersion bk' (clock e 1))) = None \<Longrightarrow>
         fst (StartDelivery_service e w bid)
           = (if runnerID bk' = None then Inl (Panic ''nil pointer dereference'')
              else Inr (toBookingDTO (IncrementVersion bk' (clock e 1))))"
proof -
  obtain r db where "Update (codec e) (update_fault e) (bookings_table w)
              (IncrementVersion bk' (clock e 1)) = (r, db)"
    by (cases "Update (codec e) (update_fault e) (bookings_table w)
              (IncrementVersion bk' (clock e 1))")
  then have u: "Update (codec e) (update_fault e) (bookings_table w)
      (IncrementVersion bk' (clock e (Suc 0))) = (r, db)"
    by simp
  have fields: "runnerID (IncrementVersion bk' (clock e (Suc 0))) = runnerID bk'"
    "pickedUpAt (IncrementVersion bk' (clock e (Suc 0))) = Some (clock e 0)"
    using op by (auto simp: IncrementVersion_def StartDelivery_def split: if_splits)
  show "bookings_table (snd (StartDelivery_service e w bid))
           = snd (Update (codec e) (update_fault e) (bookings_table w)
              (IncrementVersion bk' (clock e 1)))"
    by (cases r; cases "runnerID bk'")
       (simp_all add: StartDelivery_service_def find op u fields Let_def publishEvent_table)
  show "fst (Update (codec e) (update_fault e) (bookings_table w)
              (IncrementVersion bk' (clock e 1))) = Some err \<Longrightarrow>
         fst (StartDelivery_service e w bid) = Inl err"
    by (cases r) (simp_all add: StartDelivery_service_def find op u Let_def)
  show "fst (Update (codec e) (update_fault e) (bookings_table w)
              (IncrementVersion bk' (clock e 1))) = None \<Longrightarrow>
         fst (StartDelivery_service e w bid)
           = (if runnerID bk' = None then Inl (Panic ''nil pointer dereference'')
              else Inr (toBookingDTO (IncrementVersion bk' (clock e 1))))"
    by (cases r; cases "runnerID bk'")
       (simp_all add: StartDelivery_service_def find op u fields Let_def)
qed

lemma ConfirmDelivery_service_forward:
  assumes find: "FindByID (codec e) (find_fault e) (bookings_table w) bid = Inr bk"
    and op: "ConfirmDelivery bk (clock e 0) = (None, bk')"
  shows "bookings_table (snd (ConfirmDelivery_service e w bid))
           = snd (Update (codec e) (update_fault e) (bookings_table w)
              (IncrementVersion bk' (clock e 1)))"
    and "fst (Update (codec e) (update_fault e) (bookings_table w)
              (IncrementVersion bk' (clock e 1))) = Some err \<Longrightarrow>
         fst (ConfirmDelivery_service e w bid) = Inl err"
    and "fst (Update (codec e) (update_fault e) (bookings_table w)
              (IncrementVersion bk' (clock e 1))) = None \<Longrightarrow>
         fst (ConfirmDelivery_service e w bid)
           = (if runnerID bk' = None then Inl (Panic ''nil pointer dereference'')
              else Inr (toBookingDTO (IncrementVersion bk' (clock e 1))))"
proof -
  obtain r db where "Update (codec e) (update_fault e) (bookings_table w)
              (IncrementVersion bk' (clock e 1)) = (r, db)"
    by (cases "Update (codec e) (update_fault e) (bookings_table w)
              (IncrementVersion bk' (clock e 1))")
  then have u: "Update (codec e) (update_fault e) (bookings_table w)
      (IncrementVersion bk' (clock e (Suc 0))) = (r, db)"
    by simp
  have fields: "runnerID (IncrementVersion bk' (clock e (Suc 0))) = runnerID bk'"
    "deliveredAt (IncrementVersion bk' (clock e (Suc 0))) = Some (clock e 0)"
    using op by (auto simp: IncrementVersion_def ConfirmDelivery_def split: if_splits)
  show "bookings_table (snd (ConfirmDelivery_service e w bid))
           = snd (Update (codec e) (update_fault e) (bookings_table w)
              (IncrementVersion bk' (clock e 1)))"
    by (cases r; cases "runnerID bk'")
       (simp_all add: ConfirmDelivery_service_def find op u fields Let_def publishEvent_table)
  show "fst (Update (codec e) (update_fault e) (bookings_table w)
              (IncrementVersion bk' (clock e 1))) = Some err \<Longrightarrow>
         fst (ConfirmDelivery_service e w bid) = Inl err"
    by (cases r) (simp_all add: ConfirmDelivery_service_def find op u Let_def)
  show "fst (Update (codec e) (update_fault e) (bookings_table w)
              (IncrementVersion bk' (clock e 1))) = None \<Longrightarrow>
         fst (ConfirmDelivery_service e w bid)
           = (if runnerID bk' = None then Inl (Panic ''nil pointer dereference'')
              else Inr (toBookingDTO (IncrementVersion bk' (clock e 1))))"
    by (cases r; cases "runnerID bk'")
       (simp_all add: ConfirmDelivery_service_def find op u fields Let_def)
qed

lemma CompleteBooking_forward:
  assumes find: "FindByID (codec e) (find_fault e) (bookings_table w) bid = Inr bk"
    and op: "Complete bk (estimatedPriceCents bk) (clock e 0) = (None, bk')"
  shows "bookings_table (snd (CompleteBooking e w bid))
           = snd (Update (codec e) (update_fault e) (bookings_table w)
              (IncrementVersion bk' (clock e 1)))"
    and "fst (Update (codec e) (update_fault e) (bookings_table w)
              (IncrementVersion bk' (clock e 1))) = Some err \<Longrightarrow>
         fst (CompleteBooking e w bid) = Inl err"
    and "fst (Update (codec e) (update_fault e) (bookings_table w)
              (IncrementVersion bk' (clock e 1))) = None \<Longrightarrow>
         fst (CompleteBooking e w bid)
           = Inr (toBookingDTO (IncrementVersion bk' (clock e 1)))"
proof -
  obtain r db where "Update (codec e) (update_fault e) (bookings_table w)
              (IncrementVersion bk' (clock e 1)) = (r, db)"
    by (cases "Update (codec e) (update_fault e) (bookings_table w)
              (IncrementVersion bk' (clock e 1))")
  then have u: "Update (codec e) (update_fault e) (bookings_table w)
      (IncrementVersion bk' (clock e (Suc 0))) = (r, db)"
    by simp
  have fields: "runnerID (IncrementVersion bk' (clock e (Suc 0))) = runnerID bk'"
    by (simp add: IncrementVersion_def)
  show "bookings_table (snd (CompleteBooking e w bid))
           = snd (Update (codec e) (update_fault e) (bookings_table w)
              (IncrementVersion bk' (clock e 1)))"
    by (cases r; cases "runnerID bk'")
       (simp_all add: CompleteBooking_def find op u fields Let_def publishEvent_table)
  show "fst (Update (codec e) (update_fault e) (bookings_table w)
              (IncrementVersion bk' (clock e 1))) = Some err \<Longrightarrow>
         fst (CompleteBooking e w bid) = Inl err"
    by (cases r) (simp_all add: CompleteBooking_def find op u Let_def)
  show "fst (Update (codec e) (update_fault e) (bookings_table w)
              (IncrementVersion bk' (clock e 1))) = None \<Longrightarrow>
         fst (CompleteBooking e w bid)
           = Inr (toBookingDTO (IncrementVersion bk' (clock e 1)))"
    by (cases r; cases "runnerID bk'")
       (simp_all add: CompleteBooking_def find op u fields Let_def)
qed

lemma CancelBooking_forward:
  assumes find: "FindByID (codec e) (find_fault e) (bookings_table w) bid = Inr bk"
    and op: "Cancel bk reason (clock e 0) = (None, bk')"
  shows "bookings_table (snd (CancelBooking e w bid cancelledBy reason))
           = snd (Update (codec e) (update_fault e) (bookings_table w)
              (IncrementVersion bk' (clock e 1)))"
    and "fst (Update (codec e) (update_fault e) (bookings_table w)
              (IncrementVersion bk' (clock e 1))) = Some err \<Longrightarrow>
         fst (CancelBooking e w bid cancelledBy reason) = Inl err"
    and "fst (Update (codec e) (update_fault e) (bookings_table w)
              (IncrementVersion bk' (clock e 1))) = None \<Longrightarrow>
         fst (CancelBooking e w bid cancelledBy reason)
           = Inr (toBookingDTO (IncrementVersion bk' (clock e 1)))"
proof -
  obtain r db where "Update (codec e) (update_fault e) (bookings_table w)
              (IncrementVersion bk' (clock e 1)) = (r, db)"
    by (cases "Update (codec e) (update_fault e) (bookings_table w)
              (IncrementVersion bk' (clock e 1))")
  then have u: "Update (codec e) (update_fault e) (bookings_table w)
      (IncrementVersion bk' (clock e (Suc 0))) = (r, db)"
    by simp
  have fields: "runnerID (IncrementVersion bk' (clock e (Suc 0))) = runnerID bk'"
    by (simp add: IncrementVersion_def)
  show "bookings_table (snd (CancelBooking e w bid cancelledBy reason))
           = snd (Update (codec e) (update_fault e) (bookings_table w)
              (IncrementVersion bk' (clock e 1)))"
    by (cases r; cases "runnerID bk'")
       (simp_all add: CancelBooking_def find op u fields Let_def publishEvent_table)
  show "fst (Update (codec e) (update_fault e) (bookings_table w)
              (IncrementVersion bk' (clock e 1))) = Some err \<Longrightarrow>
         fst (CancelBooking e w bid cancelledBy reason) = Inl err"
    by (cases r) (simp_all add: CancelBooking_def find op u Let_def)
  show "fst (Update (codec e) (update_fault e) (bookings_table w)
              (IncrementVersion bk' (clock e 1))) = None \<Longrightarrow>
         fst (CancelBooking e w bid cancelledBy reason)
           = Inr (toBookingDTO (IncrementVersion bk' (clock e 1)))"
    by (cases r; cases "runnerID bk'")
       (simp_all add: CancelBooking_def find op u fields Let_def)
qed

lemma fixture_env_simps:
  "codec (fixture_env fault) = fixture_codec" "find_fault (fixture_env fault) = None"
  "update_fault (fixture_env fault) = fault"
  "clock (fixture_env fault) 0 = 200" "clock (fixture_env fault) 1 = 201"
  "clock (fixture_env fault) (Suc 0) = 201"
  "ParseData (fixture_env fault) ce
     = Inr \<lparr>PaymentID = 3, BookingID = 7, RunnerID = 5, RunnerPayout = 3400,
            PlatformFee = 600, Currency = ''MYR'', OccurredAt = 150\<rparr>"
  by (simp_all add: fixture_env_def)

lemma fixture_world_table:
  "bookings_table (fixture_world st v) = [fixture_row st v]"
  "bookings_table (log_append (fixture_world st v) level msg) = [fixture_row st v]"
  by (simp_all add: fixture_world_def log_append_def)

text \<open>
  C7. Every successful \<^verbatim>\<open>Accept\<close>, \<^verbatim>\<open>StartDelivery\<close>, \<^verbatim>\<open>ConfirmDelivery\<close>, \<^verbatim>\<open>Complete\<close>
  and \<^verbatim>\<open>Cancel\<close> sets the last-modified time to the time of the call and keeps the version.
  \<^verbatim>\<open>IncrementVersion\<close> is the step that adds one. In each use case of the service, when
  the aggregate operation fails the call returns that error with the table, the events and
  the log untouched, so no version is consumed. When the aggregate operation succeeds
  on the booking loaded, the use case submits to \<^verbatim>\<open>Update\<close> the result of that operation
  with \<^verbatim>\<open>IncrementVersion\<close> applied to it: the table it leaves is the one this \<^verbatim>\<open>Update\<close>
  leaves, an error of this \<^verbatim>\<open>Update\<close> is the error it returns, and when this \<^verbatim>\<open>Update\<close>
  succeeds it returns the incremented booking (pick-up and delivery panic first when the
  booking has no runner). Conversely a use case that succeeds has taken this path, and the
  version it returns is one above the version loaded.
\<close>

theorem C7_version_step:
  "(\<forall>b runner now b'. Accept b runner now = (None, b') \<longrightarrow>
      updatedAt b' = now \<and> version b' = version b)
   \<and> (\<forall>b now b'. StartDelivery b now = (None, b') \<longrightarrow>
      updatedAt b' = now \<and> version b' = version b)
   \<and> (\<forall>b now b'. ConfirmDelivery b now = (None, b') \<longrightarrow>
      updatedAt b' = now \<and> version b' = version b)
   \<and> (\<forall>b finalPrice now b'. Complete b finalPrice now = (None, b') \<longrightarrow>
      updatedAt b' = now \<and> version b' = version b)
   \<and> (\<forall>b reason now b'. Cancel b reason now = (None, b') \<longrightarrow>
      updatedAt b' = now \<and> version b' = version b)
   \<and> (\<forall>b now. version (IncrementVersion b now) = version b + 1)
   \<and> (\<forall>e w bid runner bk err.
        FindByID (codec e) (find_fault e) (bookings_table w) bid = Inr bk
        \<and> fst (Accept bk runner (clock e 0)) = Some err \<longrightarrow>
        AcceptBooking e w bid runner = (Inl err, w))
   \<and> (\<forall>e w bid bk err.
        FindByID (codec e) (find_fault e) (bookings_table w) bid = Inr bk
        \<and> fst (StartDelivery bk (clock e 0)) = Some err \<longrightarrow>
        StartDelivery_service e w bid = (Inl err, w))
   \<and> (\<forall>e w bid bk err.
        FindByID (codec e) (find_fault e) (bookings_table w) bid = Inr bk
        \<and> fst (ConfirmDelivery bk (clock e 0)) = Some err \<longrightarrow>
        ConfirmDelivery_service e w bid = (Inl err, w))
   \<and> (\<forall>e w bid bk err.
        FindByID (codec e) (find_fault e) (bookings_table w) bid = Inr bk
        \<and> fst (Complete bk (estimatedPriceCents bk) (clock e 0)) = Some err \<longrightarrow>
        CompleteBooking e w bid = (Inl err, w))
   \<and> (\<forall>e w bid cancelledBy reason bk err.
        FindByID (codec e) (find_fault e) (bookings_table w) bid = Inr bk
        \<and> fst (Cancel bk reason (clock e 0)) = Some err \<longrightarrow>
        CancelBooking e w bid cancelledBy reason = (Inl err, w))
   \<and> (\<forall>e w bid runner dto w'. AcceptBooking e w bid runner = (Inr dto, w') \<longrightarrow>
        (\<exists>bk bk'. FindByID (codec e) (find_fault e) (bookings_table w) bid = Inr bk
           \<and> Accept bk runner (clock e 0) = (None, bk')
           \<and> Update (codec e) (update_fault e) (bookings_table w)
                (IncrementVersion bk' (clock e 1)) = (None, bookings_table w')
           \<and> BookingDTO.Version dto = version bk + 1))
   \<and> (\<forall>e w bid dto w'. StartDelivery_service e w bid = (Inr dto, w') \<longrightarrow>
        (\<exists>bk bk'. FindByID (codec e) (find_fault e) (bookings_table w) bid = Inr bk
           \<and> StartDelivery bk (clock e 0) = (None, bk')
           \<and> Update (codec e) (update_fault e) (bookings_table w)
                (IncrementVersion bk' (clock e 1)) = (None, bookings_table w')
           \<and> BookingDTO.Version dto = version bk + 1))
   \<and> (\<forall>e w bid dto w'. ConfirmDelivery_service e w bid = (Inr dto, w') \<longrightarrow>
        (\<exists>bk bk'. FindByID (codec e) (find_fault e) (bookings_table w) bid = Inr bk
           \<and> ConfirmDelivery bk (clock e 0) = (None, bk')
           \<and> Update (codec e) (update_fault e) (bookings_table w)
                (IncrementVersion bk' (clock e 1)) = (None, bookings_table w')
           \<and> BookingDTO.Version dto = version bk + 1))
   \<and> (\<forall>e w bid dto w'. CompleteBooking e w bid = (Inr dto, w') \<longrightarrow>
        (\<exists>bk bk'. FindByID (codec e) (find_fault e) (bookings_table w) bid = Inr bk
           \<and> Complete bk (estimatedPriceCents bk) (clock e 0) = (None, bk')
           \<and> Update (codec e) (update_fault e) (bookings_table w)
                (IncrementVersion bk' (clock e 1)) = (None, bookings_table w')
           \<and> BookingDTO.Version dto = version bk + 1))
   \<and> (\<forall>e w bid cancelledBy reason dto w'.
        CancelBooking e w bid cancelledBy reason = (Inr dto, w') \<longrightarrow>
        (\<exists>bk bk'. FindByID (codec e) (find_fault e) (bookings_table w) bid = Inr bk
           \<and> Cancel bk reason (clock e 0) = (None, bk')
           \<and> Update (codec e) (update_fault e) (bookings_table w)
                (IncrementVersion bk' (clock e 1)) = (None, bookings_table w')
           \<and> BookingDTO.Version dto = version bk + 1))
   \<and> (\<forall>e w bid runner bk bk'.
        FindByID (codec e) (find_fault e) (bookings_table w) bid = Inr bk
        \<and> Accept bk runner (clock e 0) = (None, bk') \<longrightarrow>
        bookings_table (snd (AcceptBooking e w bid runner))
          = snd (Update (codec e) (update_fault e) (bookings_table w)
               (IncrementVersion bk' (clock e 1)))
        \<and> (\<forall>err. fst (Update (codec e) (update_fault e) (bookings_table w)
               (IncrementVersion bk' (clock e 1))) = Some err \<longrightarrow>
             fst (AcceptBooking e w bid runner) = Inl err)
        \<and> (fst (Update (codec e) (update_fault e) (bookings_table w)
               (IncrementVersion bk' (clock e 1))) = None \<longrightarrow>
             fst (AcceptBooking e w bid runner)
               = Inr (toBookingDTO (IncrementVersion bk' (clock e 1)))))
   \<and> (\<forall>e w bid bk bk'.
        FindByID (codec e) (find_fault e) (bookings_table w) bid = Inr bk
        \<and> StartDelivery bk (clock e 0) = (None, bk') \<longrightarrow>
        bookings_table (snd (StartDelivery_service e w bid))
          = snd (Update (codec e) (update_fault e) (bookings_table w)
               (IncrementVersion bk' (clock e 1)))
        \<and> (\<forall>err. fst (Update (codec e) (update_fault e) (bookings_table w)
               (IncrementVersion bk' (clock e 1))) = Some err \<longrightarrow>
             fst (StartDelivery_service e w bid) = Inl err)
        \<and> (fst (Update (codec e) (update_fault e) (bookings_table w)
               (IncrementVersion bk' (clock e 1))) = None \<longrightarrow>
             fst (StartDelivery_service e w bid)
               = (if runnerID bk' = None then Inl (Panic ''nil pointer dereference'')
               else Inr (toBookingDTO (IncrementVersion bk' (clock e 1))))))
   \<and> (\<forall>e w bid bk bk'.
        FindByID (codec e) (find_fault e) (bookings_table w) bid = Inr bk
        \<and> ConfirmDelivery bk (clock e 0) = (None, bk') \<longrightarrow>
        bookings_table (snd (ConfirmDelivery_service e w bid))
          = snd (Update (codec e) (update_fault e) (bookings_table w)
               (IncrementVersion bk' (clock e 1)))
        \<and> (\<forall>err. fst (Update (codec e) (update_fault e) (bookings_table w)
               (IncrementVersion bk' (clock e 1))) = Some err \<longrightarrow>
             fst (ConfirmDelivery_service e w bid) = Inl err)
        \<and> (fst (Update (codec e) (update_fault e) (bookings_table w)
               (IncrementVersion bk' (clock e 1))) = None \<longrightarrow>
             fst (ConfirmDelivery_service e w bid)
               = (if runnerID bk' = None then Inl (Panic ''nil pointer dereference'')
               else Inr (toBookingDTO (IncrementVersion bk' (clock e 1))))))
   \<and> (\<forall>e w bid bk bk'.
        FindByID (codec e) (find_fault e) (bookings_table w) bid = Inr bk
        \<and> Complete bk (estimatedPriceCents bk) (clock e 0) = (None, bk') \<longrightarrow>
        bookings_table (snd (CompleteBooking e w bid))
          = snd (Update (codec e) (update_fault e) (bookings_table w)
               (IncrementVersion bk' (clock e 1)))
        \<and> (\<forall>err. fst (Update (codec e) (update_fault e) (bookings_table w)
               (IncrementVersion bk' (clock e 1))) = Some err \<longrightarrow>
             fst (CompleteBooking e w bid) = Inl err)
        \<and> (fst (Update (codec e) (update_fault e) (bookings_table w)
               (IncrementVersion bk' (clock e 1))) = None \<longrightarrow>
             fst (CompleteBooking e w bid)
               = Inr (toBookingDTO (IncrementVersion bk' (clock e 1)))))
   \<and> (\<forall>e w bid cancelledBy reason bk bk'.
        FindByID (codec e) (find_fault e) (bookings_table w) bid = Inr bk
        \<and> Cancel bk reason (clock e 0) = (None, bk') \<longrightarrow>
        bookings_table (snd (CancelBooking e w bid cancelledBy reason))
          = snd (Update (codec e) (update_fault e) (bookings_table w)
               (IncrementVersion bk' (clock e 1)))
        \<and> (\<forall>err. fst (Update (codec e) (update_fault e) (bookings_table w)
               (IncrementVersion bk' (clock e 1))) = Some err \<longrightarrow>
             fst (CancelBooking e w bid cancelledBy reason) = Inl err)
        \<and> (fst (Update (codec e) (update_fault e) (bookings_table w)
               (IncrementVersion bk' (clock e 1))) = None \<longrightarrow>
             fst (CancelBooking e w bid cancelledBy reason)
               = Inr (toBookingDTO (IncrementVersion bk' (clock e 1)))))"
proof (intro conjI allI impI; (elim conjE)?)
  fix e w bid runner dto w'
  assume "AcceptBooking e w bid runner = (Inr dto, w')"
  from AcceptBooking_committed [OF this] Accept_success
  show "\<exists>bk bk'. FindByID (codec e) (find_fault e) (bookings_table w) bid = Inr bk
           \<and> Accept bk runner (clock e 0) = (None, bk')
           \<and> Update (codec e) (update_fault e) (bookings_table w)
                (IncrementVersion bk' (clock e 1)) = (None, bookings_table w')
           \<and> BookingDTO.Version dto = version bk + 1"
    by (fastforce simp: toBookingDTO_Version IncrementVersion_version)
next
  fix e w bid dto w'
  assume "StartDelivery_service e w bid = (Inr dto, w')"
  from StartDelivery_service_committed [OF this] StartDelivery_success
  show "\<exists>bk bk'. FindByID (codec e) (find_fault e) (bookings_table w) bid = Inr bk
           \<and> StartDelivery bk (clock e 0) = (None, bk')
           \<and> Update (codec e) (update_fault e) (bookings_table w)
                (IncrementVersion bk' (clock e 1)) = (None, bookings_table w')
           \<and> BookingDTO.Version dto = version bk + 1"
    by (fastforce simp: toBookingDTO_Version IncrementVersion_version)
next
  fix e w bid dto w'
  assume "ConfirmDelivery_service e w bid = (Inr dto, w')"
  from ConfirmDelivery_service_committed [OF this] ConfirmDelivery_success
  show "\<exists>bk bk'. FindByID (codec e) (find_fault e) (bookings_table w) bid = Inr bk
           \<and> ConfirmDelivery bk (clock e 0) = (None, bk')
           \<and> Update (codec e) (update_fault e) (bookings_table w)
                (IncrementVersion bk' (clock e 1)) = (None, bookings_table w')
           \<and> BookingDTO.Version dto = version bk + 1"
    by (fastforce simp: toBookingDTO_Version IncrementVersion_version)
next
  fix e w bid dto w'
  assume "CompleteBooking e w bid = (Inr dto, w')"
  from CompleteBooking_committed [OF this] Complete_success
  show "\<exists>bk bk'. FindByID (codec e) (find_fault e) (bookings_table w) bid = Inr bk
           \<and> Complete bk (estimatedPriceCents bk) (clock e 0) = (None, bk')
           \<and> Update (codec e) (update_fault e) (bookings_table w)
                (IncrementVersion bk' (clock e 1)) = (None, bookings_table w')
           \<and> BookingDTO.Version dto = version bk + 1"
    by (fastforce simp: toBookingDTO_Version IncrementVersion_version)
next
  fix e w bid cancelledBy reason dto w'
  assume "CancelBooking e w bid cancelledBy reason = (Inr dto, w')"
  from CancelBooking_committed [OF this] Cancel_success
  show "\<exists>bk bk'. FindByID (codec e) (find_fault e) (bookings_table w) bid = Inr bk
           \<and> Cancel bk reason (clock e 0) = (None, bk')
           \<and> Update (codec e) (update_fault e) (bookings_table w)
                (IncrementVersion bk' (clock e 1)) = (None, bookings_table w')
           \<and> BookingDTO.Version dto = version bk + 1"
    by (fastforce simp: toBookingDTO_Version IncrementVersion_version)
next
  fix e :: env and w :: world and bid runner bk bk'
  assume find: "FindByID (codec e) (find_fault e) (bookings_table w) bid = Inr bk"
    and op: "Accept bk runner (clock e 0) = (None, bk')"
  show "bookings_table (snd (AcceptBooking e w bid runner))
          = snd (Update (codec e) (update_fault e) (bookings_table w)
               (IncrementVersion bk' (clock e 1)))"
    by (rule AcceptBooking_forward(1) [OF find op])
  show "fst (AcceptBooking e w bid runner) = Inl err"
    if "fst (Update (codec e) (update_fault e) (bookings_table w)
               (IncrementVersion bk' (clock e 1))) = Some err" for err
    by (rule AcceptBooking_forward(2) [OF find op that])
  show "fst (AcceptBooking e w bid runner)
          = Inr (toBookingDTO (IncrementVersion bk' (clock e 1)))"
    if "fst (Update (codec e) (update_fault e) (bookings_table w)
               (IncrementVersion bk' (clock e 1))) = None"
    by (rule AcceptBooking_forward(3) [OF find op that])
next
  fix e :: env and w :: world and bid bk bk'
  assume find: "FindByID (codec e) (find_fault e) (bookings_table w) bid = Inr bk"
    and op: "StartDelivery bk (clock e 0) = (None, bk')"
  show "bookings_table (snd (StartDelivery_service e w bid))
          = snd (Update (codec e) (update_fault e) (bookings_table w)
               (IncrementVersion bk' (clock e 1)))"
    by (rule StartDelivery_service_forward(1) [OF find op])
  show "fst (StartDelivery_service e w bid) = Inl err"
    if "fst (Update (codec e) (update_fault e) (bookings_table w)
               (IncrementVersion bk' (clock e 1))) = Some err" for err
    by (rule StartDelivery_service_forward(2) [OF find op that])
  show "fst (StartDelivery_service e w bid)
          = (if runnerID bk' = None then Inl (Panic ''nil pointer dereference'')
               else Inr (toBookingDTO (IncrementVersion bk' (clock e 1))))"
    if "fst (Update (codec e) (update_fault e) (bookings_table w)
               (IncrementVersion bk' (clock e 1))) = None"
    by (rule StartDelivery_service_forward(3) [OF find op that])
next
  fix e :: env and w :: world and bid bk bk'
  assume find: "FindByID (codec e) (find_fault e) (bookings_table w) bid = Inr bk"
    and op: "ConfirmDelivery bk (clock e 0) = (None, bk')"
  show "bookings_table (snd (ConfirmDelivery_service e w bid))
          = snd (Update (codec e) (update_fault e) (bookings_table w)
               (IncrementVersion bk' (clock e 1)))"
    by (rule ConfirmDelivery_service_forward(1) [OF find op])
  show "fst (ConfirmDelivery_service e w bid) = Inl err"
    if "fst (Update (codec e) (update_fault e) (bookings_table w)
               (IncrementVersion bk' (clock e 1))) = Some err" for err
    by (rule ConfirmDelivery_service_forward(2) [OF find op that])
  show "fst (ConfirmDelivery_service e w bid)
          = (if runnerID bk' = None then Inl (Panic ''nil pointer dereference'')
               else Inr (toBookingDTO (IncrementVersion bk' (clock e 1))))"
    if "fst (Update (codec e) (update_fault e) (bookings_table w)
               (IncrementVersion bk' (clock e 1))) = None"
    by (rule ConfirmDelivery_service_forward(3) [OF find op that])
next
  fix e :: env and w :: world and bid bk bk'
  assume find: "FindByID (codec e) (find_fault e) (bookings_table w) bid = Inr bk"
    and op: "Complete bk (estimatedPriceCents bk) (clock e 0) = (None, bk')"
  show "bookings_table (snd (CompleteBooking e w bid))
          = snd (Update (codec e) (update_fault e) (bookings_table w)
               (IncrementVersion bk' (clock e 1)))"
    by (rule CompleteBooking_forward(1) [OF find op])
  show "fst (CompleteBooking e w bid) = Inl err"
    if "fst (Update (codec e) (update_fault e) (bookings_table w)
               (IncrementVersion bk' (clock e 1))) = Some err" for err
    by (rule CompleteBooking_forward(2) [OF find op that])
  show "fst (CompleteBooking e w bid)
          = Inr (toBookingDTO (IncrementVersion bk' (clock e 1)))"
    if "fst (Update (codec e) (update_fault e) (bookings_table w)
               (IncrementVersion bk' (clock e 1))) = None"
    by (rule CompleteBooking_forward(3) [OF find op that])
next
  fix e :: env and w :: world and bid cancelledBy reason bk bk'
  assume find: "FindByID (codec e) (find_fault e) (bookings_table w) bid = Inr bk"
    and op: "Cancel bk reason (clock e 0) = (None, bk')"
  show "bookings_table (snd (CancelBooking e w bid cancelledBy reason))
          = snd (Update (codec e) (update_fault e) (bookings_table w)
               (IncrementVersion bk' (clock e 1)))"
    by (rule CancelBooking_forward(1) [OF find op])
  show "fst (CancelBooking e w bid cancelledBy reason) = Inl err"
    if "fst (Update (codec e) (update_fault e) (bookings_table w)
               (IncrementVersion bk' (clock e 1))) = Some err" for err
    by (rule CancelBooking_forward(2) [OF find op that])
  show "fst (CancelBooking e w bid cancelledBy reason)
          = Inr (toBookingDTO (IncrementVersion bk' (clock e 1)))"
    if "fst (Update (codec e) (update_fault e) (bookings_table w)
               (IncrementVersion bk' (clock e 1))) = None"
    by (rule CancelBooking_forward(3) [OF find op that])
qed (simp_all add: Accept_success StartDelivery_success ConfirmDelivery_success
       Complete_success Cancel_success IncrementVersion_version AcceptBooking_rejected
       StartDelivery_service_rejected ConfirmDelivery_service_rejected
       CompleteBooking_rejected CancelBooking_rejected)

lemma fixture_Update:
  "id' bk = 7 \<Longrightarrow> version bk = v + 1 \<Longrightarrow>
   \<exists>db. Update fixture_codec None [fixture_row st v] bk = (None, db)
        \<and> map BookingModel.Version db = [v + 1]
        \<and> map BookingModel.Status db = [status bk]
        \<and> map BookingModel.FinalPriceCents db = [finalPriceCents bk]
        \<and> map BookingModel.EstimatedPriceCents db = [estimatedPriceCents bk]"
  by (simp add: Update_def toBookingModel_def fixture_codec_def fixture_row_def
        split: option.splits)

theorem C7_version_step_witness:
  "AcceptBooking (fixture_env None) (fixture_world ''completed'' 5) 7 5
     = (Inl (InvalidStateError ''completed'' ''accepted''), fixture_world ''completed'' 5)
   \<and> (\<exists>dto w' bk bk'.
         AcceptBooking (fixture_env None) (fixture_world ''requested'' 1) 7 5 = (Inr dto, w')
         \<and> FindByID fixture_codec None [fixture_row ''requested'' 1] 7 = Inr bk
         \<and> Accept bk 5 200 = (None, bk')
         \<and> updatedAt bk' = 200 \<and> version bk' = 1
         \<and> Update fixture_codec None [fixture_row ''requested'' 1] (IncrementVersion bk' 201)
              = (None, bookings_table w')
         \<and> version (IncrementVersion bk' 201) = 2
         \<and> BookingDTO.Version dto = 2)
   \<and> (\<exists>b'. StartDelivery (fixture_booking ''accepted'' 2) 300 = (None, b')
         \<and> updatedAt b' = 300 \<and> version b' = 2)
   \<and> (\<exists>b'. ConfirmDelivery (fixture_booking ''in_progress'' 3) 400 = (None, b')
         \<and> updatedAt b' = 400 \<and> version b' = 3)
   \<and> (\<exists>b'. Complete (fixture_booking ''delivered'' 4) 4000 500 = (None, b')
         \<and> updatedAt b' = 500 \<and> version b' = 4)
   \<and> (\<exists>b'. Cancel (fixture_booking ''requested'' 1) ''changed plans'' 150 = (None, b')
         \<and> updatedAt b' = 150 \<and> version b' = 1)
   \<and> (map BookingModel.Version (bookings_table (snd (AcceptBooking (fixture_env None) (fixture_world ''requested'' 1) 7 5))) = [2]
     \<and> (\<exists>dto. fst (AcceptBooking (fixture_env None) (fixture_world ''requested'' 1) 7 5) = Inr dto \<and> BookingDTO.Version dto = 2))
   \<and> (map BookingModel.Version (bookings_table (snd (StartDelivery_service (fixture_env None) (fixture_world ''accepted'' 2) 7))) = [3]
     \<and> (\<exists>dto. fst (StartDelivery_service (fixture_env None) (fixture_world ''accepted'' 2) 7) = Inr dto \<and> BookingDTO.Version dto = 3))
   \<and> (map BookingModel.Version (bookings_table (snd (ConfirmDelivery_service (fixture_env None) (fixture_world ''in_progress'' 3) 7))) = [4]
     \<and> (\<exists>dto. fst (ConfirmDelivery_service (fixture_env None) (fixture_world ''in_progress'' 3) 7) = Inr dto \<and> BookingDTO.Version dto = 4))
   \<and> (map BookingModel.Version (bookings_table (snd (CompleteBooking (fixture_env None) (fixture_world ''delivered'' 4) 7))) = [5]
     \<and> (\<exists>dto. fst (CompleteBooking (fixture_env None) (fixture_world ''delivered'' 4) 7) = Inr dto \<and> BookingDTO.Version dto = 5))
   \<and> (map BookingModel.Version (bookings_table (snd (CancelBooking (fixture_env None) (fixture_world ''requested'' 1) 7 1 ''changed plans''))) = [2]
     \<and> (\<exists>dto. fst (CancelBooking (fixture_env None) (fixture_world ''requested'' 1) 7 1 ''changed plans'') = Inr dto \<and> BookingDTO.Version dto = 2))"
proof -
  let ?e = "fixture_env None"
  note stamps = C7_version_step [THEN conjunct1, rule_format]
  note start_stamps = C7_version_step [THEN conjunct2, THEN conjunct1, rule_format]
  note confirm_stamps = C7_version_step [THEN conjunct2, THEN conjunct2, THEN conjunct1, rule_format]
  note complete_stamps = C7_version_step [THEN conjunct2, THEN conjunct2, THEN conjunct2, THEN conjunct1, rule_format]
  note cancel_stamps = C7_version_step [THEN conjunct2, THEN conjunct2, THEN conjunct2, THEN conjunct2, THEN conjunct1, rule_format]
  note bump = C7_version_step [THEN conjunct2, THEN conjunct2, THEN conjunct2, THEN conjunct2, THEN conjunct2, THEN conjunct1, rule_format]
  note rejected = C7_version_step [THEN conjunct2, THEN conjunct2, THEN conjunct2, THEN conjunct2, THEN conjunct2, THEN conjunct2, THEN conjunct1, rule_format]
  note committed = C7_version_step [THEN conjunct2, THEN conjunct2, THEN conjunct2, THEN conjunct2, THEN conjunct2, THEN conjunct2, THEN conjunct2, THEN conjunct2, THEN conjunct2, THEN conjunct2, THEN conjunct2, THEN conjunct1, rule_format]
  have env: "codec ?e = fixture_codec" "find_fault ?e = None" "update_fault ?e = None"
    "clock ?e 0 = 200" "clock ?e 1 = 201" "clock ?e (Suc 0) = 201"
    by (simp_all add: fixture_env_def)
  have tab: "bookings_table (fixture_world st v) = [fixture_row st v]" for st v
    by (simp add: fixture_world_def)
  have find5: "FindByID (codec ?e) (find_fault ?e) (bookings_table (fixture_world ''completed'' 5)) 7
      = Inr ((fixture_booking ''completed'' 5)\<lparr>runnerID := Some 5\<rparr>)"
    by (simp add: env tab fixture_FindByID IsValid_literals)
  have rej: "fst (Accept ((fixture_booking ''completed'' 5)\<lparr>runnerID := Some 5\<rparr>) 5 (clock ?e 0))
      = Some (InvalidStateError ''completed'' ''accepted'')"
    by (simp add: Accept_def fixture_booking_def CanTransitionTo_def validTransitions_def
          status_defs)
  have first: "AcceptBooking ?e (fixture_world ''completed'' 5) 7 5
     = (Inl (InvalidStateError ''completed'' ''accepted''), fixture_world ''completed'' 5)"
    using rejected [of ?e "fixture_world ''completed'' 5" 7 _ 5] find5 rej by blast
  have find1: "FindByID fixture_codec None [fixture_row ''requested'' 1] 7
      = Inr ((fixture_booking ''requested'' 1)\<lparr>runnerID := Some 5\<rparr>)"
    by (simp add: fixture_FindByID IsValid_literals)
  have "\<exists>bk'. Accept ((fixture_booking ''requested'' 1)\<lparr>runnerID := Some 5\<rparr>) 5 200 = (None, bk')
          \<and> id' bk' = 7 \<and> version bk' = 1"
    by (simp add: Accept_def fixture_booking_def CanTransitionTo_def validTransitions_def
          status_defs uuid_Nil_def)
  then obtain bk0 where
    acc: "Accept ((fixture_booking ''requested'' 1)\<lparr>runnerID := Some 5\<rparr>) 5 200 = (None, bk0)"
    and bk0: "id' bk0 = 7" "version bk0 = 1"
    by blast
  from bk0 have "id' (IncrementVersion bk0 201) = 7" "version (IncrementVersion bk0 201) = 1 + 1"
    by (simp_all add: IncrementVersion_def)
  from fixture_Update [OF this] obtain db0 where
    upd: "Update fixture_codec None [fixture_row ''requested'' 1] (IncrementVersion bk0 201)
            = (None, db0)"
    by blast
  have "\<exists>dto w'. AcceptBooking ?e (fixture_world ''requested'' 1) 7 5 = (Inr dto, w')"
    by (simp add: AcceptBooking_def env tab find1 acc upd Let_def)
  then obtain dto w' where
    run: "AcceptBooking ?e (fixture_world ''requested'' 1) 7 5 = (Inr dto, w')"
    by blast
  from committed [OF run] obtain bk bk' where
    c: "FindByID (codec ?e) (find_fault ?e) (bookings_table (fixture_world ''requested'' 1)) 7 = Inr bk"
       "Accept bk 5 (clock ?e 0) = (None, bk')"
       "Update (codec ?e) (update_fault ?e) (bookings_table (fixture_world ''requested'' 1))
          (IncrementVersion bk' (clock ?e 1)) = (None, bookings_table w')"
       "BookingDTO.Version dto = version bk + 1"
    by blast
  from c(1) find1 have bk: "bk = (fixture_booking ''requested'' 1)\<lparr>runnerID := Some 5\<rparr>"
    by (simp add: env tab)
  then have v1: "version bk = 1" by (simp add: fixture_booking_def)
  from stamps [OF c(2)] have stamp: "updatedAt bk' = clock ?e 0 \<and> version bk' = version bk" .
  from bump have inc: "version (IncrementVersion bk' 201) = version bk' + 1" .
  from run find1 c stamp inc v1 have "AcceptBooking ?e (fixture_world ''requested'' 1) 7 5 = (Inr dto, w')
         \<and> FindByID fixture_codec None [fixture_row ''requested'' 1] 7 = Inr bk
         \<and> Accept bk 5 200 = (None, bk')
         \<and> updatedAt bk' = 200 \<and> version bk' = 1
         \<and> Update fixture_codec None [fixture_row ''requested'' 1] (IncrementVersion bk' 201)
              = (None, bookings_table w')
         \<and> version (IncrementVersion bk' 201) = 2
         \<and> BookingDTO.Version dto = 2"
    by (simp add: env tab bk)
  then have second: "\<exists>dto w' bk bk'.
         AcceptBooking ?e (fixture_world ''requested'' 1) 7 5 = (Inr dto, w')
         \<and> FindByID fixture_codec None [fixture_row ''requested'' 1] 7 = Inr bk
         \<and> Accept bk 5 200 = (None, bk')
         \<and> updatedAt bk' = 200 \<and> version bk' = 1
         \<and> Update fixture_codec None [fixture_row ''requested'' 1] (IncrementVersion bk' 201)
              = (None, bookings_table w')
         \<and> version (IncrementVersion bk' 201) = 2
         \<and> BookingDTO.Version dto = 2"
    by blast
  have can: "CanTransitionTo ''accepted'' ''in_progress''"
    "CanTransitionTo ''in_progress'' ''delivered''"
    "CanTransitionTo ''delivered'' ''completed''"
    "CanTransitionTo ''requested'' ''cancelled''"
    "CanTransitionTo ''requested'' ''accepted''"
    by (simp_all add: CanTransitionTo_table table_4_1_def)
  have "\<exists>b'. StartDelivery (fixture_booking ''accepted'' 2) 300 = (None, b')"
    using can by (simp add: StartDelivery_def fixture_booking_def status_defs)
  then obtain b1 where b1: "StartDelivery (fixture_booking ''accepted'' 2) 300 = (None, b1)" ..
  from start_stamps [OF b1] b1
  have third: "\<exists>b'. StartDelivery (fixture_booking ''accepted'' 2) 300 = (None, b')
         \<and> updatedAt b' = 300 \<and> version b' = 2"
    by (simp add: fixture_booking_def)
  have "\<exists>b'. ConfirmDelivery (fixture_booking ''in_progress'' 3) 400 = (None, b')"
    using can by (simp add: ConfirmDelivery_def fixture_booking_def status_defs)
  then obtain b2 where
    b2: "ConfirmDelivery (fixture_booking ''in_progress'' 3) 400 = (None, b2)" ..
  from confirm_stamps [OF b2] b2
  have fourth: "\<exists>b'. ConfirmDelivery (fixture_booking ''in_progress'' 3) 400 = (None, b')
         \<and> updatedAt b' = 400 \<and> version b' = 3"
    by (simp add: fixture_booking_def)
  have "\<exists>b'. Complete (fixture_booking ''delivered'' 4) 4000 500 = (None, b')"
    using can by (simp add: Complete_def fixture_booking_def status_defs)
  then obtain b3 where b3: "Complete (fixture_booking ''delivered'' 4) 4000 500 = (None, b3)" ..
  from complete_stamps [OF b3] b3
  have fifth: "\<exists>b'. Complete (fixture_booking ''delivered'' 4) 4000 500 = (None, b')
         \<and> updatedAt b' = 500 \<and> version b' = 4"
    by (simp add: fixture_booking_def)
  have "\<exists>b'. Cancel (fixture_booking ''requested'' 1) ''changed plans'' 150 = (None, b')"
    using can by (simp add: Cancel_def CanBeCancelled_def fixture_booking_def status_defs)
  then obtain b4 where
    b4: "Cancel (fixture_booking ''requested'' 1) ''changed plans'' 150 = (None, b4)" ..
  from cancel_stamps [OF b4] b4
  have sixth: "\<exists>b'. Cancel (fixture_booking ''requested'' 1) ''changed plans'' 150 = (None, b')
         \<and> updatedAt b' = 150 \<and> version b' = 1"
    by (simp add: fixture_booking_def)

  note accept_forward = C7_version_step [THEN conjunct2, THEN conjunct2, THEN conjunct2, THEN conjunct2, THEN conjunct2, THEN conjunct2, THEN conjunct2, THEN conjunct2, THEN conjunct2, THEN conjunct2, THEN conjunct2, THEN conjunct2, THEN conjunct2, THEN conjunct2, THEN conjunct2, THEN conjunct2, THEN conjunct1, rule_format]
  have accept_find: "FindByID (codec ?e) (find_fault ?e)
      (bookings_table (fixture_world ''requested'' 1)) 7 = Inr ((fixture_booking ''requested'' 1)\<lparr>runnerID := Some 5\<rparr>)"
    by (simp add: fixture_env_simps fixture_world_table fixture_FindByID IsValid_literals)
  have "\<exists>b'. Accept ((fixture_booking ''requested'' 1)\<lparr>runnerID := Some 5\<rparr>) 5 200 = (None, b')
      \<and> id' b' = 7 \<and> version b' = 1 \<and> runnerID b' = Some 5"
    using can by (simp add: Accept_def uuid_Nil_def fixture_booking_def status_defs)
  then obtain accept_bk where
    accept_op: "Accept ((fixture_booking ''requested'' 1)\<lparr>runnerID := Some 5\<rparr>) 5 200 = (None, accept_bk)"
    and accept_bk: "id' accept_bk = 7" "version accept_bk = 1" "runnerID accept_bk = Some 5"
    by blast
  from accept_bk have "id' (IncrementVersion accept_bk 201) = 7"
    "version (IncrementVersion accept_bk 201) = 1 + 1"
    by (simp_all add: IncrementVersion_def)
  from fixture_Update [OF this, where st = "''requested''"]
  have accept_upd: "fst (Update (codec ?e) (update_fault ?e)
      (bookings_table (fixture_world ''requested'' 1))
      (IncrementVersion accept_bk (clock ?e 1))) = None"
    and accept_ver: "map BookingModel.Version (snd (Update (codec ?e) (update_fault ?e)
      (bookings_table (fixture_world ''requested'' 1))
      (IncrementVersion accept_bk (clock ?e 1)))) = [2]"
    by (auto simp: fixture_env_simps fixture_world_table)
  have "FindByID (codec ?e) (find_fault ?e)
      (bookings_table (fixture_world ''requested'' 1)) 7 = Inr ((fixture_booking ''requested'' 1)\<lparr>runnerID := Some 5\<rparr>)
    \<and> Accept ((fixture_booking ''requested'' 1)\<lparr>runnerID := Some 5\<rparr>) 5 (clock ?e 0) = (None, accept_bk)"
    using accept_find accept_op by (simp add: fixture_env_simps)
  note accept_facts = accept_forward [OF this]
  from accept_facts have "bookings_table (snd (AcceptBooking ?e (fixture_world ''requested'' 1) 7 5))
      = snd (Update (codec ?e) (update_fault ?e)
      (bookings_table (fixture_world ''requested'' 1))
      (IncrementVersion accept_bk (clock ?e 1)))"
    by (rule conjunct1)
  with accept_ver have accept_table:
    "map BookingModel.Version (bookings_table (snd (AcceptBooking ?e (fixture_world ''requested'' 1) 7 5))) = [2]"
    by simp
  from accept_facts accept_upd accept_bk
  have "fst (AcceptBooking ?e (fixture_world ''requested'' 1) 7 5)
      = Inr (toBookingDTO (IncrementVersion accept_bk (clock ?e 1)))"
    by simp
  moreover have "BookingDTO.Version (toBookingDTO (IncrementVersion accept_bk (clock ?e 1))) = 2"
    using accept_bk by (simp add: toBookingDTO_Version IncrementVersion_version)
  ultimately have "\<exists>dto. fst (AcceptBooking ?e (fixture_world ''requested'' 1) 7 5) = Inr dto
      \<and> BookingDTO.Version dto = 2"
    by blast
  with accept_table have accept_run:
    "map BookingModel.Version (bookings_table (snd (AcceptBooking ?e (fixture_world ''requested'' 1) 7 5))) = [2]
     \<and> (\<exists>dto. fst (AcceptBooking ?e (fixture_world ''requested'' 1) 7 5) = Inr dto \<and> BookingDTO.Version dto = 2)"
    by (rule conjI)

  note start_forward = C7_version_step [THEN conjunct2, THEN conjunct2, THEN conjunct2, THEN conjunct2, THEN conjunct2, THEN conjunct2, THEN conjunct2, THEN conjunct2, THEN conjunct2, THEN conjunct2, THEN conjunct2, THEN conjunct2, THEN conjunct2, THEN conjunct2, THEN conjunct2, THEN conjunct2, THEN conjunct2, THEN conjunct1, rule_format]
  have start_find: "FindByID (codec ?e) (find_fault ?e)
      (bookings_table (fixture_world ''accepted'' 2)) 7 = Inr ((fixture_booking ''accepted'' 2)\<lparr>runnerID := Some 5\<rparr>)"
    by (simp add: fixture_env_simps fixture_world_table fixture_FindByID IsValid_literals)
  have "\<exists>b'. StartDelivery ((fixture_booking ''accepted'' 2)\<lparr>runnerID := Some 5\<rparr>) 200 = (None, b')
      \<and> id' b' = 7 \<and> version b' = 2 \<and> runnerID b' = Some 5"
    using can by (simp add: StartDelivery_def fixture_booking_def status_defs)
  then obtain start_bk where
    start_op: "StartDelivery ((fixture_booking ''accepted'' 2)\<lparr>runnerID := Some 5\<rparr>) 200 = (None, start_bk)"
    and start_bk: "id' start_bk = 7" "version start_bk = 2" "runnerID start_bk = Some 5"
    by blast
  from start_bk have "id' (IncrementVersion start_bk 201) = 7"
    "version (IncrementVersion start_bk 201) = 2 + 1"
    by (simp_all add: IncrementVersion_def)
  from fixture_Update [OF this, where st = "''accepted''"]
  have start_upd: "fst (Update (codec ?e) (update_fault ?e)
      (bookings_table (fixture_world ''accepted'' 2))
      (IncrementVersion start_bk (clock ?e 1))) = None"
    and start_ver: "map BookingModel.Version (snd (Update (codec ?e) (update_fault ?e)
      (bookings_table (fixture_world ''accepted'' 2))
      (IncrementVersion start_bk (clock ?e 1)))) = [3]"
    by (auto simp: fixture_env_simps fixture_world_table)
  have "FindByID (codec ?e) (find_fault ?e)
      (bookings_table (fixture_world ''accepted'' 2)) 7 = Inr ((fixture_booking ''accepted'' 2)\<lparr>runnerID := Some 5\<rparr>)
    \<and> StartDelivery ((fixture_booking ''accepted'' 2)\<lparr>runnerID := Some 5\<rparr>) (clock ?e 0) = (None, start_bk)"
    using start_find start_op by (simp add: fixture_env_simps)
  note start_facts = start_forward [OF this]
  from start_facts have "bookings_table (snd (StartDelivery_service ?e (fixture_world ''accepted'' 2) 7))
      = snd (Update (codec ?e) (update_fault ?e)
      (bookings_table (fixture_world ''accepted'' 2))
      (IncrementVersion start_bk (clock ?e 1)))"
    by (rule conjunct1)
  with start_ver have start_table:
    "map BookingModel.Version (bookings_table (snd (StartDelivery_service ?e (fixture_world ''accepted'' 2) 7))) = [3]"
    by simp
  from start_facts start_upd start_bk
  have "fst (StartDelivery_service ?e (fixture_world ''accepted'' 2) 7)
      = Inr (toBookingDTO (IncrementVersion start_bk (clock ?e 1)))"
    by simp
  moreover have "BookingDTO.Version (toBookingDTO (IncrementVersion start_bk (clock ?e 1))) = 3"
    using start_bk by (simp add: toBookingDTO_Version IncrementVersion_version)
  ultimately have "\<exists>dto. fst (StartDelivery_service ?e (fixture_world ''accepted'' 2) 7) = Inr dto
      \<and> BookingDTO.Version dto = 3"
    by blast
  with start_table have start_run:
    "map BookingModel.Version (bookings_table (snd (StartDelivery_service ?e (fixture_world ''accepted'' 2) 7))) = [3]
     \<and> (\<exists>dto. fst (StartDelivery_service ?e (fixture_world ''accepted'' 2) 7) = Inr dto \<and> BookingDTO.Version dto = 3)"
    by (rule conjI)

  note confirm_forward = C7_version_step [THEN conjunct2, THEN conjunct2, THEN conjunct2, THEN conjunct2, THEN conjunct2, THEN conjunct2, THEN conjunct2, THEN conjunct2, THEN conjunct2, THEN conjunct2, THEN conjunct2, THEN conjunct2, THEN conjunct2, THEN conjunct2, THEN conjunct2, THEN conjunct2, THEN conjunct2, THEN conjunct2, THEN conjunct1, rule_format]
  have confirm_find: "FindByID (codec ?e) (find_fault ?e)
      (bookings_table (fixture_world ''in_progress'' 3)) 7 = Inr ((fixture_booking ''in_progress'' 3)\<lparr>runnerID := Some 5\<rparr>)"
    by (simp add: fixture_env_simps fixture_world_table fixture_FindByID IsValid_literals)
  have "\<exists>b'. ConfirmDelivery ((fixture_booking ''in_progress'' 3)\<lparr>runnerID := Some 5\<rparr>) 200 = (None, b')
      \<and> id' b' = 7 \<and> version b' = 3 \<and> runnerID b' = Some 5"
    using can by (simp add: ConfirmDelivery_def fixture_booking_def status_defs)
  then obtain confirm_bk where
    confirm_op: "ConfirmDelivery ((fixture_booking ''in_progress'' 3)\<lparr>runnerID := Some 5\<rparr>) 200 = (None, confirm_bk)"
    and confirm_bk: "id' confirm_bk = 7" "version confirm_bk = 3" "runnerID confirm_bk = Some 5"
    by blast
  from confirm_bk have "id' (IncrementVersion confirm_bk 201) = 7"
    "version (IncrementVersion confirm_bk 201) = 3 + 1"
    by (simp_all add: IncrementVersion_def)
  from fixture_Update [OF this, where st = "''in_progress''"]
  have confirm_upd: "fst (Update (codec ?e) (update_fault ?e)
      (bookings_table (fixture_world ''in_progress'' 3))
      (IncrementVersion confirm_bk (clock ?e 1))) = None"
    and confirm_ver: "map BookingModel.Version (snd (Update (codec ?e) (update_fault ?e)
      (bookings_table (fixture_world ''in_progress'' 3))
      (IncrementVersion confirm_bk (clock ?e 1)))) = [4]"
    by (auto simp: fixture_env_simps fixture_world_table)
  have "FindByID (codec ?e) (find_fault ?e)
      (bookings_table (fixture_world ''in_progress'' 3)) 7 = Inr ((fixture_booking ''in_progress'' 3)\<lparr>runnerID := Some 5\<rparr>)
    \<and> ConfirmDelivery ((fixture_booking ''in_progress'' 3)\<lparr>runnerID := Some 5\<rparr>) (clock ?e 0) = (None, confirm_bk)"
    using confirm_find confirm_op by (simp add: fixture_env_simps)
  note confirm_facts = confirm_forward [OF this]
  from confirm_facts have "bookings_table (snd (ConfirmDelivery_service ?e (fixture_world ''in_progress'' 3) 7))
      = snd (Update (codec ?e) (update_fault ?e)
      (bookings_table (fixture_world ''in_progress'' 3))
      (IncrementVersion confirm_bk (clock ?e 1)))"
    by (rule conjunct1)
  with confirm_ver have confirm_table:
    "map BookingModel.Version (bookings_table (snd (ConfirmDelivery_service ?e (fixture_world ''in_progress'' 3) 7))) = [4]"
    by simp
  from confirm_facts confirm_upd confirm_bk
  have "fst (ConfirmDelivery_service ?e (fixture_world ''in_progress'' 3) 7)
      = Inr (toBookingDTO (IncrementVersion confirm_bk (clock ?e 1)))"
    by simp
  moreover have "BookingDTO.Version (toBookingDTO (IncrementVersion confirm_bk (clock ?e 1))) = 4"
    using confirm_bk by (simp add: toBookingDTO_Version IncrementVersion_version)
  ultimately have "\<exists>dto. fst (ConfirmDelivery_service ?e (fixture_world ''in_progress'' 3) 7) = Inr dto
      \<and> BookingDTO.Version dto = 4"
    by blast
  with confirm_table have confirm_run:
    "map BookingModel.Version (bookings_table (snd (ConfirmDelivery_service ?e (fixture_world ''in_progress'' 3) 7))) = [4]
     \<and> (\<exists>dto. fst (ConfirmDelivery_service ?e (fixture_world ''in_progress'' 3) 7) = Inr dto \<and> BookingDTO.Version dto = 4)"
    by (rule conjI)

  note complete_forward = C7_version_step [THEN conjunct2, THEN conjunct2, THEN conjunct2, THEN conjunct2, THEN conjunct2, THEN conjunct2, THEN conjunct2, THEN conjunct2, THEN conjunct2, THEN conjunct2, THEN conjunct2, THEN conjunct2, THEN conjunct2, THEN conjunct2, THEN conjunct2, THEN conjunct2, THEN conjunct2, THEN conjunct2, THEN conjunct2, THEN conjunct1, rule_format]
  have complete_find: "FindByID (codec ?e) (find_fault ?e)
      (bookings_table (fixture_world ''delivered'' 4)) 7 = Inr ((fixture_booking ''delivered'' 4)\<lparr>runnerID := Some 5\<rparr>)"
    by (simp add: fixture_env_simps fixture_world_table fixture_FindByID IsValid_literals)
  have "\<exists>b'. Complete ((fixture_booking ''delivered'' 4)\<lparr>runnerID := Some 5\<rparr>) (estimatedPriceCents (fixture_booking ''delivered'' 4)) 200 = (None, b')
      \<and> id' b' = 7 \<and> version b' = 4 \<and> runnerID b' = Some 5"
    using can by (simp add: Complete_def fixture_booking_def status_defs)
  then obtain complete_bk where
    complete_op: "Complete ((fixture_booking ''delivered'' 4)\<lparr>runnerID := Some 5\<rparr>) (estimatedPriceCents (fixture_booking ''delivered'' 4)) 200 = (None, complete_bk)"
    and complete_bk: "id' complete_bk = 7" "version complete_bk = 4" "runnerID complete_bk = Some 5"
    by blast
  from complete_bk have "id' (IncrementVersion complete_bk 201) = 7"
    "version (IncrementVersion complete_bk 201) = 4 + 1"
    by (simp_all add: IncrementVersion_def)
  from fixture_Update [OF this, where st = "''delivered''"]
  have complete_upd: "fst (Update (codec ?e) (update_fault ?e)
      (bookings_table (fixture_world ''delivered'' 4))
      (IncrementVersion complete_bk (clock ?e 1))) = None"
    and complete_ver: "map BookingModel.Version (snd (Update (codec ?e) (update_fault ?e)
      (bookings_table (fixture_world ''delivered'' 4))
      (IncrementVersion complete_bk (clock ?e 1)))) = [5]"
    by (auto simp: fixture_env_simps fixture_world_table)
  have "FindByID (codec ?e) (find_fault ?e)
      (bookings_table (fixture_world ''delivered'' 4)) 7 = Inr ((fixture_booking ''delivered'' 4)\<lparr>runnerID := Some 5\<rparr>)
    \<and> Complete ((fixture_booking ''delivered'' 4)\<lparr>runnerID := Some 5\<rparr>) (estimatedPriceCents ((fixture_booking ''delivered'' 4)\<lparr>runnerID := Some 5\<rparr>)) (clock ?e 0) = (None, complete_bk)"
    using complete_find complete_op by (simp add: fixture_env_simps)
  note complete_facts = complete_forward [OF this]
  from complete_facts have "bookings_table (snd (CompleteBooking ?e (fixture_world ''delivered'' 4) 7))
      = snd (Update (codec ?e) (update_fault ?e)
      (bookings_table (fixture_world ''delivered'' 4))
      (IncrementVersion complete_bk (clock ?e 1)))"
    by (rule conjunct1)
  with complete_ver have complete_table:
    "map BookingModel.Version (bookings_table (snd (CompleteBooking ?e (fixture_world ''delivered'' 4) 7))) = [5]"
    by simp
  from complete_facts complete_upd complete_bk
  have "fst (CompleteBooking ?e (fixture_world ''delivered'' 4) 7)
      = Inr (toBookingDTO (IncrementVersion complete_bk (clock ?e 1)))"
    by simp
  moreover have "BookingDTO.Version (toBookingDTO (IncrementVersion complete_bk (clock ?e 1))) = 5"
    using complete_bk by (simp add: toBookingDTO_Version IncrementVersion_version)
  ultimately have "\<exists>dto. fst (CompleteBooking ?e (fixture_world ''delivered'' 4) 7) = Inr dto
      \<and> BookingDTO.Version dto = 5"
    by blast
  with complete_table have complete_run:
    "map BookingModel.Version (bookings_table (snd (CompleteBooking ?e (fixture_world ''delivered'' 4) 7))) = [5]
     \<and> (\<exists>dto. fst (CompleteBooking ?e (fixture_world ''delivered'' 4) 7) = Inr dto \<and> BookingDTO.Version dto = 5)"
    by (rule conjI)

  note cancel_forward = C7_version_step [THEN conjunct2, THEN conjunct2, THEN conjunct2, THEN conjunct2, THEN conjunct2, THEN conjunct2, THEN conjunct2, THEN conjunct2, THEN conjunct2, THEN conjunct2, THEN conjunct2, THEN conjunct2, THEN conjunct2, THEN conjunct2, THEN conjunct2, THEN conjunct2, THEN conjunct2, THEN conjunct2, THEN conjunct2, THEN conjunct2, rule_format]
  have cancel_find: "FindByID (codec ?e) (find_fault ?e)
      (bookings_table (fixture_world ''requested'' 1)) 7 = Inr ((fixture_booking ''requested'' 1)\<lparr>runnerID := Some 5\<rparr>)"
    by (simp add: fixture_env_simps fixture_world_table fixture_FindByID IsValid_literals)
  have "\<exists>b'. Cancel ((fixture_booking ''requested'' 1)\<lparr>runnerID := Some 5\<rparr>) ''changed plans'' 200 = (None, b')
      \<and> id' b' = 7 \<and> version b' = 1 \<and> runnerID b' = Some 5"
    using can by (simp add: Cancel_def CanBeCancelled_def fixture_booking_def status_defs)
  then obtain cancel_bk where
    cancel_op: "Cancel ((fixture_booking ''requested'' 1)\<lparr>runnerID := Some 5\<rparr>) ''changed plans'' 200 = (None, cancel_bk)"
    and cancel_bk: "id' cancel_bk = 7" "version cancel_bk = 1" "runnerID cancel_bk = Some 5"
    by blast
  from cancel_bk have "id' (IncrementVersion cancel_bk 201) = 7"
    "version (IncrementVersion cancel_bk 201) = 1 + 1"
    by (simp_all add: IncrementVersion_def)
  from fixture_Update [OF this, where st = "''requested''"]
  have cancel_upd: "fst (Update (codec ?e) (update_fault ?e)
      (bookings_table (fixture_world ''requested'' 1))
      (IncrementVersion cancel_bk (clock ?e 1))) = None"
    and cancel_ver: "map BookingModel.Version (snd (Update (codec ?e) (update_fault ?e)
      (bookings_table (fixture_world ''requested'' 1))
      (IncrementVersion cancel_bk (clock ?e 1)))) = [2]"
    by (auto simp: fixture_env_simps fixture_world_table)
  have "FindByID (codec ?e) (find_fault ?e)
      (bookings_table (fixture_world ''requested'' 1)) 7 = Inr ((fixture_booking ''requested'' 1)\<lparr>runnerID := Some 5\<rparr>)
    \<and> Cancel ((fixture_booking ''requested'' 1)\<lparr>runnerID := Some 5\<rparr>) ''changed plans'' (clock ?e 0) = (None, cancel_bk)"
    using cancel_find cancel_op by (simp add: fixture_env_simps)
  note cancel_facts = cancel_forward [OF this]
  from cancel_facts have "bookings_table (snd (CancelBooking ?e (fixture_world ''requested'' 1) 7 1 ''changed plans''))
      = snd (Update (codec ?e) (update_fault ?e)
      (bookings_table (fixture_world ''requested'' 1))
      (IncrementVersion cancel_bk (clock ?e 1)))"
    by (rule conjunct1)
  with cancel_ver have cancel_table:
    "map BookingModel.Version (bookings_table (snd (CancelBooking ?e (fixture_world ''requested'' 1) 7 1 ''changed plans''))) = [2]"
    by simp
  from cancel_facts cancel_upd cancel_bk
  have "fst (CancelBooking ?e (fixture_world ''requested'' 1) 7 1 ''changed plans'')
      = Inr (toBookingDTO (IncrementVersion cancel_bk (clock ?e 1)))"
    by simp
  moreover have "BookingDTO.Version (toBookingDTO (IncrementVersion cancel_bk (clock ?e 1))) = 2"
    using cancel_bk by (simp add: toBookingDTO_Version IncrementVersion_version)
  ultimately have "\<exists>dto. fst (CancelBooking ?e (fixture_world ''requested'' 1) 7 1 ''changed plans'') = Inr dto
      \<and> BookingDTO.Version dto = 2"
    by blast
  with cancel_table have cancel_run:
    "map BookingModel.Version (bookings_table (snd (CancelBooking ?e (fixture_world ''requested'' 1) 7 1 ''changed plans''))) = [2]
     \<and> (\<exists>dto. fst (CancelBooking ?e (fixture_world ''requested'' 1) 7 1 ''changed plans'') = Inr dto \<and> BookingDTO.Version dto = 2)"
    by (rule conjI)
  show ?thesis
    by (rule conjI, rule first, rule conjI, rule second, rule conjI, rule third,
        rule conjI, rule fourth, rule conjI, rule fifth, rule conjI, rule sixth,
        rule conjI, rule accept_run, rule conjI, rule start_run, rule conjI,
        rule confirm_run, rule conjI, rule complete_run, rule cancel_run)
qed

subsection \<open>C2: the optimistic update\<close>

lemma toBookingModel_fields:
  assumes "toBookingModel jc bk = Inr model"
  shows "BookingModel.ID model = id' bk"
    and "BookingModel.RunnerID model = runnerID bk"
    and "BookingModel.Status model = status bk"
    and "BookingModel.EstimatedPriceCents model = estimatedPriceCents bk"
    and "BookingModel.FinalPriceCents model = finalPriceCents bk"
    and "BookingModel.Currency model = currency bk"
    and "BookingModel.ScheduledAt model = scheduledAt bk"
    and "BookingModel.PickedUpAt model = pickedUpAt bk"
    and "BookingModel.DeliveredAt model = deliveredAt bk"
    and "BookingModel.CancelledAt model = cancelledAt bk"
    and "BookingModel.CancelNote model = cancelNote bk"
    and "BookingModel.Notes model = notes' bk"
    and "BookingModel.Version model = version bk"
    and "BookingModel.UpdatedAt model = updatedAt bk"
  using assms
  by (auto simp: toBookingModel_def split: sum.splits option.splits)

lemma Update_marshal_error:
  "toBookingModel jc bk = Inl err \<Longrightarrow>
   Update jc fault db bk = (Some (Wrapf ''failed to convert booking to model'' err), db)"
  by (simp add: Update_def)

lemma Update_fault:
  "toBookingModel jc bk = Inr model \<Longrightarrow>
   Update jc (Some err) db bk = (Some (Wrapf ''failed to update booking'' err), db)"
  by (simp add: Update_def)

lemma Update_conflict:
  "toBookingModel jc bk = Inr model \<Longrightarrow> \<forall>row\<in>set db. \<not> selected bk row \<Longrightarrow>
   Update jc None db bk
     = (Some (ConflictError ''booking was modified by another transaction''), db)"
  by (simp add: Update_def Let_def selected_def toBookingModel_fields filter_empty_conv)

lemma Update_success_iff:
  "toBookingModel jc bk = Inr model \<Longrightarrow>
   fst (Update jc None db bk) = None \<longleftrightarrow> (\<exists>row\<in>set db. selected bk row)"
  by (auto simp: Update_def Let_def selected_def toBookingModel_fields filter_empty_conv)

lemma Update_rows:
  assumes "toBookingModel jc bk = Inr model" and "Update jc None db bk = (None, db')"
  shows "length db' = length db"
    and "i < length db \<Longrightarrow> \<not> selected bk (db ! i) \<Longrightarrow> db' ! i = db ! i"
    and "i < length db \<Longrightarrow> selected bk (db ! i) \<Longrightarrow>
         db' ! i = (db ! i)
           \<lparr>BookingModel.RunnerID := runnerID bk,
            BookingModel.Status := status bk,
            BookingModel.PetSpec := BookingModel.PetSpec model,
            BookingModel.CrateRequirement := BookingModel.CrateRequirement model,
            BookingModel.PickupAddress := BookingModel.PickupAddress model,
            BookingModel.DropoffAddress := BookingModel.DropoffAddress model,
            BookingModel.RouteSpec := BookingModel.RouteSpec model,
            BookingModel.EstimatedPriceCents := estimatedPriceCents bk,
            BookingModel.FinalPriceCents := finalPriceCents bk,
            BookingModel.Currency := currency bk,
            BookingModel.ScheduledAt := scheduledAt bk,
            BookingModel.PickedUpAt := pickedUpAt bk,
            BookingModel.DeliveredAt := deliveredAt bk,
            BookingModel.CancelledAt := cancelledAt bk,
            BookingModel.CancelNote := cancelNote bk,
            BookingModel.Notes := notes' bk,
            BookingModel.Version := version bk,
            BookingModel.UpdatedAt := updatedAt bk\<rparr>"
  using assms
  by (auto simp: Update_def Let_def selected_def toBookingModel_fields split: if_splits)


text \<open>
  C2 (amended). Let the booking, of version \<open>v\<close>, convert to its stored form. When the
  database executes the statement, \<^verbatim>\<open>Update\<close> succeeds if and only if some stored row has
  the booking's id and version \<open>v - 1\<close>; on success every such row receives the mutable
  columns of the booking and version \<open>v\<close>, and every other row is left as it was; when no
  row is selected (another version, or no row of that id) it returns the conflict error,
  which is not a not-found error, and changes nothing. When the database reports an error
  for the statement, \<^verbatim>\<open>Update\<close> returns that error wrapped and changes nothing, whatever
  the stored version.
\<close>

theorem C2_update:
  assumes "toBookingModel jc bk = Inr model"
  shows "(fst (Update jc None db bk) = None \<longleftrightarrow> (\<exists>row\<in>set db. selected bk row))
    \<and> (\<forall>db'. Update jc None db bk = (None, db') \<longrightarrow>
          length db' = length db
          \<and> (\<forall>i<length db.
               db' ! i =
                 (if selected bk (db ! i)
                  then (db ! i)
                  \<lparr>BookingModel.RunnerID := runnerID bk,
                   BookingModel.Status := status bk,
                   BookingModel.PetSpec := BookingModel.PetSpec model,
                   BookingModel.CrateRequirement := BookingModel.CrateRequirement model,
                   BookingModel.PickupAddress := BookingModel.PickupAddress model,
                   BookingModel.DropoffAddress := BookingModel.DropoffAddress model,
                   BookingModel.RouteSpec := BookingModel.RouteSpec model,
                   BookingModel.EstimatedPriceCents := estimatedPriceCents bk,
                   BookingModel.FinalPriceCents := finalPriceCents bk,
                   BookingModel.Currency := currency bk,
                   BookingModel.ScheduledAt := scheduledAt bk,
                   BookingModel.PickedUpAt := pickedUpAt bk,
                   BookingModel.DeliveredAt := deliveredAt bk,
                   BookingModel.CancelledAt := cancelledAt bk,
                   BookingModel.CancelNote := cancelNote bk,
                   BookingModel.Notes := notes' bk,
                   BookingModel.Version := version bk,
                   BookingModel.UpdatedAt := updatedAt bk\<rparr>
                  else db ! i)))
    \<and> ((\<forall>row\<in>set db. \<not> selected bk row) \<longrightarrow>
          Update jc None db bk
            = (Some (ConflictError ''booking was modified by another transaction''), db))
    \<and> (\<forall>msg entity key. ConflictError msg \<noteq> NotFoundError entity key)
    \<and> (\<forall>err. Update jc (Some err) db bk
            = (Some (Wrapf ''failed to update booking'' err), db))"
  using Update_success_iff [OF assms] Update_rows [OF assms] Update_conflict [OF assms]
    Update_fault [OF assms]
  by simp

theorem C2_update_witness:
  "fst (Update fixture_codec None [fixture_row ''requested'' 1] (fixture_booking ''accepted'' 2))
     = None
   \<and> selected (fixture_booking ''accepted'' 2) (fixture_row ''requested'' 1)
   \<and> \<not> selected (fixture_booking ''accepted'' 2) (fixture_row ''requested'' 5)
   \<and> Update fixture_codec None [fixture_row ''requested'' 5] (fixture_booking ''accepted'' 2)
     = (Some (ConflictError ''booking was modified by another transaction''),
        [fixture_row ''requested'' 5])"
proof -
  have "\<exists>model. toBookingModel fixture_codec (fixture_booking ''accepted'' 2) = Inr model"
    by (simp add: toBookingModel_def fixture_codec_def fixture_booking_def)
  then obtain model where
    conv: "toBookingModel fixture_codec (fixture_booking ''accepted'' 2) = Inr model"
    by blast
  have yes: "selected (fixture_booking ''accepted'' 2) (fixture_row ''requested'' 1)"
    by (simp add: selected_def fixture_booking_def fixture_row_def)
  have no: "\<not> selected (fixture_booking ''accepted'' 2) (fixture_row ''requested'' 5)"
    by (simp add: selected_def fixture_booking_def fixture_row_def)
  from C2_update [OF conv, of "[fixture_row ''requested'' 1]"] yes
  have "fst (Update fixture_codec None [fixture_row ''requested'' 1]
               (fixture_booking ''accepted'' 2)) = None"
    by simp
  moreover from C2_update [OF conv, of "[fixture_row ''requested'' 5]"] no
  have "Update fixture_codec None [fixture_row ''requested'' 5] (fixture_booking ''accepted'' 2)
     = (Some (ConflictError ''booking was modified by another transaction''),
        [fixture_row ''requested'' 5])"
    by simp
  ultimately show ?thesis using yes no by blast
qed

text \<open>
  The claim as it is written fails: here the stored row has the booking's id and the
  version before the booking's, the database reports an error, and \<^verbatim>\<open>Update\<close> does not
  succeed.
\<close>

theorem C2_update_counterexample:
  "BookingModel.ID (fixture_row ''accepted'' 1) = id' (fixture_booking ''in_progress'' 2)
   \<and> BookingModel.Version (fixture_row ''accepted'' 1)
       = version (fixture_booking ''in_progress'' 2) - 1
   \<and> Update fixture_codec (Some (Errorf ''connection refused'')) [fixture_row ''accepted'' 1]
         (fixture_booking ''in_progress'' 2)
       = (Some (Wrapf ''failed to update booking'' (Errorf ''connection refused'')),
          [fixture_row ''accepted'' 1])"
  by (simp add: Update_def toBookingModel_def fixture_codec_def fixture_booking_def
        fixture_row_def)

subsection \<open>C9 and C3: completion through the payment event\<close>

lemma FindByID_found:
  assumes "FindByID jc fault db bid = Inr bk"
  shows "\<exists>row. find (\<lambda>r. BookingModel.ID r = bid) db = Some row
           \<and> id' bk = bid
           \<and> version bk = BookingModel.Version row
           \<and> estimatedPriceCents bk = BookingModel.EstimatedPriceCents row"
  using assms
  by (auto simp: FindByID_def toDomainBooking_def find_Some_iff
           split: option.splits sum.splits if_splits)

lemma find_map_keep:
  "(\<And>x. P (f x) = P x) \<Longrightarrow> find P (map f xs) = map_option f (find P xs)"
  by (induction xs) simp_all

lemma Update_first_row:
  assumes upd: "Update jc fault db bk = (None, db')"
    and row: "find (\<lambda>r. BookingModel.ID r = id' bk) db = Some row"
    and ver: "BookingModel.Version row = version bk - 1"
  shows "\<exists>row'. find (\<lambda>r. BookingModel.ID r = id' bk) db' = Some row'
           \<and> BookingModel.Status row' = status bk
           \<and> BookingModel.EstimatedPriceCents row' = estimatedPriceCents bk
           \<and> BookingModel.FinalPriceCents row' = finalPriceCents bk
           \<and> BookingModel.Version row' = version bk"
proof -
  from upd obtain model where conv: "toBookingModel jc bk = Inr model"
    by (cases "toBookingModel jc bk") (simp_all add: Update_def)
  from upd conv have fault: "fault = None"
    by (cases fault) (simp_all add: Update_def)
  define f where "f = (\<lambda>r. if selected bk r
        then r\<lparr>BookingModel.RunnerID := BookingModel.RunnerID model,
               BookingModel.Status := BookingModel.Status model,
               BookingModel.PetSpec := BookingModel.PetSpec model,
               BookingModel.CrateRequirement := BookingModel.CrateRequirement model,
               BookingModel.PickupAddress := BookingModel.PickupAddress model,
               BookingModel.DropoffAddress := BookingModel.DropoffAddress model,
               BookingModel.RouteSpec := BookingModel.RouteSpec model,
               BookingModel.EstimatedPriceCents := BookingModel.EstimatedPriceCents model,
               BookingModel.FinalPriceCents := BookingModel.FinalPriceCents model,
               BookingModel.Currency := BookingModel.Currency model,
               BookingModel.ScheduledAt := BookingModel.ScheduledAt model,
               BookingModel.PickedUpAt := BookingModel.PickedUpAt model,
               BookingModel.DeliveredAt := BookingModel.DeliveredAt model,
               BookingModel.CancelledAt := BookingModel.CancelledAt model,
               BookingModel.CancelNote := BookingModel.CancelNote model,
               BookingModel.Notes := BookingModel.Notes model,
               BookingModel.Version := BookingModel.Version model,
               BookingModel.UpdatedAt := BookingModel.UpdatedAt model\<rparr>
        else r)"
  from upd conv fault have db': "db' = map f db"
    by (simp add: Update_def Let_def f_def selected_def toBookingModel_fields [OF conv]
          split: if_splits)
  have keep: "BookingModel.ID (f r) = BookingModel.ID r" for r
    by (simp add: f_def)
  with row have found: "find (\<lambda>r. BookingModel.ID r = id' bk) db' = Some (f row)"
    by (simp add: db' find_map_keep)
  from row have "BookingModel.ID row = id' bk"
    by (auto simp: find_Some_iff)
  with ver have "selected bk row" by (simp add: selected_def)
  then have "BookingModel.Status (f row) = status bk
      \<and> BookingModel.EstimatedPriceCents (f row) = estimatedPriceCents bk
      \<and> BookingModel.FinalPriceCents (f row) = finalPriceCents bk
      \<and> BookingModel.Version (f row) = version bk"
    by (simp add: f_def toBookingModel_fields [OF conv])
  with found show ?thesis by blast
qed

lemma Complete_result:
  "Complete b finalPrice now = (None, b') \<Longrightarrow>
   b' = b\<lparr>status := StatusCompleted, finalPriceCents := Some finalPrice, updatedAt := now\<rparr>"
  by (auto simp: Complete_def split: if_splits)

lemma CompleteBooking_stored:
  assumes "CompleteBooking e w bid = (Inr dto, w')"
  shows "\<exists>row row'.
           find (\<lambda>r. BookingModel.ID r = bid) (bookings_table w) = Some row
           \<and> find (\<lambda>r. BookingModel.ID r = bid) (bookings_table w') = Some row'
           \<and> BookingModel.Status row' = StatusCompleted
           \<and> BookingModel.EstimatedPriceCents row' = BookingModel.EstimatedPriceCents row
           \<and> BookingModel.FinalPriceCents row' = Some (BookingModel.EstimatedPriceCents row)
           \<and> BookingDTO.Status dto = StatusCompleted
           \<and> BookingDTO.EstimatedPriceCents dto = BookingModel.EstimatedPriceCents row
           \<and> BookingDTO.FinalPriceCents dto = Some (BookingModel.EstimatedPriceCents row)"
proof -
  from CompleteBooking_committed [OF assms] obtain bk bk' where
    find: "FindByID (codec e) (find_fault e) (bookings_table w) bid = Inr bk"
    and comp: "Complete bk (estimatedPriceCents bk) (clock e 0) = (None, bk')"
    and upd: "Update (codec e) (update_fault e) (bookings_table w)
                (IncrementVersion bk' (clock e 1)) = (None, bookings_table w')"
    and dto: "dto = toBookingDTO (IncrementVersion bk' (clock e 1))"
    by blast
  from FindByID_found [OF find] obtain row where
    row: "find (\<lambda>r. BookingModel.ID r = bid) (bookings_table w) = Some row"
    and bk: "id' bk = bid" "version bk = BookingModel.Version row"
      "estimatedPriceCents bk = BookingModel.EstimatedPriceCents row"
    by blast
  let ?bk2 = "IncrementVersion bk' (clock e 1)"
  from Complete_result [OF comp] bk
  have bk2: "id' ?bk2 = bid" "version ?bk2 = BookingModel.Version row + 1"
    "status ?bk2 = StatusCompleted"
    "estimatedPriceCents ?bk2 = BookingModel.EstimatedPriceCents row"
    "finalPriceCents ?bk2 = Some (BookingModel.EstimatedPriceCents row)"
    by (simp_all add: IncrementVersion_def)
  from row bk2 have "find (\<lambda>r. BookingModel.ID r = id' ?bk2) (bookings_table w) = Some row"
    "BookingModel.Version row = version ?bk2 - 1"
    by simp_all
  from Update_first_row [OF upd this] obtain row' where
    "find (\<lambda>r. BookingModel.ID r = bid) (bookings_table w') = Some row'"
    "BookingModel.Status row' = StatusCompleted"
    "BookingModel.EstimatedPriceCents row' = BookingModel.EstimatedPriceCents row"
    "BookingModel.FinalPriceCents row' = Some (BookingModel.EstimatedPriceCents row)"
    using bk2 by auto
  with row dto bk2 show ?thesis
    by (auto simp: toBookingDTO_def)
qed

lemma log_append_table: "bookings_table (log_append w level msg) = bookings_table w"
  by (simp add: log_append_def)

lemma handleEscrowReleased_ok:
  assumes "ParseData e ce = Inr evt" and "handleEscrowReleased e w ce = (None, w')"
  shows "\<exists>dto w1. CompleteBooking e (log_append w Info ''processing escrow released event'')
                     (BookingID evt) = (Inr dto, w1)
           \<and> bookings_table w' = bookings_table w1"
  using assms
  by (auto simp: handleEscrowReleased_def Let_def log_append_table
           split: prod.splits sum.splits)

lemma handleEscrowReleased_failed:
  assumes "ParseData e ce = Inr evt"
    and "CompleteBooking e (log_append w Info ''processing escrow released event'')
           (BookingID evt) = (Inl err, w1)"
  shows "handleEscrowReleased e w ce
           = (Some err, log_append w1 Error ''failed to complete booking after escrow release'')"
  using assms by (simp add: handleEscrowReleased_def Let_def)

lemma handleEscrowReleased_malformed:
  "ParseData e ce = Inl err \<Longrightarrow>
   handleEscrowReleased e w ce
     = (None, log_append w Error ''failed to parse EscrowReleasedEvent data'')"
  by (simp add: handleEscrowReleased_def)

text \<open>
  C9. Whenever \<^verbatim>\<open>CompleteBooking\<close> succeeds, the price it passed to \<^verbatim>\<open>Complete\<close> is the
  estimated price of the booking it loaded; the stored row of the booking then has status
  completed and a final price equal to its estimated price, which is the estimate stored
  before, and so has the returned booking. The same holds for the stored row whenever the
  payment event handler parses its event and returns success.
\<close>

theorem C9_final_price:
  "(\<forall>e w bid dto w'. CompleteBooking e w bid = (Inr dto, w') \<longrightarrow>
      (\<exists>bk bk'. FindByID (codec e) (find_fault e) (bookings_table w) bid = Inr bk
          \<and> Complete bk (estimatedPriceCents bk) (clock e 0) = (None, bk')
          \<and> finalPriceCents bk' = Some (estimatedPriceCents bk'))
      \<and> (\<exists>row row'.
            find (\<lambda>r. BookingModel.ID r = bid) (bookings_table w) = Some row
            \<and> find (\<lambda>r. BookingModel.ID r = bid) (bookings_table w') = Some row'
            \<and> BookingModel.Status row' = StatusCompleted
            \<and> BookingModel.EstimatedPriceCents row' = BookingModel.EstimatedPriceCents row
            \<and> BookingModel.FinalPriceCents row' = Some (BookingModel.EstimatedPriceCents row')
            \<and> BookingDTO.FinalPriceCents dto = Some (BookingDTO.EstimatedPriceCents dto)))
   \<and> (\<forall>e w ce evt w'.
        ParseData e ce = Inr evt \<and> handleEscrowReleased e w ce = (None, w') \<longrightarrow>
        (\<exists>row'. find (\<lambda>r. BookingModel.ID r = BookingID evt) (bookings_table w') = Some row'
            \<and> BookingModel.Status row' = StatusCompleted
            \<and> BookingModel.FinalPriceCents row' = Some (BookingModel.EstimatedPriceCents row')))"
proof (intro conjI allI impI)
  fix e w bid dto w'
  assume run: "CompleteBooking e w bid = (Inr dto, w')"
  from CompleteBooking_committed [OF run] obtain bk bk' where
    "FindByID (codec e) (find_fault e) (bookings_table w) bid = Inr bk"
    "Complete bk (estimatedPriceCents bk) (clock e 0) = (None, bk')"
    by blast
  moreover from Complete_result [OF this(2)]
  have "finalPriceCents bk' = Some (estimatedPriceCents bk')" by simp
  ultimately show "\<exists>bk bk'. FindByID (codec e) (find_fault e) (bookings_table w) bid = Inr bk
          \<and> Complete bk (estimatedPriceCents bk) (clock e 0) = (None, bk')
          \<and> finalPriceCents bk' = Some (estimatedPriceCents bk')"
    by blast
  from CompleteBooking_stored [OF run]
  show "\<exists>row row'.
            find (\<lambda>r. BookingModel.ID r = bid) (bookings_table w) = Some row
            \<and> find (\<lambda>r. BookingModel.ID r = bid) (bookings_table w') = Some row'
            \<and> BookingModel.Status row' = StatusCompleted
            \<and> BookingModel.EstimatedPriceCents row' = BookingModel.EstimatedPriceCents row
            \<and> BookingModel.FinalPriceCents row' = Some (BookingModel.EstimatedPriceCents row')
            \<and> BookingDTO.FinalPriceCents dto = Some (BookingDTO.EstimatedPriceCents dto)"
    by force
next
  fix e w ce evt w'
  assume "ParseData e ce = Inr evt \<and> handleEscrowReleased e w ce = (None, w')"
  then obtain dto w1 where
    run: "CompleteBooking e (log_append w Info ''processing escrow released event'')
            (BookingID evt) = (Inr dto, w1)"
    and tab: "bookings_table w' = bookings_table w1"
    using handleEscrowReleased_ok by blast
  from CompleteBooking_stored [OF run] tab
  show "\<exists>row'. find (\<lambda>r. BookingModel.ID r = BookingID evt) (bookings_table w') = Some row'
            \<and> BookingModel.Status row' = StatusCompleted
            \<and> BookingModel.FinalPriceCents row' = Some (BookingModel.EstimatedPriceCents row')"
    by force
qed

text \<open>
  C3 (amended). When the handler of the payment-escrow-released event parses the event
  and \<^verbatim>\<open>CompleteBooking\<close> fails, the handler logs the failure and returns that error to
  the message consumer, not success. It returns success in two cases only: the data of
  the event cannot be parsed (logged and dropped), or the booking was completed.
\<close>

theorem C3_handler_returns_error:
  "(\<forall>e w ce evt err w1.
      ParseData e ce = Inr evt
      \<and> CompleteBooking e (log_append w Info ''processing escrow released event'')
          (BookingID evt) = (Inl err, w1) \<longrightarrow>
      handleEscrowReleased e w ce
        = (Some err, log_append w1 Error ''failed to complete booking after escrow release''))
   \<and> (\<forall>e w ce err. ParseData e ce = Inl err \<longrightarrow>
        handleEscrowReleased e w ce
          = (None, log_append w Error ''failed to parse EscrowReleasedEvent data''))
   \<and> (\<forall>e w ce evt w'.
        ParseData e ce = Inr evt \<and> handleEscrowReleased e w ce = (None, w') \<longrightarrow>
        (\<exists>dto w1. CompleteBooking e (log_append w Info ''processing escrow released event'')
                     (BookingID evt) = (Inr dto, w1)))"
  using handleEscrowReleased_failed handleEscrowReleased_malformed handleEscrowReleased_ok
  by blast

lemma fixture_complete_run:
  "\<exists>dto w'. CompleteBooking (fixture_env None) (fixture_world ''delivered'' 4) 7 = (Inr dto, w')"
  "\<exists>dto w'. CompleteBooking (fixture_env None)
              (log_append (fixture_world ''delivered'' 4) Info
                 ''processing escrow released event'') 7 = (Inr dto, w')"
proof -
  let ?bk = "(fixture_booking ''delivered'' 4)\<lparr>runnerID := Some 5\<rparr>"
  have find: "FindByID fixture_codec None [fixture_row ''delivered'' 4] 7 = Inr ?bk"
    by (simp add: fixture_FindByID IsValid_literals)
  have "\<exists>bk'. Complete ?bk (estimatedPriceCents (fixture_booking ''delivered'' 4)) 200
            = (None, bk')
          \<and> id' bk' = 7 \<and> version bk' = 4"
    by (simp add: Complete_def fixture_booking_def CanTransitionTo_def validTransitions_def
          status_defs)
  then obtain bk0 where
    comp: "Complete ?bk (estimatedPriceCents (fixture_booking ''delivered'' 4)) 200 = (None, bk0)"
    and bk0: "id' bk0 = 7" "version bk0 = 4"
    by blast
  from bk0 have "id' (IncrementVersion bk0 201) = 7" "version (IncrementVersion bk0 201) = 4 + 1"
    by (simp_all add: IncrementVersion_def)
  from fixture_Update [OF this] obtain db0 where
    upd: "Update fixture_codec None [fixture_row ''delivered'' 4] (IncrementVersion bk0 201)
            = (None, db0)"
    by blast
  show "\<exists>dto w'. CompleteBooking (fixture_env None) (fixture_world ''delivered'' 4) 7
          = (Inr dto, w')"
    by (simp add: CompleteBooking_def fixture_env_simps fixture_world_table find comp upd Let_def)
  show "\<exists>dto w'. CompleteBooking (fixture_env None)
              (log_append (fixture_world ''delivered'' 4) Info
                 ''processing escrow released event'') 7 = (Inr dto, w')"
    by (simp add: CompleteBooking_def fixture_env_simps fixture_world_table find comp upd Let_def)
qed

theorem C9_final_price_witness:
  "(\<exists>dto w' row'.
      CompleteBooking (fixture_env None) (fixture_world ''delivered'' 4) 7 = (Inr dto, w')
      \<and> find (\<lambda>r. BookingModel.ID r = 7) (bookings_table w') = Some row'
      \<and> BookingModel.Status row' = ''completed''
      \<and> BookingModel.EstimatedPriceCents row' = 4000
      \<and> BookingModel.FinalPriceCents row' = Some 4000
      \<and> BookingDTO.FinalPriceCents dto = Some (BookingDTO.EstimatedPriceCents dto))
   \<and> (\<exists>w' row'.
      handleEscrowReleased (fixture_env None) (fixture_world ''delivered'' 4)
        \<lparr>Type = ''payment.escrow_released'', Data = ''{}''\<rparr> = (None, w')
      \<and> find (\<lambda>r. BookingModel.ID r = 7) (bookings_table w') = Some row'
      \<and> BookingModel.Status row' = ''completed''
      \<and> BookingModel.FinalPriceCents row' = Some (BookingModel.EstimatedPriceCents row'))"
proof -
  let ?e = "fixture_env None" and ?w = "fixture_world ''delivered'' 4"
  let ?ce = "\<lparr>Type = ''payment.escrow_released'', Data = ''{}''\<rparr>"
  note direct = C9_final_price [THEN conjunct1, rule_format]
  note handled = C9_final_price [THEN conjunct2, rule_format]
  from fixture_complete_run(1) obtain dto w' where
    run: "CompleteBooking ?e ?w 7 = (Inr dto, w')"
    by blast
  from direct [OF run] obtain row row' where
    r: "find (\<lambda>r. BookingModel.ID r = 7) (bookings_table ?w) = Some row"
      "find (\<lambda>r. BookingModel.ID r = 7) (bookings_table w') = Some row'"
      "BookingModel.Status row' = StatusCompleted"
      "BookingModel.EstimatedPriceCents row' = BookingModel.EstimatedPriceCents row"
      "BookingModel.FinalPriceCents row' = Some (BookingModel.EstimatedPriceCents row')"
      "BookingDTO.FinalPriceCents dto = Some (BookingDTO.EstimatedPriceCents dto)"
    by blast
  from r(1) have "row = fixture_row ''delivered'' 4"
    by (simp add: fixture_world_table fixture_row_def)
  then have "BookingModel.EstimatedPriceCents row = 4000"
    by (simp add: fixture_row_def)
  with run r have first: "\<exists>dto w' row'.
      CompleteBooking ?e ?w 7 = (Inr dto, w')
      \<and> find (\<lambda>r. BookingModel.ID r = 7) (bookings_table w') = Some row'
      \<and> BookingModel.Status row' = ''completed''
      \<and> BookingModel.EstimatedPriceCents row' = 4000
      \<and> BookingModel.FinalPriceCents row' = Some 4000
      \<and> BookingDTO.FinalPriceCents dto = Some (BookingDTO.EstimatedPriceCents dto)"
    by (auto simp: status_defs)
  from fixture_complete_run(2) have "\<exists>w'. handleEscrowReleased ?e ?w ?ce = (None, w')"
    by (auto simp: handleEscrowReleased_def fixture_env_simps Let_def)
  then obtain w2 where h: "handleEscrowReleased ?e ?w ?ce = (None, w2)"
    by blast
  have "ParseData ?e ?ce = Inr \<lparr>PaymentID = 3, BookingID = 7, RunnerID = 5, RunnerPayout = 3400,
            PlatformFee = 600, Currency = ''MYR'', OccurredAt = 150\<rparr>
        \<and> handleEscrowReleased ?e ?w ?ce = (None, w2)"
    using h by (simp add: fixture_env_simps)
  from handled [OF this] h have "\<exists>w' row'.
      handleEscrowReleased ?e ?w ?ce = (None, w')
      \<and> find (\<lambda>r. BookingModel.ID r = 7) (bookings_table w') = Some row'
      \<and> BookingModel.Status row' = ''completed''
      \<and> BookingModel.FinalPriceCents row' = Some (BookingModel.EstimatedPriceCents row')"
    by (auto simp: status_defs)
  with first show ?thesis by blast
qed

lemma fixture_complete_rejected:
  "CompleteBooking (fixture_env None)
     (log_append (fixture_world ''requested'' 1) Info ''processing escrow released event'') 7
   = (Inl (InvalidStateError ''requested'' ''completed''),
      log_append (fixture_world ''requested'' 1) Info ''processing escrow released event'')"
proof -
  let ?bk = "(fixture_booking ''requested'' 1)\<lparr>runnerID := Some 5\<rparr>"
  let ?w = "log_append (fixture_world ''requested'' 1) Info ''processing escrow released event''"
  have "FindByID (codec (fixture_env None)) (find_fault (fixture_env None)) (bookings_table ?w) 7
          = Inr ?bk"
    by (simp add: fixture_env_simps fixture_world_table fixture_FindByID IsValid_literals)
  moreover have "fst (Complete ?bk (estimatedPriceCents ?bk) (clock (fixture_env None) 0))
      = Some (InvalidStateError ''requested'' ''completed'')"
    by (simp add: Complete_def fixture_booking_def CanTransitionTo_def validTransitions_def
          status_defs)
  ultimately show ?thesis by (rule CompleteBooking_rejected)
qed

theorem C3_handler_returns_error_witness:
  "handleEscrowReleased (fixture_env None) (fixture_world ''requested'' 1)
     \<lparr>Type = ''payment.escrow_released'', Data = ''{}''\<rparr>
   = (Some (InvalidStateError ''requested'' ''completed''),
      log_append
        (log_append (fixture_world ''requested'' 1) Info ''processing escrow released event'')
        Error ''failed to complete booking after escrow release'')
   \<and> handleEscrowReleased ((fixture_env None)\<lparr>ParseData := (\<lambda>_. Inl (Errorf ''bad data''))\<rparr>)
       (fixture_world ''requested'' 1) \<lparr>Type = ''payment.escrow_released'', Data = ''{''\<rparr>
   = (None, log_append (fixture_world ''requested'' 1) Error
              ''failed to parse EscrowReleasedEvent data'')"
proof -
  note failed = C3_handler_returns_error [THEN conjunct1, rule_format]
  note malformed = C3_handler_returns_error [THEN conjunct2, THEN conjunct1, rule_format]
  let ?evt = "\<lparr>PaymentID = 3, BookingID = 7, RunnerID = 5, RunnerPayout = 3400,
            PlatformFee = 600, Currency = ''MYR'', OccurredAt = 150\<rparr>"
  have "ParseData (fixture_env None) \<lparr>Type = ''payment.escrow_released'', Data = ''{}''\<rparr>
          = Inr ?evt
        \<and> CompleteBooking (fixture_env None)
            (log_append (fixture_world ''requested'' 1) Info ''processing escrow released event'')
            (BookingID ?evt)
          = (Inl (InvalidStateError ''requested'' ''completed''),
             log_append (fixture_world ''requested'' 1) Info
               ''processing escrow released event'')"
    using fixture_complete_rejected by (simp add: fixture_env_simps)
  from failed [OF this] have a:
    "handleEscrowReleased (fixture_env None) (fixture_world ''requested'' 1)
       \<lparr>Type = ''payment.escrow_released'', Data = ''{}''\<rparr>
     = (Some (InvalidStateError ''requested'' ''completed''),
        log_append
          (log_append (fixture_world ''requested'' 1) Info ''processing escrow released event'')
          Error ''failed to complete booking after escrow release'')" .
  have "ParseData ((fixture_env None)\<lparr>ParseData := (\<lambda>_. Inl (Errorf ''bad data''))\<rparr>)
          \<lparr>Type = ''payment.escrow_released'', Data = ''{''\<rparr> = Inl (Errorf ''bad data'')"
    by simp
  from malformed [OF this] a show ?thesis by simp
qed

text \<open>
  The claim as it is written fails: on a booking in status requested the handler parses
  the event, \<^verbatim>\<open>CompleteBooking\<close> fails with the invalid-state error, and the handler
  returns that error, not \<^verbatim>\<open>nil\<close>.
\<close>

theorem C3_handler_counterexample:
  "fst (handleEscrowReleased (fixture_env None) (fixture_world ''requested'' 1)
          \<lparr>Type = ''payment.escrow_released'', Data = ''{}''\<rparr>)
     = Some (InvalidStateError ''requested'' ''completed'')
   \<and> fst (handleEscrowReleased (fixture_env None) (fixture_world ''requested'' 1)
          \<lparr>Type = ''payment.escrow_released'', Data = ''{}''\<rparr>) \<noteq> None"
  by (simp add: handleEscrowReleased_def fixture_env_simps fixture_complete_rejected Let_def)

subsection \<open>C4: the booking number\<close>

lemma fill_result_inv:
  assumes "fill_result rnd idxs result = Inr r" and "\<forall>i\<in>set idxs. i < length result"
  shows "length r = length result
    \<and> (\<forall>j<length result.
          (j \<in> set idxs \<longrightarrow> r ! j \<in> set bookingNumberChars)
          \<and> (j \<notin> set idxs \<longrightarrow> r ! j = result ! j))"
  using assms
proof (induction idxs arbitrary: result)
  case Nil
  then show ?case by simp
next
  case (Cons i rest)
  from Cons.prems(1) obtain n where
    n: "rnd i = Inr n" "n < length bookingNumberChars"
    and rec: "fill_result rnd rest (result[i := bookingNumberChars ! n]) = Inr r"
    by (auto split: sum.splits if_splits)
  from Cons.prems(2) have i: "i < length result" and rest: "\<forall>k\<in>set rest. k < length result"
    by simp_all
  from Cons.IH [OF rec] rest
  have ih: "length r = length result"
    "\<And>j. j < length result \<Longrightarrow> j \<in> set rest \<Longrightarrow> r ! j \<in> set bookingNumberChars"
    "\<And>j. j < length result \<Longrightarrow> j \<notin> set rest \<Longrightarrow>
          r ! j = (result[i := bookingNumberChars ! n]) ! j"
    by simp_all
  have c: "bookingNumberChars ! n \<in> set bookingNumberChars"
    using n(2) by simp
  show ?case
  proof (intro conjI allI impI)
    show "length r = length result" by (rule ih(1))
  next
    fix j
    assume j: "j < length result" and "j \<in> set (i # rest)"
    then consider "j \<in> set rest" | "j \<notin> set rest" "j = i" by auto
    then show "r ! j \<in> set bookingNumberChars"
    proof cases
      case 1
      with j show ?thesis by (rule ih(2))
    next
      case 2
      with ih(3) [OF j] i c show ?thesis by simp
    qed
  next
    fix j
    assume j: "j < length result" and "j \<notin> set (i # rest)"
    with ih(3) [OF j] show "r ! j = result ! j" by simp
  qed
qed

lemma generateBookingNumber_format:
  assumes "generateBookingNumber rnd = Inr s"
  shows "\<exists>body. s = ''BK-'' @ body \<and> length body = 6 \<and> set body \<subseteq> set bookingNumberChars"
proof -
  from assms obtain r where
    r: "fill_result rnd [0..<6] (replicate 6 (CHR 0x00)) = Inr r" and s: "s = ''BK-'' @ r"
    by (auto simp: generateBookingNumber_def split: sum.splits)
  from fill_result_inv [OF r]
  have "length r = 6" and "\<forall>j<6. r ! j \<in> set bookingNumberChars"
    by simp_all
  then have "set r \<subseteq> set bookingNumberChars"
    by (auto simp: in_set_conv_nth)
  with s \<open>length r = 6\<close> show ?thesis by blast
qed

lemma NewBooking_number:
  assumes "NewBooking rnd newID now owner spec crate pickup dropoff estimated cur scheduled note
             = Inr b"
  shows "generateBookingNumber rnd = Inr (bookingNumber b)"
  using assms
  by (auto simp: NewBooking_def split: if_splits sum.splits)

text \<open>
  C4 (amended). Every booking number produced at creation is \<^verbatim>\<open>BK-\<close> followed by exactly
  6 characters of the alphabet; the alphabet has 32 symbols, all different: the capital
  letters without I and O and the digits without 0 and 1.
\<close>

theorem C4_booking_number:
  "(\<forall>rnd s. generateBookingNumber rnd = Inr s \<longrightarrow>
      (\<exists>body. s = ''BK-'' @ body \<and> length body = 6 \<and> set body \<subseteq> set bookingNumberChars))
   \<and> (\<forall>rnd newID now owner spec crate pickup dropoff estimated cur scheduled note b.
        NewBooking rnd newID now owner spec crate pickup dropoff estimated cur scheduled note
          = Inr b \<longrightarrow>
        (\<exists>body. bookingNumber b = ''BK-'' @ body \<and> length body = 6
           \<and> set body \<subseteq> set bookingNumberChars))
   \<and> length bookingNumberChars = 32
   \<and> distinct bookingNumberChars
   \<and> set bookingNumberChars = set ''ABCDEFGHIJKLMNOPQRSTUVWXYZ0123456789'' - set ''IO01''"
proof (intro conjI allI impI)
  show "set bookingNumberChars = set ''ABCDEFGHIJKLMNOPQRSTUVWXYZ0123456789'' - set ''IO01''"
    by (auto simp: bookingNumberChars_def)
  show "length bookingNumberChars = 32" and "distinct bookingNumberChars"
    by (simp_all add: bookingNumberChars_def)
next
  fix rnd s
  assume "generateBookingNumber rnd = Inr s"
  then show "\<exists>body. s = ''BK-'' @ body \<and> length body = 6 \<and> set body \<subseteq> set bookingNumberChars"
    by (rule generateBookingNumber_format)
next
  fix rnd newID now owner spec crate pickup dropoff estimated cur scheduled memo b
  assume "NewBooking rnd newID now owner spec crate pickup dropoff estimated cur scheduled memo
            = Inr b"
  then have "generateBookingNumber rnd = Inr (bookingNumber b)"
    by (rule NewBooking_number)
  then show "\<exists>body. bookingNumber b = ''BK-'' @ body \<and> length body = 6
      \<and> set body \<subseteq> set bookingNumberChars"
    by (rule generateBookingNumber_format)
qed

theorem C4_booking_number_witness:
  "generateBookingNumber (\<lambda>i. Inr (i * 5)) = Inr ''BK-AFLRW3''
   \<and> (\<exists>body. ''BK-AFLRW3'' = ''BK-'' @ body \<and> length body = 6
         \<and> set body \<subseteq> set bookingNumberChars)
   \<and> (\<exists>b body.
        NewBooking (\<lambda>i. Inr (i * 5)) 7 100 1 (petSpec (fixture_booking [] 0))
          (crateReq (fixture_booking [] 0)) (pickupAddress (fixture_booking [] 0))
          (dropoffAddress (fixture_booking [] 0)) 4000 ''MYR'' None [] = Inr b
        \<and> bookingNumber b = ''BK-'' @ body \<and> length body = 6
        \<and> set body \<subseteq> set bookingNumberChars)"
proof -
  note gen = C4_booking_number [THEN conjunct1, rule_format]
  note new = C4_booking_number [THEN conjunct2, THEN conjunct1, rule_format]
  have run: "generateBookingNumber (\<lambda>i. Inr (i * 5)) = Inr ''BK-AFLRW3''"
    by code_simp
  have "\<exists>b. NewBooking (\<lambda>i. Inr (i * 5)) 7 100 1 (petSpec (fixture_booking [] 0))
          (crateReq (fixture_booking [] 0)) (pickupAddress (fixture_booking [] 0))
          (dropoffAddress (fixture_booking [] 0)) 4000 ''MYR'' None [] = Inr b"
    by (simp add: NewBooking_def run fixture_booking_def uuid_Nil_def PetType_IsValid_def
          pet_type_defs word_sle_eq)
  then obtain b where
    b: "NewBooking (\<lambda>i. Inr (i * 5)) 7 100 1 (petSpec (fixture_booking [] 0))
          (crateReq (fixture_booking [] 0)) (pickupAddress (fixture_booking [] 0))
          (dropoffAddress (fixture_booking [] 0)) 4000 ''MYR'' None [] = Inr b"
    by blast
  from gen [OF run] new [OF b] run b show ?thesis by blast
qed

text \<open>
  The claim as it is written fails: the alphabet has 32 symbols, not 33.
\<close>

theorem C4_booking_number_counterexample:
  "length bookingNumberChars = 32 \<and> card (set bookingNumberChars) = 32
   \<and> card (set bookingNumberChars) \<noteq> 33"
proof -
  have "distinct bookingNumberChars" and "length bookingNumberChars = 32"
    by (simp_all add: bookingNumberChars_def)
  then show ?thesis by (simp add: distinct_card)
qed

subsection \<open>C5, C10: the price\<close>

lemma pow2_pos: "0 < pow2 e"
  by (simp add: pow2_def)

lemma round_half_even_nonneg: "0 \<le> x \<Longrightarrow> 0 \<le> round_half_even x"
  by (auto simp: round_half_even_def Let_def)

lemma f64_round_nonneg:
  assumes "0 \<le> x" and "f64_round x = F64 m"
  shows "0 \<le> m"
proof (cases "x = 0")
  case True
  with assms show ?thesis by (simp add: f64_round_def)
next
  case False
  with assms(1) have pos: "0 < x" by simp
  define q where "q = pow2 (max (ilog2 \<bar>x\<bar>) (- 1022) - 52)"
  have q: "0 < q" by (simp add: q_def pow2_pos)
  with pos have "0 \<le> \<bar>x\<bar> / q" by simp
  then have "0 \<le> round_half_even (\<bar>x\<bar> / q)" by (rule round_half_even_nonneg)
  with q have "0 \<le> of_int (round_half_even (\<bar>x\<bar> / q)) * q" by simp
  moreover from assms(2) False pos
  have "m = of_int (round_half_even (\<bar>x\<bar> / q)) * q"
    by (simp add: f64_round_def Let_def q_def split: if_splits)
  ultimately show ?thesis by simp
qed

lemma sint_int64: "- (2 ^ 63) \<le> k \<Longrightarrow> k < 2 ^ 63 \<Longrightarrow> sint (word_of_int k :: int64) = k"
  by (simp add: sint_sbintrunc' signed_take_bit_int_eq_self)

lemma petTypeSurcharge_table:
  "pet_surcharge_4_2 p = Some ps \<Longrightarrow> petTypeSurcharge p = Inr (word_of_int ps)"
  by (auto simp: pet_surcharge_4_2_def petTypeSurcharge_def pet_type_defs split: if_splits)

lemma crateSizeSurcharge_table:
  "crate_surcharge_4_2 c = Some cs \<Longrightarrow> crateSizeSurcharge c = word_of_int cs"
  by (auto simp: crate_surcharge_4_2_def crateSizeSurcharge_def crate_size_defs split: if_splits)

lemma surcharge_bounds:
  "pet_surcharge_4_2 p = Some ps \<Longrightarrow> 0 \<le> ps"
  "crate_surcharge_4_2 c = Some cs \<Longrightarrow> 0 \<le> cs"
  by (auto simp: pet_surcharge_4_2_def crate_surcharge_4_2_def split: if_splits)

lemma rat_trunc_nonneg: "0 \<le> m \<Longrightarrow> 0 \<le> rat_trunc m"
  by (simp add: rat_trunc_def)

lemma Calculate_formula:
  assumes d: "0 \<le> d"
    and p: "pet_surcharge_4_2 p = Some ps"
    and c: "crate_surcharge_4_2 c = Some cs"
    and m: "f64_mul (F64 d) (F64 250) = F64 m"
    and room: "500 + rat_trunc m + ps + cs < 2 ^ 63"
  shows "\<exists>total.
     Calculate impl \<lparr>PricingParams.DistanceKm = F64 d, PricingParams.PetType = p, CrateSize = c, IsScheduled = sched\<rparr>
       = Inr total
     \<and> sint total = 500 + rat_trunc m + ps + cs"
proof -
  from d have "0 \<le> d * 250" by simp
  moreover from m have m': "f64_round (d * 250) = F64 m" by simp
  ultimately have "0 \<le> m" by (rule f64_round_nonneg)
  then have t0: "0 \<le> rat_trunc m" by (rule rat_trunc_nonneg)
  from surcharge_bounds p c have s0: "0 \<le> ps" "0 \<le> cs" by simp_all
  from t0 s0 room have t: "- (2 ^ 63) \<le> rat_trunc m" "rat_trunc m < 2 ^ 63" by simp_all
  from m' t have conv: "int64_of_float64 impl (f64_round (d * 250)) = word_of_int (rat_trunc m)"
    by (simp add: int64_of_float64_def Let_def)
  have calc: "Calculate impl \<lparr>PricingParams.DistanceKm = F64 d, PricingParams.PetType = p, CrateSize = c, IsScheduled = sched\<rparr>
      = Inr (word_of_int (500 + rat_trunc m + ps + cs))"
    using d by (simp add: Calculate_def conv petTypeSurcharge_table [OF p]
        crateSizeSurcharge_table [OF c] Let_def)
  from t0 s0 have "- (2 ^ 63) \<le> 500 + rat_trunc m + ps + cs" by simp
  from sint_int64 [OF this room] calc show ?thesis by simp
qed

lemma Calculate_negative:
  "d < 0 \<Longrightarrow>
   Calculate impl \<lparr>PricingParams.DistanceKm = F64 d, PricingParams.PetType = p, CrateSize = c, IsScheduled = sched\<rparr>
     = Inl (Errorf ''distance cannot be negative'')"
  by (simp add: Calculate_def)

lemma f64_round_2500: "f64_round 2500 = F64 2500"
  by code_simp

lemma f64_round_0: "f64_round 0 = F64 0"
  by (simp add: f64_round_def)

lemma Calculate_examples:
  "Calculate impl \<lparr>PricingParams.DistanceKm = F64 10, PricingParams.PetType = ''dog'', CrateSize = ''medium'',
      IsScheduled = sched\<rparr> = Inr 4000"
  "Calculate impl \<lparr>PricingParams.DistanceKm = F64 0, PricingParams.PetType = ''cat'', CrateSize = ''small'',
      IsScheduled = sched\<rparr> = Inr 800"
  by (simp_all add: Calculate_def f64_round_2500 f64_round_0 int64_of_float64_def rat_trunc_def
        petTypeSurcharge_def crateSizeSurcharge_def pet_type_defs crate_size_defs Let_def)


lemma Calculate_neg_infinity:
  "Calculate impl \<lparr>PricingParams.DistanceKm = F64_NegInf, PricingParams.PetType = p,
          CrateSize = c, IsScheduled = sched\<rparr>
     = Inl (Errorf ''distance cannot be negative'')"
  by (simp add: Calculate_def)

lemma recognized_tables:
  "PetType_IsValid p \<longleftrightarrow> pet_surcharge_4_2 p \<noteq> None"
  "CrateSize_IsValid c \<longleftrightarrow> crate_surcharge_4_2 c \<noteq> None"
  by (simp_all add: PetType_IsValid_def CrateSize_IsValid_def pet_surcharge_4_2_def
        crate_surcharge_4_2_def pet_type_defs crate_size_defs)

text \<open>
  C5 (amended). Let \<open>d\<close> be a non-negative distance, \<open>p\<close> a recognized pet type and \<open>c\<close>
  a recognized crate size, let \<open>m\<close> be the \<^verbatim>\<open>float64\<close> product of \<open>d\<close> and 250, and let the sum
  500 + trunc \<open>m\<close> + pet surcharge + crate surcharge fit in an \<^verbatim>\<open>int64\<close>. Then the pricing
  function returns that sum, where the pet surcharge is dog 500, cat 300, bird 200, reptile
  800, rabbit 300, other 500 and the crate surcharge is small 0, medium 500, large 1000,
  x-large 2000. It returns an error for every negative distance. In particular the price of
  10 km, dog, medium is 4000 and the price of 0 km, cat, small is 800.
\<close>

theorem C5_price:
  "(\<forall>impl d p c sched m ps cs.
      0 \<le> d \<and> pet_surcharge_4_2 p = Some ps \<and> crate_surcharge_4_2 c = Some cs
      \<and> f64_mul (F64 d) (F64 250) = F64 m
      \<and> 500 + rat_trunc m + ps + cs < 2 ^ 63 \<longrightarrow>
      (\<exists>total.
         Calculate impl \<lparr>PricingParams.DistanceKm = F64 d, PricingParams.PetType = p,
          CrateSize = c, IsScheduled = sched\<rparr> = Inr total
         \<and> sint total = 500 + rat_trunc m + ps + cs))
   \<and> (\<forall>p. PetType_IsValid p \<longleftrightarrow> pet_surcharge_4_2 p \<noteq> None)
   \<and> (\<forall>c. CrateSize_IsValid c \<longleftrightarrow> crate_surcharge_4_2 c \<noteq> None)
   \<and> (\<forall>impl d p c sched. d < 0 \<longrightarrow>
        Calculate impl \<lparr>PricingParams.DistanceKm = F64 d, PricingParams.PetType = p,
          CrateSize = c, IsScheduled = sched\<rparr>
          = Inl (Errorf ''distance cannot be negative''))
   \<and> (\<forall>impl p c sched.
        Calculate impl \<lparr>PricingParams.DistanceKm = F64_NegInf, PricingParams.PetType = p,
          CrateSize = c, IsScheduled = sched\<rparr>
          = Inl (Errorf ''distance cannot be negative''))
   \<and> (\<forall>impl sched.
        Calculate impl \<lparr>PricingParams.DistanceKm = F64 10, PricingParams.PetType = ''dog'',
          CrateSize = ''medium'', IsScheduled = sched\<rparr> = Inr 4000)
   \<and> (\<forall>impl sched.
        Calculate impl \<lparr>PricingParams.DistanceKm = F64 0, PricingParams.PetType = ''cat'',
          CrateSize = ''small'', IsScheduled = sched\<rparr> = Inr 800)"
  using Calculate_formula Calculate_negative Calculate_neg_infinity Calculate_examples
    recognized_tables
  by (intro conjI allI impI; (elim conjE)?) blast+

text \<open>
  The product is the \<^verbatim>\<open>float64\<close> one: for the \<^verbatim>\<open>float64\<close> nearest to 0.7 the exact
  product with 250 lies just below 175 and truncates to 174, the \<^verbatim>\<open>float64\<close> product is 175.
\<close>

lemma float64_product_is_rounded:
  "f64_round (7 / 10) = F64 (3152519739159347 / 4503599627370496)
   \<and> f64_mul (F64 (3152519739159347 / 4503599627370496)) (F64 250) = F64 175
   \<and> rat_trunc (3152519739159347 / 4503599627370496 * 250) = 174"
  by code_simp

theorem C5_price_witness:
  "(\<exists>total.
      Calculate impl_amd64 \<lparr>PricingParams.DistanceKm = F64 (25 / 2), PricingParams.PetType = ''reptile'',
          CrateSize = ''xlarge'', IsScheduled = False\<rparr> = Inr total
      \<and> sint total = 6425)
   \<and> Calculate impl_amd64 \<lparr>PricingParams.DistanceKm = F64 (- 1), PricingParams.PetType = ''dog'',
          CrateSize = ''small'', IsScheduled = False\<rparr>
       = Inl (Errorf ''distance cannot be negative'')"
proof -
  note formula = C5_price [THEN conjunct1, rule_format]
  note negative = C5_price [THEN conjunct2, THEN conjunct2, THEN conjunct2, THEN conjunct1,
      rule_format]
  have m: "f64_mul (F64 (25 / 2)) (F64 250) = F64 3125"
    by code_simp
  have "(0::rat) \<le> 25 / 2 \<and> pet_surcharge_4_2 ''reptile'' = Some 800
      \<and> crate_surcharge_4_2 ''xlarge'' = Some 2000
      \<and> f64_mul (F64 (25 / 2)) (F64 250) = F64 3125
      \<and> 500 + rat_trunc 3125 + 800 + 2000 < 2 ^ 63"
    using m by (simp add: pet_surcharge_4_2_def crate_surcharge_4_2_def rat_trunc_def)
  from formula [OF this, of impl_amd64 False]
  have "\<exists>total.
      Calculate impl_amd64 \<lparr>PricingParams.DistanceKm = F64 (25 / 2), PricingParams.PetType = ''reptile'',
          CrateSize = ''xlarge'', IsScheduled = False\<rparr> = Inr total
      \<and> sint total = 6425"
    by (simp add: rat_trunc_def)
  moreover have "(- 1 :: rat) < 0" by simp
  from negative [OF this, of impl_amd64 "''dog''" "''small''" False]
  have "Calculate impl_amd64 \<lparr>PricingParams.DistanceKm = F64 (- 1), PricingParams.PetType = ''dog'',
          CrateSize = ''small'', IsScheduled = False\<rparr>
       = Inl (Errorf ''distance cannot be negative'')" .
  ultimately show ?thesis by blast
qed

text \<open>
  The claim as it is written fails for a distance whose charge does not fit in an
  \<^verbatim>\<open>int64\<close>. The distance \<open>10 ^ 19\<close> is a \<^verbatim>\<open>float64\<close>, its product with 250 is exact, and the
  claimed price 2500000000000000001000 is no \<^verbatim>\<open>int64\<close>: where the conversion yields the
  least \<^verbatim>\<open>int64\<close> the function returns a negative price.
\<close>

theorem C5_price_counterexample:
  "f64_round (10 ^ 19) = F64 (10 ^ 19)
   \<and> f64_mul (F64 (10 ^ 19)) (F64 250) = F64 (25 * 10 ^ 20)
   \<and> Calculate impl_amd64 \<lparr>PricingParams.DistanceKm = F64 (10 ^ 19), PricingParams.PetType = ''dog'',
          CrateSize = ''small'', IsScheduled = False\<rparr> = Inr (- 9223372036854774808)
   \<and> sint (- 9223372036854774808 :: int64) = - 9223372036854774808
   \<and> 500 + rat_trunc (25 * 10 ^ 20) + 500 + 0 = 2500000000000000001000"
proof -
  have r: "f64_round (10 ^ 19) = F64 (10 ^ 19)"
    by code_simp
  have m: "f64_round 2500000000000000000000 = F64 2500000000000000000000"
    by code_simp
  have t: "rat_trunc 2500000000000000000000 = 2500000000000000000000"
    by (simp add: rat_trunc_def)
  have "Calculate impl_amd64 \<lparr>PricingParams.DistanceKm = F64 (10 ^ 19), PricingParams.PetType = ''dog'',
          CrateSize = ''small'', IsScheduled = False\<rparr> = Inr (- 9223372036854774808)"
    by (simp add: Calculate_def m t int64_of_float64_def impl_amd64_def petTypeSurcharge_def
          crateSizeSurcharge_def pet_type_defs crate_size_defs Let_def)
  moreover have "sint (- 9223372036854774808 :: int64) = - 9223372036854774808"
    by simp
  ultimately show ?thesis using r m t by simp
qed

lemma Calculate_result_is_int64:
  "Calculate impl \<lparr>PricingParams.DistanceKm = F64 (10 ^ 19), PricingParams.PetType = ''dog'',
          CrateSize = ''small'', IsScheduled = False\<rparr> = Inr price \<Longrightarrow>
   sint price \<noteq> 2500000000000000001000"
  using sint_lt [of price] by simp

lemma f64_le_zero_not_lt: "f64_le (F64 0) x \<Longrightarrow> \<not> f64_lt x (F64 0)"
  by (cases x) simp_all

lemma petTypeSurcharge_recognized:
  "PetType_IsValid p \<Longrightarrow> \<exists>ps. petTypeSurcharge p = Inr ps"
  by (auto simp: PetType_IsValid_def petTypeSurcharge_def split: if_splits)

lemma petTypeSurcharge_unrecognized:
  "\<not> PetType_IsValid p \<Longrightarrow>
   petTypeSurcharge p = Inl (Errorf (''unknown pet type for pricing: '' @ p))"
  by (auto simp: PetType_IsValid_def petTypeSurcharge_def split: if_splits)

lemma crateSizeSurcharge_unrecognized:
  "\<not> CrateSize_IsValid c \<Longrightarrow> crateSizeSurcharge c = 0"
  by (auto simp: CrateSize_IsValid_def crateSizeSurcharge_def split: if_splits)

lemma Calculate_succeeds:
  assumes "f64_le (F64 0) (PricingParams.DistanceKm params)"
    and "PetType_IsValid (PricingParams.PetType params)"
  shows "\<exists>price. Calculate impl params = Inr price"
proof -
  from petTypeSurcharge_recognized [OF assms(2)] obtain ps where
    "petTypeSurcharge (PricingParams.PetType params) = Inr ps" ..
  with f64_le_zero_not_lt [OF assms(1)] show ?thesis
    by (simp add: Calculate_def Let_def)
qed

lemma Calculate_unrecognized_crate:
  assumes "\<not> CrateSize_IsValid (CrateSize params)"
  shows "Calculate impl params = Calculate impl (params\<lparr>CrateSize := CrateSizeSmall\<rparr>)"
  using crateSizeSurcharge_unrecognized [OF assms]
  by (simp add: Calculate_def Let_def crateSizeSurcharge_def split: sum.splits)

lemma Calculate_unrecognized_pet:
  assumes "\<not> PetType_IsValid (PricingParams.PetType params)"
  shows "\<exists>err. Calculate impl params = Inl err"
  using petTypeSurcharge_unrecognized [OF assms]
  by (simp add: Calculate_def Let_def)

text \<open>
  C10. With a non-negative distance and a recognized pet type \<^verbatim>\<open>Calculate\<close> succeeds
  whatever the crate size; for an unrecognized crate size the surcharge is 0 and the price
  is the one of the small crate, whose surcharge is 0. With an unrecognized pet type
  \<^verbatim>\<open>Calculate\<close> returns an error, whatever the distance and the crate size.
\<close>

theorem C10_asymmetry:
  "(\<forall>impl params.
      f64_le (F64 0) (PricingParams.DistanceKm params)
      \<and> PetType_IsValid (PricingParams.PetType params) \<longrightarrow>
      (\<exists>price. Calculate impl params = Inr price))
   \<and> (\<forall>impl params. \<not> CrateSize_IsValid (CrateSize params) \<longrightarrow>
        crateSizeSurcharge (CrateSize params) = 0
        \<and> crateSizeSurcharge CrateSizeSmall = 0
        \<and> Calculate impl params = Calculate impl (params\<lparr>CrateSize := CrateSizeSmall\<rparr>))
   \<and> (\<forall>impl params. \<not> PetType_IsValid (PricingParams.PetType params) \<longrightarrow>
        (\<exists>err. Calculate impl params = Inl err))"
proof (intro conjI allI impI)
  fix impl and params :: PricingParams
  assume "f64_le (F64 0) (PricingParams.DistanceKm params)
      \<and> PetType_IsValid (PricingParams.PetType params)"
  then show "\<exists>price. Calculate impl params = Inr price"
    using Calculate_succeeds by blast
next
  fix impl and params :: PricingParams
  assume "\<not> CrateSize_IsValid (CrateSize params)"
  then show "crateSizeSurcharge (CrateSize params) = 0"
    and "Calculate impl params = Calculate impl (params\<lparr>CrateSize := CrateSizeSmall\<rparr>)"
    by (simp_all add: crateSizeSurcharge_unrecognized Calculate_unrecognized_crate)
  show "crateSizeSurcharge CrateSizeSmall = 0"
    by (simp add: crateSizeSurcharge_def)
next
  fix impl and params :: PricingParams
  assume "\<not> PetType_IsValid (PricingParams.PetType params)"
  then show "\<exists>err. Calculate impl params = Inl err"
    by (rule Calculate_unrecognized_pet)
qed

theorem C10_asymmetry_witness:
  "Calculate impl_amd64
     \<lparr>PricingParams.DistanceKm = F64 10, PricingParams.PetType = ''dog'',
      CrateSize = ''jumbo'', IsScheduled = False\<rparr>
   = Calculate impl_amd64
     \<lparr>PricingParams.DistanceKm = F64 10, PricingParams.PetType = ''dog'',
      CrateSize = ''small'', IsScheduled = False\<rparr>
   \<and> (\<exists>price. Calculate impl_amd64
     \<lparr>PricingParams.DistanceKm = F64 10, PricingParams.PetType = ''dog'',
      CrateSize = ''jumbo'', IsScheduled = False\<rparr> = Inr price)
   \<and> (\<exists>err. Calculate impl_amd64
     \<lparr>PricingParams.DistanceKm = F64 10, PricingParams.PetType = ''hamster'',
      CrateSize = ''small'', IsScheduled = False\<rparr> = Inl err)"
proof -
  note succeeds = C10_asymmetry [THEN conjunct1, rule_format]
  note crate = C10_asymmetry [THEN conjunct2, THEN conjunct1, rule_format]
  note pet = C10_asymmetry [THEN conjunct2, THEN conjunct2, rule_format]
  let ?jumbo = "\<lparr>PricingParams.DistanceKm = F64 10, PricingParams.PetType = ''dog'',
      CrateSize = ''jumbo'', IsScheduled = False\<rparr>"
  let ?hamster = "\<lparr>PricingParams.DistanceKm = F64 10, PricingParams.PetType = ''hamster'',
      CrateSize = ''small'', IsScheduled = False\<rparr>"
  have "f64_le (F64 0) (PricingParams.DistanceKm ?jumbo)
      \<and> PetType_IsValid (PricingParams.PetType ?jumbo)"
    by (simp add: PetType_IsValid_def pet_type_defs)
  from succeeds [OF this] have a: "\<exists>price. Calculate impl_amd64 ?jumbo = Inr price" .
  have "\<not> CrateSize_IsValid (CrateSize ?jumbo)"
    by (simp add: CrateSize_IsValid_def crate_size_defs)
  from crate [OF this, of impl_amd64]
  have b: "Calculate impl_amd64 ?jumbo = Calculate impl_amd64 (?jumbo\<lparr>CrateSize := ''small''\<rparr>)"
    by (simp add: crate_size_defs)
  have "\<not> PetType_IsValid (PricingParams.PetType ?hamster)"
    by (simp add: PetType_IsValid_def pet_type_defs)
  from pet [OF this] have c: "\<exists>err. Calculate impl_amd64 ?hamster = Inl err" .
  from a b c show ?thesis by simp
qed

subsection \<open>C8: the crate requirement\<close>

text \<open>
  C8. The minimum crate size is small for a weight up to 5, medium above 5 and up to
  15, large above 15 and up to 30, and x-large in every other case; ventilation is
  required for every pet; temperature control is required exactly for the pet type
  reptile; the minimum weight capacity is the \<^verbatim>\<open>float64\<close> product of the weight and the
  constant 1.2.
\<close>

theorem C8_crate_requirement:
  "(f64_le (WeightKg spec) (F64 5) \<longrightarrow>
      MinimumSize (DetermineCrateRequirement spec) = CrateSizeSmall)
   \<and> (f64_lt (F64 5) (WeightKg spec) \<and> f64_le (WeightKg spec) (F64 15) \<longrightarrow>
      MinimumSize (DetermineCrateRequirement spec) = CrateSizeMedium)
   \<and> (f64_lt (F64 15) (WeightKg spec) \<and> f64_le (WeightKg spec) (F64 30) \<longrightarrow>
      MinimumSize (DetermineCrateRequirement spec) = CrateSizeLarge)
   \<and> (\<not> f64_le (WeightKg spec) (F64 5)
      \<and> \<not> (f64_lt (F64 5) (WeightKg spec) \<and> f64_le (WeightKg spec) (F64 15))
      \<and> \<not> (f64_lt (F64 15) (WeightKg spec) \<and> f64_le (WeightKg spec) (F64 30)) \<longrightarrow>
      MinimumSize (DetermineCrateRequirement spec) = CrateSizeXLarge)
   \<and> NeedsVentilation (DetermineCrateRequirement spec)
   \<and> (NeedsTempControl (DetermineCrateRequirement spec)
        \<longleftrightarrow> PetSpecification.PetType spec = PetTypeReptile)
   \<and> MinimumWeightCapacity (DetermineCrateRequirement spec)
        = f64_mul (WeightKg spec) (f64_round (12 / 10))"
  by (cases "WeightKg spec") (auto simp: DetermineCrateRequirement_def Let_def)

theorem C8_crate_requirement_witness:
  "DetermineCrateRequirement
     ((petSpec (fixture_booking [] 0))\<lparr>PetSpecification.PetType := ''cat'', WeightKg := F64 4\<rparr>)
     = \<lparr>MinimumSize = ''small'', NeedsVentilation = True, NeedsTempControl = False,
        MinimumWeightCapacity = f64_round (48 / 10)\<rparr>
   \<and> MinimumSize (DetermineCrateRequirement
        ((petSpec (fixture_booking [] 0))\<lparr>WeightKg := F64 12\<rparr>)) = ''medium''
   \<and> MinimumSize (DetermineCrateRequirement
        ((petSpec (fixture_booking [] 0))\<lparr>WeightKg := F64 20\<rparr>)) = ''large''
   \<and> MinimumSize (DetermineCrateRequirement
        ((petSpec (fixture_booking [] 0))\<lparr>WeightKg := F64 31\<rparr>)) = ''xlarge''
   \<and> MinimumSize (DetermineCrateRequirement
        ((petSpec (fixture_booking [] 0))\<lparr>WeightKg := F64_NaN\<rparr>)) = ''xlarge''
   \<and> NeedsTempControl (DetermineCrateRequirement
        ((petSpec (fixture_booking [] 0))\<lparr>PetSpecification.PetType := ''reptile''\<rparr>))"
proof -
  let ?s = "petSpec (fixture_booking [] 0)"
  have cap: "f64_mul (F64 4) (f64_round (12 / 10)) = f64_round (48 / 10)"
    by code_simp
  have "DetermineCrateRequirement (?s\<lparr>PetSpecification.PetType := ''cat'', WeightKg := F64 4\<rparr>)
     = \<lparr>MinimumSize = ''small'', NeedsVentilation = True, NeedsTempControl = False,
        MinimumWeightCapacity = f64_round (48 / 10)\<rparr>"
    using C8_crate_requirement
      [of "?s\<lparr>PetSpecification.PetType := ''cat'', WeightKg := F64 4\<rparr>"] cap
    by (cases "DetermineCrateRequirement
          (?s\<lparr>PetSpecification.PetType := ''cat'', WeightKg := F64 4\<rparr>)")
       (simp add: crate_size_defs pet_type_defs)
  moreover have "MinimumSize (DetermineCrateRequirement (?s\<lparr>WeightKg := F64 12\<rparr>)) = ''medium''"
    using C8_crate_requirement [of "?s\<lparr>WeightKg := F64 12\<rparr>"]
    by (simp add: crate_size_defs)
  moreover have "MinimumSize (DetermineCrateRequirement (?s\<lparr>WeightKg := F64 20\<rparr>)) = ''large''"
    using C8_crate_requirement [of "?s\<lparr>WeightKg := F64 20\<rparr>"]
    by (simp add: crate_size_defs)
  moreover have "MinimumSize (DetermineCrateRequirement (?s\<lparr>WeightKg := F64 31\<rparr>)) = ''xlarge''"
    using C8_crate_requirement [of "?s\<lparr>WeightKg := F64 31\<rparr>"]
    by (simp add: crate_size_defs)
  moreover have "MinimumSize (DetermineCrateRequirement (?s\<lparr>WeightKg := F64_NaN\<rparr>)) = ''xlarge''"
    using C8_crate_requirement [of "?s\<lparr>WeightKg := F64_NaN\<rparr>"]
    by (simp add: crate_size_defs)
  moreover have "NeedsTempControl (DetermineCrateRequirement
        (?s\<lparr>PetSpecification.PetType := ''reptile''\<rparr>))"
    using C8_crate_requirement [of "?s\<lparr>PetSpecification.PetType := ''reptile''\<rparr>"]
    by (simp add: pet_type_defs)
  ultimately show ?thesis by blast
qed

end
